theory Spec2Isabelle
  imports Complex_Main "HOL-Library.Word"
begin

section \<open>The multiplayer UDP game server (src/server/game_server.c)\<close>

text \<open>
  A shallow embedding of the single-threaded server loop. Conventions:
  \<^item> \<open>uint8_t\<close> and \<open>uint32_t\<close> are \<open>8 word\<close> and \<open>32 word\<close>; \<open>time_t\<close>, \<open>long\<close> and
    \<open>int\<close> counters are \<open>int\<close>;
  \<^item> \<open>float\<close> is \<open>real\<close>. Where the code decides by comparing such values what a
    chaser's attack does (the attack block of \<open>update_bobba_ai\<close>, \<open>distance_3d\<close>, the
    tick length computed in \<open>main\<close>), every operation is rounded as IEEE 754 binary32
    does, see \<open>f32\<close> below; elsewhere (movement, roaming, the patroller, health and stun
    timers) the operations are exact, rounding there is outside the model. Infinities,
    NaN and the sign of zero are outside the model everywhere, and a division by zero
    yields 0;
  \<^item> an \<open>int\<close> used only as a flag (\<open>active\<close>, \<open>has_hit_this_attack\<close>) is \<open>bool\<close>;
  \<^item> the global arrays are lists, the globals are the fields of the record \<open>server\<close>;
  \<^item> \<open>sendto\<close> appends the datagram (destination, length argument, content) to \<open>outbox\<close>;
  \<^item> \<open>time(NULL)\<close> is a parameter of the function that calls it, \<open>rand()\<close> reads the
    next entry of \<open>rand_tape\<close>; \<open>printf\<close> and \<open>fflush\<close> are omitted.
\<close>

subsection \<open>Binary floating point\<close>

text \<open>
  Rounding of a real to the nearest number with \<open>p\<close> significant bits and exponent at
  least \<open>emin\<close>, ties to the even significand: \<open>binade n x\<close> is the exponent \<open>e\<close> with
  \<open>2^e \<le> x < 2^(e+1)\<close>, searched in at most \<open>n\<close> steps, the unit in the last place is
  \<open>2^(e - p + 1)\<close>, below \<open>2^emin\<close> it stays that of \<open>2^emin\<close> (subnormal numbers). The
  result is not bounded above: where the machine would overflow to an infinity the
  model goes on with the rounded real.

  \<open>f32\<close> is the value a \<open>float\<close> operation stores (binary32, each operation rounded on its
  own, no fused multiply-add), \<open>f64\<close> the same for \<open>double\<close> (binary64).
\<close>

definition pow2 :: "int \<Rightarrow> real" where
  "pow2 e = (if e \<ge> 0 then 2 ^ nat e else 1 / 2 ^ nat (- e))"

primrec binade :: "nat \<Rightarrow> real \<Rightarrow> int" where
  "binade 0 x = 0"
| "binade (Suc n) x =
     (if 2 \<le> x then binade n (x / 2) + 1
      else if x < 1 then binade n (2 * x) - 1
      else 0)"

definition round_half_even :: "real \<Rightarrow> int" where
  "round_half_even q =
     (let f = \<lfloor>q\<rfloor>
      in if q - of_int f < 1 / 2 then f
         else if q - of_int f > 1 / 2 then f + 1
         else if even f then f else f + 1)"

definition round_to :: "nat \<Rightarrow> int \<Rightarrow> real \<Rightarrow> real" where
  "round_to p emin x =
     (if x = 0 then 0
      else let e = max (binade 1200 \<bar>x\<bar>) emin;
               u = pow2 (e - int p + 1)
           in of_int (round_half_even (x / u)) * u)"

definition f32 :: "real \<Rightarrow> real" where
  "f32 = round_to 24 (- 126)"

definition f64 :: "real \<Rightarrow> real" where
  "f64 = round_to 53 (- 1022)"

subsection \<open>Constants\<close>

text \<open>
  The constants \<open>0.3f\<close> and \<open>0.7f\<close> are the binary32 numbers nearest to 3/10 and 7/10;
  the other \<open>float\<close> constants are binary32 numbers as written.
\<close>

abbreviation (input) MAX_PLAYERS :: nat where "MAX_PLAYERS \<equiv> 32"
abbreviation (input) MAX_SPECTATORS :: nat where "MAX_SPECTATORS \<equiv> 32"
abbreviation (input) MAX_ENTITIES :: nat where "MAX_ENTITIES \<equiv> 64"
abbreviation (input) MAX_BOBBAS :: nat where "MAX_BOBBAS \<equiv> 4"
abbreviation (input) MAX_DRAGONS :: nat where "MAX_DRAGONS \<equiv> 1"
abbreviation (input) BUFFER_SIZE :: nat where "BUFFER_SIZE \<equiv> 2048"
abbreviation (input) PLAYER_TIMEOUT_SEC :: int where "PLAYER_TIMEOUT_SEC \<equiv> 10"
abbreviation (input) BROADCAST_INTERVAL_MS :: int where "BROADCAST_INTERVAL_MS \<equiv> 50"
abbreviation (input) ENTITY_UPDATE_INTERVAL_MS :: int where "ENTITY_UPDATE_INTERVAL_MS \<equiv> 50"
abbreviation (input) RAND_MAX :: nat where "RAND_MAX \<equiv> 2147483647"

abbreviation (input) STATE_IDLE :: "8 word" where "STATE_IDLE \<equiv> 0"

abbreviation (input) PKT_JOIN :: "8 word" where "PKT_JOIN \<equiv> 1"
abbreviation (input) PKT_JOIN_ACK :: "8 word" where "PKT_JOIN_ACK \<equiv> 2"
abbreviation (input) PKT_LEAVE :: "8 word" where "PKT_LEAVE \<equiv> 3"
abbreviation (input) PKT_WORLD_STATE :: "8 word" where "PKT_WORLD_STATE \<equiv> 4"
abbreviation (input) PKT_UPDATE :: "8 word" where "PKT_UPDATE \<equiv> 5"
abbreviation (input) PKT_PING :: "8 word" where "PKT_PING \<equiv> 7"
abbreviation (input) PKT_PONG :: "8 word" where "PKT_PONG \<equiv> 8"
abbreviation (input) PKT_ENTITY_STATE :: "8 word" where "PKT_ENTITY_STATE \<equiv> 9"
abbreviation (input) PKT_ENTITY_DAMAGE :: "8 word" where "PKT_ENTITY_DAMAGE \<equiv> 10"
abbreviation (input) PKT_ARROW_SPAWN :: "8 word" where "PKT_ARROW_SPAWN \<equiv> 11"
abbreviation (input) PKT_ARROW_HIT :: "8 word" where "PKT_ARROW_HIT \<equiv> 12"
abbreviation (input) PKT_HEARTBEAT :: "8 word" where "PKT_HEARTBEAT \<equiv> 14"
abbreviation (input) PKT_SPECTATE :: "8 word" where "PKT_SPECTATE \<equiv> 15"
abbreviation (input) PKT_SPECTATE_ACK :: "8 word" where "PKT_SPECTATE_ACK \<equiv> 16"
abbreviation (input) PKT_PLAYER_DAMAGE :: "8 word" where "PKT_PLAYER_DAMAGE \<equiv> 17"
abbreviation (input) PKT_GAME_RESTART :: "8 word" where "PKT_GAME_RESTART \<equiv> 18"

abbreviation (input) ENTITY_BOBBA :: "8 word" where "ENTITY_BOBBA \<equiv> 0"
abbreviation (input) ENTITY_DRAGON :: "8 word" where "ENTITY_DRAGON \<equiv> 1"

abbreviation (input) BOBBA_ROAMING :: "8 word" where "BOBBA_ROAMING \<equiv> 0"
abbreviation (input) BOBBA_CHASING :: "8 word" where "BOBBA_CHASING \<equiv> 1"
abbreviation (input) BOBBA_ATTACKING :: "8 word" where "BOBBA_ATTACKING \<equiv> 2"
abbreviation (input) BOBBA_IDLE :: "8 word" where "BOBBA_IDLE \<equiv> 3"
abbreviation (input) BOBBA_STUNNED :: "8 word" where "BOBBA_STUNNED \<equiv> 4"

abbreviation (input) BOBBA_DETECTION_RADIUS :: real where "BOBBA_DETECTION_RADIUS \<equiv> 10"
abbreviation (input) BOBBA_LOSE_RADIUS :: real where "BOBBA_LOSE_RADIUS \<equiv> 20"
abbreviation (input) BOBBA_ATTACK_DISTANCE :: real where "BOBBA_ATTACK_DISTANCE \<equiv> 2"
abbreviation (input) BOBBA_ROAM_SPEED :: real where "BOBBA_ROAM_SPEED \<equiv> 2"
abbreviation (input) BOBBA_CHASE_SPEED :: real where "BOBBA_CHASE_SPEED \<equiv> 5"
abbreviation (input) BOBBA_ROAM_CHANGE_TIME :: real where "BOBBA_ROAM_CHANGE_TIME \<equiv> 3"
abbreviation (input) BOBBA_ATTACK_DURATION :: real where "BOBBA_ATTACK_DURATION \<equiv> 3 / 2"
abbreviation (input) BOBBA_ATTACK_DAMAGE :: real where "BOBBA_ATTACK_DAMAGE \<equiv> 70"
abbreviation (input) BOBBA_KNOCKBACK_FORCE :: real where "BOBBA_KNOCKBACK_FORCE \<equiv> 12"
abbreviation (input) BOBBA_HIT_WINDOW_START :: real where "BOBBA_HIT_WINDOW_START \<equiv> f32 (3 / 10)"
abbreviation (input) BOBBA_HIT_WINDOW_END :: real where "BOBBA_HIT_WINDOW_END \<equiv> f32 (7 / 10)"

abbreviation (input) DRAGON_PATROL :: "8 word" where "DRAGON_PATROL \<equiv> 0"
abbreviation (input) DRAGON_FLYING_TO_LAND :: "8 word" where "DRAGON_FLYING_TO_LAND \<equiv> 1"
abbreviation (input) DRAGON_LANDING :: "8 word" where "DRAGON_LANDING \<equiv> 2"
abbreviation (input) DRAGON_WAIT :: "8 word" where "DRAGON_WAIT \<equiv> 3"
abbreviation (input) DRAGON_TAKING_OFF :: "8 word" where "DRAGON_TAKING_OFF \<equiv> 4"
abbreviation (input) DRAGON_ATTACKING :: "8 word" where "DRAGON_ATTACKING \<equiv> 5"

abbreviation (input) DRAGON_PATROL_RADIUS :: real where "DRAGON_PATROL_RADIUS \<equiv> 100"
abbreviation (input) DRAGON_PATROL_HEIGHT :: real where "DRAGON_PATROL_HEIGHT \<equiv> 80"
abbreviation (input) DRAGON_PATROL_SPEED :: real where "DRAGON_PATROL_SPEED \<equiv> 25"
abbreviation (input) DRAGON_LAPS_BEFORE_LANDING :: int where "DRAGON_LAPS_BEFORE_LANDING \<equiv> 2"
abbreviation (input) DRAGON_WAIT_TIME :: real where "DRAGON_WAIT_TIME \<equiv> 5"
abbreviation (input) DRAGON_ATTACK_RANGE :: real where "DRAGON_ATTACK_RANGE \<equiv> 40"
abbreviation (input) DRAGON_LANDING_SPOT_X :: real where "DRAGON_LANDING_SPOT_X \<equiv> 0"
abbreviation (input) DRAGON_LANDING_SPOT_Y :: real where "DRAGON_LANDING_SPOT_Y \<equiv> 5"
abbreviation (input) DRAGON_LANDING_SPOT_Z :: real where "DRAGON_LANDING_SPOT_Z \<equiv> 50"

subsection \<open>Packed wire structures\<close>

text \<open>\<open>char anim_name[32]\<close> is the list of its 32 bytes.\<close>

record PlayerData =
  pd_player_id :: "32 word"
  pd_pos_x :: real
  pd_pos_y :: real
  pd_pos_z :: real
  pd_rot_y :: real
  pd_state :: "8 word"
  pd_combat_mode :: "8 word"
  pd_character_class :: "8 word"
  pd_health :: real
  pd_anim_name :: string
  pd_active :: "8 word"

record PacketHeader =
  h_type :: "8 word"
  h_sequence :: "32 word"
  h_player_id :: "32 word"

record EntityData =
  e_entity_type :: "8 word"
  e_entity_id :: "32 word"
  e_pos_x :: real
  e_pos_y :: real
  e_pos_z :: real
  e_rot_y :: real
  e_state :: "8 word"
  e_health :: real
  e_extra1 :: "32 word"
  e_extra2 :: real

text \<open>
  \<open>sizeof\<close> under \<open>#pragma pack(push, 1)\<close>: the sum of the field widths, in the order of
  the declarations.
\<close>

definition sizeof_PlayerData :: nat where
  "sizeof_PlayerData = 4 + (4 + 4 + 4) + 4 + 1 + 1 + 1 + 4 + 32 + 1"

definition sizeof_PacketHeader :: nat where
  "sizeof_PacketHeader = 1 + 4 + 4"

definition sizeof_JoinPacket :: nat where
  "sizeof_JoinPacket = sizeof_PacketHeader + 32"

definition sizeof_UpdatePacket :: nat where
  "sizeof_UpdatePacket = sizeof_PacketHeader + sizeof_PlayerData"

definition sizeof_JoinAckPacket :: nat where
  "sizeof_JoinAckPacket = sizeof_PacketHeader + 4 + sizeof_PlayerData"

definition sizeof_WorldStatePacket :: nat where
  "sizeof_WorldStatePacket = sizeof_PacketHeader + 4 + 1 + MAX_PLAYERS * sizeof_PlayerData"

definition sizeof_EntityData :: nat where
  "sizeof_EntityData = 1 + 4 + (4 + 4 + 4) + 4 + 1 + 4 + 4 + 4"

definition sizeof_ArrowSpawnPacket :: nat where
  "sizeof_ArrowSpawnPacket = sizeof_PacketHeader + 4 + (4 + 4 + 4) + (4 + 4 + 4) + 4"

definition sizeof_ArrowHitPacket :: nat where
  "sizeof_ArrowHitPacket = sizeof_PacketHeader + 4 + (4 + 4 + 4) + 4"

definition sizeof_EntityDamagePacket :: nat where
  "sizeof_EntityDamagePacket = sizeof_PacketHeader + 4 + 4 + 4"

definition sizeof_PlayerDamagePacket :: nat where
  "sizeof_PlayerDamagePacket = sizeof_PacketHeader + 4 + 4 + 4 + (4 + 4 + 4)"

definition sizeof_GameRestartPacket :: nat where
  "sizeof_GameRestartPacket = sizeof_PacketHeader + 4"

text \<open>
  The receive buffer of \<open>main\<close>, seen through the struct casts the dispatcher applies to
  it: the header, and the payload read as a join, an update, an entity-damage and a
  game-restart packet. The arrow packets are only relayed, so their payload is \<open>buf_rest\<close>,
  the raw bytes after the header.
\<close>

record buffer =
  buf_header :: PacketHeader
  buf_player_name :: string
  buf_data :: PlayerData
  buf_entity_id :: "32 word"
  buf_damage :: real
  buf_attacker_id :: "32 word"
  buf_reason :: "32 word"
  buf_rest :: "8 word list"

text \<open>What a \<open>sendto\<close> call transmits.\<close>

datatype packet =
    HeaderPkt PacketHeader
  | JoinAckPkt PacketHeader "32 word" PlayerData
  | WorldStatePkt PacketHeader "32 word" "8 word" "PlayerData list"
  | EntityStatePkt PacketHeader "8 word" "EntityData list"
  | PlayerDamagePkt PacketHeader "32 word" real "32 word" real real real
  | GameRestartPkt PacketHeader "32 word"
  | RelayedPkt buffer

record sockaddr_in =
  s_addr :: "32 word"
  sin_port :: "16 word"

record sent =
  sent_to :: sockaddr_in
  sent_len :: nat
  sent_pkt :: packet

subsection \<open>Server state\<close>

record Player =
  pl_player_id :: "32 word"
  pl_name :: string
  pl_addr :: sockaddr_in
  pl_last_seen :: int
  pl_data :: PlayerData
  pl_active :: bool

record Spectator =
  sp_addr :: sockaddr_in
  sp_last_seen :: int
  sp_active :: bool

record ServerBobba =
  b_entity_id :: "32 word"
  b_pos_x :: real
  b_pos_y :: real
  b_pos_z :: real
  b_rot_y :: real
  b_state :: "8 word"
  b_health :: real
  b_active :: bool
  b_target_player_id :: "32 word"
  b_roam_dir_x :: real
  b_roam_dir_z :: real
  b_roam_timer :: real
  b_attack_timer :: real
  b_attack_start_time :: real
  b_stun_timer :: real
  b_has_hit_this_attack :: bool

record ServerDragon =
  d_entity_id :: "32 word"
  d_pos_x :: real
  d_pos_y :: real
  d_pos_z :: real
  d_rot_y :: real
  d_state :: "8 word"
  d_health :: real
  d_active :: bool
  d_patrol_angle :: real
  d_patrol_center_x :: real
  d_patrol_center_z :: real
  d_laps_completed :: int
  d_wait_timer :: real
  d_attack_timer :: real
  d_target_player_id :: "32 word"

record server =
  players :: "Player list"
  spectators :: "Spectator list"
  bobbas :: "ServerBobba list"
  dragons :: "ServerDragon list"
  next_player_id :: "32 word"
  next_entity_id :: "32 word"
  state_sequence :: "32 word"
  test_multiplayer :: bool
  rand_tape :: "nat \<Rightarrow> nat"
  rand_calls :: nat
  outbox :: "sent list"

text \<open>The values \<open>memset(_, 0, _)\<close> leaves in a structure.\<close>

definition zero_PlayerData :: PlayerData where
  "zero_PlayerData = \<lparr>pd_player_id = 0, pd_pos_x = 0, pd_pos_y = 0, pd_pos_z = 0, pd_rot_y = 0,
     pd_state = 0, pd_combat_mode = 0, pd_character_class = 0, pd_health = 0,
     pd_anim_name = replicate 32 (CHR 0x00), pd_active = 0\<rparr>"

definition zero_sockaddr :: sockaddr_in where
  "zero_sockaddr = \<lparr>s_addr = 0, sin_port = 0\<rparr>"

definition zero_Player :: Player where
  "zero_Player = \<lparr>pl_player_id = 0, pl_name = [], pl_addr = zero_sockaddr, pl_last_seen = 0,
     pl_data = zero_PlayerData, pl_active = False\<rparr>"

definition zero_Spectator :: Spectator where
  "zero_Spectator = \<lparr>sp_addr = zero_sockaddr, sp_last_seen = 0, sp_active = False\<rparr>"

definition zero_ServerBobba :: ServerBobba where
  "zero_ServerBobba = \<lparr>b_entity_id = 0, b_pos_x = 0, b_pos_y = 0, b_pos_z = 0, b_rot_y = 0,
     b_state = 0, b_health = 0, b_active = False, b_target_player_id = 0, b_roam_dir_x = 0,
     b_roam_dir_z = 0, b_roam_timer = 0, b_attack_timer = 0, b_attack_start_time = 0,
     b_stun_timer = 0, b_has_hit_this_attack = False\<rparr>"

definition zero_ServerDragon :: ServerDragon where
  "zero_ServerDragon = \<lparr>d_entity_id = 0, d_pos_x = 0, d_pos_y = 0, d_pos_z = 0, d_rot_y = 0,
     d_state = 0, d_health = 0, d_active = False, d_patrol_angle = 0, d_patrol_center_x = 0,
     d_patrol_center_z = 0, d_laps_completed = 0, d_wait_timer = 0, d_attack_timer = 0,
     d_target_player_id = 0\<rparr>"

definition zero_EntityData :: EntityData where
  "zero_EntityData = \<lparr>e_entity_type = 0, e_entity_id = 0, e_pos_x = 0, e_pos_y = 0, e_pos_z = 0,
     e_rot_y = 0, e_state = 0, e_health = 0, e_extra1 = 0, e_extra2 = 0\<rparr>"

subsection \<open>Environment: \<open>sendto\<close> and \<open>rand\<close>\<close>

definition sendto :: "packet \<Rightarrow> nat \<Rightarrow> sockaddr_in \<Rightarrow> server \<Rightarrow> server" where
  "sendto p n dest s = s\<lparr>outbox := outbox s @ [\<lparr>sent_to = dest, sent_len = n, sent_pkt = p\<rparr>]\<rparr>"

definition rand :: "server \<Rightarrow> nat \<times> server" where
  "rand s = (rand_tape s (rand_calls s), s\<lparr>rand_calls := rand_calls s + 1\<rparr>)"

text \<open>The comparison of two endpoints that the source writes out field by field.\<close>

definition same_endpoint :: "sockaddr_in \<Rightarrow> sockaddr_in \<Rightarrow> bool" where
  "same_endpoint a b \<longleftrightarrow> s_addr a = s_addr b \<and> sin_port a = sin_port b"

subsection \<open>Session table\<close>

text \<open>
  The lookups return the index of the slot, \<open>None\<close> for \<open>NULL\<close> (and for \<open>-1\<close>). Each is the
  source's linear scan from slot 0, returning at the first hit.
\<close>

fun first_index :: "('a \<Rightarrow> bool) \<Rightarrow> 'a list \<Rightarrow> nat option" where
  "first_index P [] = None"
| "first_index P (x # xs) =
     (if P x then Some 0 else map_option Suc (first_index P xs))"

definition find_player_by_addr :: "server \<Rightarrow> sockaddr_in \<Rightarrow> nat option" where
  "find_player_by_addr s addr =
     first_index (\<lambda>p. pl_active p \<and> same_endpoint (pl_addr p) addr) (players s)"

definition find_player_by_id :: "server \<Rightarrow> 32 word \<Rightarrow> nat option" where
  "find_player_by_id s ident =
     first_index (\<lambda>p. pl_active p \<and> pl_player_id p = ident) (players s)"

definition find_free_slot :: "server \<Rightarrow> nat option" where
  "find_free_slot s = first_index (\<lambda>p. \<not> pl_active p) (players s)"

definition count_active_players :: "server \<Rightarrow> nat" where
  "count_active_players s = length (filter pl_active (players s))"

subsection \<open>Broadcasts\<close>

text \<open>
  Sending one packet to every active player, then to every active spectator: the two
  \<open>for\<close> loops that close \<open>broadcast_world_state\<close> and \<open>broadcast_entity_state\<close>.
\<close>

definition send_to_players :: "packet \<Rightarrow> nat \<Rightarrow> server \<Rightarrow> server" where
  "send_to_players p n s =
     fold (\<lambda>pl. sendto p n (pl_addr pl)) (filter pl_active (players s)) s"

definition send_to_spectators :: "packet \<Rightarrow> nat \<Rightarrow> server \<Rightarrow> server" where
  "send_to_spectators p n s =
     fold (\<lambda>sp. sendto p n (sp_addr sp)) (filter sp_active (spectators s)) s"

text \<open>
  \<open>broadcast_world_state\<close>: the packet is zeroed, the counter is pre-incremented and
  stamped twice, the active records are copied to the front of the 32-record array, and
  \<open>sizeof(packet)\<close> bytes are sent.
\<close>

definition world_state_packet :: "server \<Rightarrow> packet" where
  "world_state_packet s =
     (let recs = take MAX_PLAYERS (map pl_data (filter pl_active (players s)));
          count = length recs
      in WorldStatePkt
           \<lparr>h_type = PKT_WORLD_STATE, h_sequence = state_sequence s, h_player_id = 0\<rparr>
           (state_sequence s)
           (of_nat count)
           (recs @ replicate (MAX_PLAYERS - count) zero_PlayerData))"

definition broadcast_world_state :: "server \<Rightarrow> server" where
  "broadcast_world_state s =
     (let s1 = s\<lparr>state_sequence := state_sequence s + 1\<rparr>;
          packet = world_state_packet s1;
          s2 = send_to_players packet sizeof_WorldStatePacket s1
      in send_to_spectators packet sizeof_WorldStatePacket s2)"


text \<open>
  \<open>broadcast_entity_state\<close>: nothing is sent (and the counter stays) when no entity is
  active; otherwise the active chasers, then the active patrollers, fill the front of the
  64-entry array and \<open>sizeof(PacketHeader) + 1 + idx * sizeof(EntityData)\<close> bytes are sent,
  that is the header, the count and the first \<open>idx\<close> entries.
\<close>

definition bobba_entity :: "ServerBobba \<Rightarrow> EntityData" where
  "bobba_entity b = zero_EntityData\<lparr>e_entity_type := ENTITY_BOBBA, e_entity_id := b_entity_id b,
     e_pos_x := b_pos_x b, e_pos_y := b_pos_y b, e_pos_z := b_pos_z b, e_rot_y := b_rot_y b,
     e_state := b_state b, e_health := b_health b\<rparr>"

definition dragon_entity :: "ServerDragon \<Rightarrow> EntityData" where
  "dragon_entity d = zero_EntityData\<lparr>e_entity_type := ENTITY_DRAGON, e_entity_id := d_entity_id d,
     e_pos_x := d_pos_x d, e_pos_y := d_pos_y d, e_pos_z := d_pos_z d, e_rot_y := d_rot_y d,
     e_state := d_state d, e_health := d_health d,
     e_extra1 := word_of_int (d_laps_completed d), e_extra2 := d_patrol_angle d\<rparr>"

definition broadcast_entity_state :: "server \<Rightarrow> server" where
  "broadcast_entity_state s =
     (let entity_count = length (filter b_active (bobbas s)) + length (filter d_active (dragons s))
      in if entity_count = 0 then s
         else
           let s1 = s\<lparr>state_sequence := state_sequence s + 1\<rparr>;
               entities = take MAX_ENTITIES
                  (map bobba_entity (filter b_active (bobbas s1)) @
                   map dragon_entity (filter d_active (dragons s1)));
               idx = length entities;
               packet = EntityStatePkt
                  \<lparr>h_type = PKT_ENTITY_STATE, h_sequence = state_sequence s1, h_player_id = 0\<rparr>
                  (of_nat idx) entities;
               n = sizeof_PacketHeader + 1 + idx * sizeof_EntityData;
               s2 = send_to_players packet n s1
           in send_to_spectators packet n s2)"

subsection \<open>Spawn points\<close>

definition spawn_points :: "(real \<times> real \<times> real) list" where
  "spawn_points = [(- 60, 2, - 80), (- 40, 2, - 100), (- 80, 2, - 40)]"

abbreviation (input) NUM_SPAWN_POINTS :: nat where "NUM_SPAWN_POINTS \<equiv> 3"

definition generate_spawn_position :: "server \<Rightarrow> (real \<times> real \<times> real) \<times> server" where
  "generate_spawn_position s =
     (let (r1, s1) = rand s;
          spawn_idx = r1 mod NUM_SPAWN_POINTS;
          (r2, s2) = rand s1;
          angle = (real r2 / real RAND_MAX) * 2 * pi;
          (r3, s3) = rand s2;
          distance = (real r3 / real RAND_MAX) * 8;
          (ax, ay, az) = spawn_points ! spawn_idx
      in ((ax + cos angle * distance, ay, az + sin angle * distance), s3))"

subsection \<open>Chaser (Bobba) AI\<close>

text \<open>\<open>atan2(y, x)\<close> of the C library, on reals.\<close>

definition atan2 :: "real \<Rightarrow> real \<Rightarrow> real" where
  "atan2 y x =
     (if x > 0 then arctan (y / x)
      else if x < 0 then (if y \<ge> 0 then arctan (y / x) + pi else arctan (y / x) - pi)
      else if y > 0 then pi / 2
      else if y < 0 then - (pi / 2)
      else 0)"

definition spawn_bobba :: "real \<Rightarrow> real \<Rightarrow> real \<Rightarrow> server \<Rightarrow> server" where
  "spawn_bobba x y z s =
     (case first_index (\<lambda>b. \<not> b_active b) (bobbas s) of
        None \<Rightarrow> s
      | Some i \<Rightarrow>
          let ident = next_entity_id s;
              s1 = s\<lparr>next_entity_id := next_entity_id s + 1\<rparr>;
              (r, s2) = rand s1;
              angle = (real r / real RAND_MAX) * 2 * pi;
              b = zero_ServerBobba\<lparr>b_entity_id := ident, b_pos_x := x, b_pos_y := y, b_pos_z := z,
                    b_rot_y := 0, b_state := BOBBA_ROAMING, b_health := 100, b_active := True,
                    b_target_player_id := 0, b_roam_dir_x := cos angle, b_roam_dir_z := sin angle,
                    b_roam_timer := BOBBA_ROAM_CHANGE_TIME\<rparr>
          in s2\<lparr>bobbas := (bobbas s2)[i := b]\<rparr>)"

text \<open>
  \<open>distance_3d\<close> computes in \<open>float\<close> and calls the \<open>double\<close> function \<open>sqrt\<close>: the sum
  is converted to \<open>double\<close> (exactly), the root is rounded to binary64 and the returned
  value to binary32.
\<close>

definition distance_3d :: "real \<Rightarrow> real \<Rightarrow> real \<Rightarrow> real \<Rightarrow> real \<Rightarrow> real \<Rightarrow> real" where
  "distance_3d x1 y1 z1 x2 y2 z2 =
     (let dx = f32 (x2 - x1); dy = f32 (y2 - y1); dz = f32 (z2 - z1)
      in f32 (f64 (sqrt (f32 (f32 (f32 (dx * dx) + f32 (dy * dy)) + f32 (dz * dz))))))"

text \<open>
  \<open>find_nearest_player\<close>: the scan keeps the slot and the distance of the nearest active
  player so far (strictly nearer wins, so the first of two equally near players stays);
  the result is the pair of the returned slot and the value written to \<open>*out_distance\<close>.
\<close>

fun nearest_scan ::
  "real \<Rightarrow> real \<Rightarrow> real \<Rightarrow> Player list \<Rightarrow> nat \<Rightarrow> nat option \<times> real \<Rightarrow> nat option \<times> real" where
  "nearest_scan x y z [] i acc = acc"
| "nearest_scan x y z (p # ps) i (nearest, min_dist) =
     (if pl_active p then
        let dist = distance_3d x y z (pd_pos_x (pl_data p)) (pd_pos_y (pl_data p))
                     (pd_pos_z (pl_data p))
        in if dist < min_dist then nearest_scan x y z ps (Suc i) (Some i, dist)
           else nearest_scan x y z ps (Suc i) (nearest, min_dist)
      else nearest_scan x y z ps (Suc i) (nearest, min_dist))"

definition find_nearest_player :: "server \<Rightarrow> real \<Rightarrow> real \<Rightarrow> real \<Rightarrow> nat option \<times> real" where
  "find_nearest_player s x y z = nearest_scan x y z (players s) 0 (None, 999999)"

definition bobba_pick_roam_direction :: "ServerBobba \<Rightarrow> server \<Rightarrow> ServerBobba \<times> server" where
  "bobba_pick_roam_direction b s =
     (let (r, s1) = rand s;
          angle = (real r / real RAND_MAX) * 2 * pi
      in (b\<lparr>b_roam_dir_x := cos angle, b_roam_dir_z := sin angle,
            b_roam_timer := BOBBA_ROAM_CHANGE_TIME\<rparr>, s1))"

definition send_player_damage ::
  "32 word \<Rightarrow> real \<Rightarrow> 32 word \<Rightarrow> real \<Rightarrow> real \<Rightarrow> real \<Rightarrow> server \<Rightarrow> server" where
  "send_player_damage target_player_id damage attacker_entity_id kx ky kz s =
     (case find_player_by_id s target_player_id of
        None \<Rightarrow> s
      | Some ti \<Rightarrow>
          let s1 = s\<lparr>state_sequence := state_sequence s + 1\<rparr>;
              packet = PlayerDamagePkt
                \<lparr>h_type = PKT_PLAYER_DAMAGE, h_sequence = state_sequence s1, h_player_id = 0\<rparr>
                target_player_id damage attacker_entity_id kx ky kz
          in sendto packet sizeof_PlayerDamagePacket (pl_addr (players s1 ! ti)) s1)"

text \<open>
  \<open>update_bobba_ai\<close> works on \<open>ServerBobba *bobba\<close>, a pointer into the global array; the
  functions it calls never write that array, so the model takes the chaser by value and
  returns it with the server, and the caller stores it back.

  First the block \<open>if (bobba->state == BOBBA_ATTACKING) { ... return; }\<close>, in binary32:
  the timer, the progress and the knockback are stored in \<open>float\<close> variables or passed as
  \<open>float\<close> arguments, and \<open>len\<close> is the \<open>double\<close> root stored in a \<open>float\<close>.
\<close>

definition bobba_attack_tick :: "ServerBobba \<Rightarrow> real \<Rightarrow> server \<Rightarrow> ServerBobba \<times> server" where
  "bobba_attack_tick b delta s =
     (let b1 = b\<lparr>b_attack_timer := f32 (b_attack_timer b - delta)\<rparr>;
          attack_progress = f32 (1 - f32 (b_attack_timer b1 / b_attack_start_time b1));
          (b2, s2) =
            (if \<not> b_has_hit_this_attack b1 \<and>
                attack_progress \<ge> BOBBA_HIT_WINDOW_START \<and>
                attack_progress \<le> BOBBA_HIT_WINDOW_END \<and>
                b_target_player_id b1 \<noteq> 0
             then
               (case find_player_by_id s (b_target_player_id b1) of
                  None \<Rightarrow> (b1, s)
                | Some ti \<Rightarrow>
                    let target = pl_data (players s ! ti);
                        dist = distance_3d (b_pos_x b1) (b_pos_y b1) (b_pos_z b1)
                                 (pd_pos_x target) (pd_pos_y target) (pd_pos_z target)
                    in if dist \<le> BOBBA_ATTACK_DISTANCE * 2 then
                         let dx = f32 (pd_pos_x target - b_pos_x b1);
                             dy = f32 (3 / 10);
                             dz = f32 (pd_pos_z target - b_pos_z b1);
                             len = f32 (f64 (sqrt (f32 (f32 (dx * dx) + f32 (dz * dz)))));
                             dx' = (if len > f32 (1 / 100) then f32 (dx / len) else dx);
                             dz' = (if len > f32 (1 / 100) then f32 (dz / len) else dz)
                         in (b1\<lparr>b_has_hit_this_attack := True\<rparr>,
                             send_player_damage (b_target_player_id b1) BOBBA_ATTACK_DAMAGE
                               (b_entity_id b1)
                               (f32 (dx' * BOBBA_KNOCKBACK_FORCE))
                               (f32 (dy * BOBBA_KNOCKBACK_FORCE))
                               (f32 (dz' * BOBBA_KNOCKBACK_FORCE)) s)
                       else (b1, s))
             else (b1, s))
      in (if b_attack_timer b2 \<le> 0 then b2\<lparr>b_state := BOBBA_CHASING\<rparr> else b2, s2))"

text \<open>
  The two blocks "Find target" and "Look for new target if none": they return the chaser,
  the local \<open>target\<close> (a slot or \<open>NULL\<close>), the local \<open>dist_to_target\<close> and the server.
\<close>

definition bobba_find_target ::
  "ServerBobba \<Rightarrow> server \<Rightarrow> ServerBobba \<times> nat option \<times> real \<times> server" where
  "bobba_find_target b s =
     (if b_target_player_id b \<noteq> 0 then
        (case find_player_by_id s (b_target_player_id b) of
           Some ti \<Rightarrow>
             let target = pl_data (players s ! ti);
                 dist_to_target = distance_3d (b_pos_x b) (b_pos_y b) (b_pos_z b)
                                    (pd_pos_x target) (pd_pos_y target) (pd_pos_z target)
             in if dist_to_target > BOBBA_LOSE_RADIUS then
                  let (b1, s1) = bobba_pick_roam_direction
                                   (b\<lparr>b_target_player_id := 0, b_state := BOBBA_ROAMING\<rparr>) s
                  in (b1, None, dist_to_target, s1)
                else (b, Some ti, dist_to_target, s)
         | None \<Rightarrow> (b\<lparr>b_target_player_id := 0\<rparr>, None, 999999, s))
      else (b, None, 999999, s))"

definition bobba_look_for_target ::
  "ServerBobba \<Rightarrow> nat option \<Rightarrow> real \<Rightarrow> server \<Rightarrow> ServerBobba \<times> nat option \<times> real" where
  "bobba_look_for_target b target dist_to_target s =
     (if b_target_player_id b = 0 then
        (case find_nearest_player s (b_pos_x b) (b_pos_y b) (b_pos_z b) of
           (Some ni, d) \<Rightarrow>
             if d \<le> BOBBA_DETECTION_RADIUS
             then (b\<lparr>b_target_player_id := pl_player_id (players s ! ni),
                     b_state := BOBBA_CHASING\<rparr>, Some ni, d)
             else (b, target, d)
         | (None, d) \<Rightarrow> (b, target, d))
      else (b, target, dist_to_target))"

text \<open>The \<open>switch (bobba->state)\<close>; it has no \<open>default\<close>, so any other value does nothing.\<close>

definition bobba_state_machine ::
  "ServerBobba \<Rightarrow> nat option \<Rightarrow> real \<Rightarrow> real \<Rightarrow> server \<Rightarrow> ServerBobba \<times> server" where
  "bobba_state_machine b target dist_to_target delta s =
     (if b_state b = BOBBA_ROAMING then
        let b1 = b\<lparr>b_pos_x := b_pos_x b + b_roam_dir_x b * BOBBA_ROAM_SPEED * delta,
                   b_pos_z := b_pos_z b + b_roam_dir_z b * BOBBA_ROAM_SPEED * delta,
                   b_rot_y := atan2 (b_roam_dir_x b) (b_roam_dir_z b),
                   b_roam_timer := b_roam_timer b - delta\<rparr>
        in if b_roam_timer b1 \<le> 0 then bobba_pick_roam_direction b1 s else (b1, s)
      else if b_state b = BOBBA_CHASING then
        (case target of
           None \<Rightarrow> (b\<lparr>b_state := BOBBA_ROAMING\<rparr>, s)
         | Some ti \<Rightarrow>
             if dist_to_target \<le> BOBBA_ATTACK_DISTANCE then
               (b\<lparr>b_state := BOBBA_ATTACKING, b_attack_timer := BOBBA_ATTACK_DURATION,
                  b_attack_start_time := BOBBA_ATTACK_DURATION,
                  b_has_hit_this_attack := False\<rparr>, s)
             else
               let tp = pl_data (players s ! ti);
                   dx = pd_pos_x tp - b_pos_x b;
                   dz = pd_pos_z tp - b_pos_z b;
                   len = sqrt (dx * dx + dz * dz)
               in if len > 1 / 10 then
                    (b\<lparr>b_pos_x := b_pos_x b + (dx / len) * BOBBA_CHASE_SPEED * delta,
                       b_pos_z := b_pos_z b + (dz / len) * BOBBA_CHASE_SPEED * delta,
                       b_rot_y := atan2 (dx / len) (dz / len)\<rparr>, s)
                  else (b, s))
      else (b, s))"

definition update_bobba_ai :: "ServerBobba \<Rightarrow> real \<Rightarrow> server \<Rightarrow> ServerBobba \<times> server" where
  "update_bobba_ai b delta s =
     (if \<not> b_active b then (b, s)
      else if test_multiplayer s then (b\<lparr>b_state := BOBBA_IDLE\<rparr>, s)
      else if b_stun_timer b > 0 then
        (let b1 = b\<lparr>b_stun_timer := b_stun_timer b - delta\<rparr>
         in (if b_stun_timer b1 \<le> 0
             then b1\<lparr>b_state := (if b_target_player_id b1 \<noteq> 0 then BOBBA_CHASING
                                  else BOBBA_ROAMING)\<rparr>
             else b1, s))
      else if b_state b = BOBBA_ATTACKING then bobba_attack_tick b delta s
      else
        (let (b1, target, dist_to_target, s1) = bobba_find_target b s;
             (b2, target2, dist2) = bobba_look_for_target b1 target dist_to_target s1
         in bobba_state_machine b2 target2 dist2 delta s1))"

text \<open>
  The loops over the chaser array: slot \<open>i\<close> is read, updated and stored back. The arrays
  hold their declared number of slots, which is the length of the list.
\<close>

definition update_bobba_slot :: "real \<Rightarrow> nat \<Rightarrow> server \<Rightarrow> server" where
  "update_bobba_slot delta i s =
     (if b_active (bobbas s ! i) then
        let (b, s1) = update_bobba_ai (bobbas s ! i) delta s
        in s1\<lparr>bobbas := (bobbas s1)[i := b]\<rparr>
      else s)"

definition update_all_bobbas :: "real \<Rightarrow> server \<Rightarrow> server" where
  "update_all_bobbas delta s = fold (update_bobba_slot delta) [0..<length (bobbas s)] s"

definition respawn_bobba_slot :: "nat \<Rightarrow> server \<Rightarrow> server" where
  "respawn_bobba_slot i s =
     (if b_entity_id (bobbas s ! i) = 0 then s
      else
        let (r, s1) = rand s;
            angle = (real r / real RAND_MAX) * 2 * pi;
            b = (bobbas s ! i)\<lparr>b_pos_x := 5, b_pos_y := 0, b_pos_z := 5, b_rot_y := 0,
                  b_state := BOBBA_ROAMING, b_health := 100, b_active := True,
                  b_target_player_id := 0, b_has_hit_this_attack := False, b_stun_timer := 0,
                  b_attack_timer := 0, b_roam_dir_x := cos angle, b_roam_dir_z := sin angle,
                  b_roam_timer := BOBBA_ROAM_CHANGE_TIME\<rparr>
        in s1\<lparr>bobbas := (bobbas s1)[i := b]\<rparr>)"

definition respawn_all_bobbas :: "server \<Rightarrow> server" where
  "respawn_all_bobbas s = fold respawn_bobba_slot [0..<length (bobbas s)] s"

definition respawn_player_slot :: "nat \<Rightarrow> server \<Rightarrow> server" where
  "respawn_player_slot i s =
     (if pl_active (players s ! i) then
        let ((x, y, z), s1) = generate_spawn_position s;
            p = players s ! i;
            p1 = p\<lparr>pl_data := (pl_data p)\<lparr>pd_health := 100, pd_state := STATE_IDLE,
                                    pd_pos_x := x, pd_pos_y := y, pd_pos_z := z\<rparr>\<rparr>
        in s1\<lparr>players := (players s1)[i := p1]\<rparr>
      else s)"

definition respawn_all_players :: "server \<Rightarrow> server" where
  "respawn_all_players s = fold respawn_player_slot [0..<length (players s)] s"

subsection \<open>Combat arbiter\<close>

definition handle_game_restart :: "32 word \<Rightarrow> 32 word \<Rightarrow> server \<Rightarrow> server" where
  "handle_game_restart reason requester_id s =
     (let s1 = respawn_all_bobbas s;
          s2 = respawn_all_players s1;
          s3 = s2\<lparr>state_sequence := state_sequence s2 + 1\<rparr>;
          packet = GameRestartPkt
             \<lparr>h_type = PKT_GAME_RESTART, h_sequence = state_sequence s3, h_player_id = 0\<rparr> reason;
          s4 = send_to_players packet sizeof_GameRestartPacket s3;
          s5 = broadcast_entity_state s4
      in broadcast_world_state s5)"

definition handle_entity_damage_server :: "32 word \<Rightarrow> real \<Rightarrow> 32 word \<Rightarrow> server \<Rightarrow> server" where
  "handle_entity_damage_server entity_id damage attacker_id s =
     (case first_index (\<lambda>b. b_active b \<and> b_entity_id b = entity_id) (bobbas s) of
        Some i \<Rightarrow>
          let b = (bobbas s ! i)\<lparr>b_health := b_health (bobbas s ! i) - damage,
                    b_stun_timer := 1 / 2, b_state := BOBBA_STUNNED,
                    b_target_player_id := attacker_id\<rparr>
          in if b_health b \<le> 0
             then handle_game_restart 1 0 (s\<lparr>bobbas := (bobbas s)[i := b\<lparr>b_active := False\<rparr>]\<rparr>)
             else s\<lparr>bobbas := (bobbas s)[i := b]\<rparr>
      | None \<Rightarrow>
          (case first_index (\<lambda>d. d_active d \<and> d_entity_id d = entity_id) (dragons s) of
             Some i \<Rightarrow>
               let d = (dragons s ! i)\<lparr>d_health := d_health (dragons s ! i) - damage\<rparr>
               in s\<lparr>dragons := (dragons s)[i := (if d_health d \<le> 0 then d\<lparr>d_active := False\<rparr>
                                                   else d)]\<rparr>
           | None \<Rightarrow> s))"


subsection \<open>Patroller (Dragon) AI\<close>

definition spawn_dragon :: "real \<Rightarrow> real \<Rightarrow> server \<Rightarrow> server" where
  "spawn_dragon center_x center_z s =
     (case first_index (\<lambda>d. \<not> d_active d) (dragons s) of
        None \<Rightarrow> s
      | Some i \<Rightarrow>
          let d = zero_ServerDragon\<lparr>d_entity_id := next_entity_id s,
                    d_patrol_center_x := center_x, d_patrol_center_z := center_z,
                    d_patrol_angle := 0, d_pos_x := center_x + DRAGON_PATROL_RADIUS,
                    d_pos_y := DRAGON_PATROL_HEIGHT, d_pos_z := center_z, d_rot_y := 0,
                    d_state := DRAGON_PATROL, d_health := 500, d_active := True,
                    d_laps_completed := 0\<rparr>
          in s\<lparr>next_entity_id := next_entity_id s + 1, dragons := (dragons s)[i := d]\<rparr>)"

definition get_dragon_patrol_position :: "ServerDragon \<Rightarrow> real \<times> real \<times> real" where
  "get_dragon_patrol_position d =
     (d_patrol_center_x d + cos (d_patrol_angle d) * DRAGON_PATROL_RADIUS,
      DRAGON_PATROL_HEIGHT + sin (d_patrol_angle d * 2) * 5,
      d_patrol_center_z d + sin (d_patrol_angle d) * DRAGON_PATROL_RADIUS * (7 / 10))"

text \<open>Moving a patroller by \<open>speed * delta\<close> along a direction, the three \<open>+=\<close> on its position.\<close>

definition dragon_move :: "ServerDragon \<Rightarrow> real \<Rightarrow> real \<Rightarrow> real \<Rightarrow> real \<Rightarrow> real \<Rightarrow> ServerDragon" where
  "dragon_move d dx dy dz speed delta =
     d\<lparr>d_pos_x := d_pos_x d + dx * speed * delta,
       d_pos_y := d_pos_y d + dy * speed * delta,
       d_pos_z := d_pos_z d + dz * speed * delta\<rparr>"

definition update_dragon_ai :: "ServerDragon \<Rightarrow> real \<Rightarrow> server \<Rightarrow> ServerDragon" where
  "update_dragon_ai d delta s =
     (if \<not> d_active d then d
      else if test_multiplayer s then
        (let a = d_patrol_angle d + DRAGON_PATROL_SPEED * delta / DRAGON_PATROL_RADIUS;
             d1 = d\<lparr>d_state := DRAGON_PATROL,
                     d_patrol_angle := (if a > 2 * pi then a - 2 * pi else a)\<rparr>;
             (tx, ty, tz) = get_dragon_patrol_position d1
         in d1\<lparr>d_pos_x := tx, d_pos_y := ty, d_pos_z := tz\<rparr>)
      else if d_state d = DRAGON_PATROL then
        (let a = d_patrol_angle d + (DRAGON_PATROL_SPEED / DRAGON_PATROL_RADIUS) * delta;
             d1 = (if a \<ge> 2 * pi then
                     let laps = d_laps_completed d + 1;
                         d0 = d\<lparr>d_patrol_angle := a - 2 * pi, d_laps_completed := laps\<rparr>
                     in if laps \<ge> DRAGON_LAPS_BEFORE_LANDING
                        then d0\<lparr>d_laps_completed := 0, d_state := DRAGON_FLYING_TO_LAND\<rparr>
                        else d0
                   else d\<lparr>d_patrol_angle := a\<rparr>);
             (tx, ty, tz) = get_dragon_patrol_position d1;
             dx = tx - d_pos_x d1; dy = ty - d_pos_y d1; dz = tz - d_pos_z d1;
             len = sqrt (dx * dx + dy * dy + dz * dz)
         in if len > 1 / 10 then
              (dragon_move d1 (dx / len) (dy / len) (dz / len) DRAGON_PATROL_SPEED delta)
                \<lparr>d_rot_y := atan2 (dx / len) (dz / len)\<rparr>
            else d1)
      else if d_state d = DRAGON_FLYING_TO_LAND then
        (let dx = DRAGON_LANDING_SPOT_X - d_pos_x d;
             dy = (DRAGON_LANDING_SPOT_Y + 20) - d_pos_y d;
             dz = DRAGON_LANDING_SPOT_Z - d_pos_z d;
             dist = sqrt (dx * dx + dy * dy + dz * dz);
             d1 = (if dist > 1 / 10 then
                     (dragon_move d (dx / dist) (dy / dist) (dz / dist) DRAGON_PATROL_SPEED delta)
                       \<lparr>d_rot_y := atan2 (dx / dist) (dz / dist)\<rparr>
                   else d)
         in if dist < 10 then d1\<lparr>d_state := DRAGON_LANDING\<rparr> else d1)
      else if d_state d = DRAGON_LANDING then
        (let dx = DRAGON_LANDING_SPOT_X - d_pos_x d;
             dy = DRAGON_LANDING_SPOT_Y - d_pos_y d;
             dz = DRAGON_LANDING_SPOT_Z - d_pos_z d;
             dist = sqrt (dx * dx + dy * dy + dz * dz);
             speed = max (min (dist * (1 / 2)) DRAGON_PATROL_SPEED) 2;
             d1 = (if dist > 1 / 10
                   then dragon_move d (dx / dist) (dy / dist) (dz / dist) speed delta
                   else d)
         in if dist < 5 then
              d1\<lparr>d_pos_x := DRAGON_LANDING_SPOT_X, d_pos_y := DRAGON_LANDING_SPOT_Y,
                 d_pos_z := DRAGON_LANDING_SPOT_Z, d_state := DRAGON_WAIT, d_wait_timer := 0\<rparr>
            else d1)
      else if d_state d = DRAGON_WAIT then
        (let d1 = d\<lparr>d_wait_timer := d_wait_timer d + delta\<rparr>;
             (nearest, nearest_dist) =
                find_nearest_player s (d_pos_x d1) (d_pos_y d1) (d_pos_z d1)
         in case nearest of
              Some ni \<Rightarrow>
                if nearest_dist < DRAGON_ATTACK_RANGE then
                  d1\<lparr>d_state := DRAGON_ATTACKING, d_attack_timer := 2,
                     d_target_player_id := pl_player_id (players s ! ni)\<rparr>
                else if d_wait_timer d1 \<ge> DRAGON_WAIT_TIME then d1\<lparr>d_state := DRAGON_TAKING_OFF\<rparr>
                else d1
            | None \<Rightarrow>
                if d_wait_timer d1 \<ge> DRAGON_WAIT_TIME then d1\<lparr>d_state := DRAGON_TAKING_OFF\<rparr>
                else d1)
      else if d_state d = DRAGON_ATTACKING then
        (let d1 = d\<lparr>d_attack_timer := d_attack_timer d - delta\<rparr>
         in if d_attack_timer d1 \<le> 0 then
              let dist = (case find_player_by_id s (d_target_player_id d1) of
                            Some ti \<Rightarrow>
                              let target = pl_data (players s ! ti)
                              in distance_3d (d_pos_x d1) (d_pos_y d1) (d_pos_z d1)
                                   (pd_pos_x target) (pd_pos_y target) (pd_pos_z target)
                          | None \<Rightarrow> 999999)
              in if dist < DRAGON_ATTACK_RANGE then d1\<lparr>d_attack_timer := 2\<rparr>
                 else d1\<lparr>d_state := DRAGON_WAIT, d_wait_timer := 0\<rparr>
            else d1)
      else if d_state d = DRAGON_TAKING_OFF then
        (let d1 = d\<lparr>d_pos_y := d_pos_y d + 15 * delta\<rparr>
         in if d_pos_y d1 \<ge> DRAGON_PATROL_HEIGHT * (8 / 10)
            then d1\<lparr>d_state := DRAGON_PATROL, d_patrol_angle := 0\<rparr>
            else d1)
      else d)"

definition update_dragon_slot :: "real \<Rightarrow> nat \<Rightarrow> server \<Rightarrow> server" where
  "update_dragon_slot delta i s =
     (if d_active (dragons s ! i)
      then s\<lparr>dragons := (dragons s)[i := update_dragon_ai (dragons s ! i) delta s]\<rparr>
      else s)"

definition update_all_dragons :: "real \<Rightarrow> server \<Rightarrow> server" where
  "update_all_dragons delta s = fold (update_dragon_slot delta) [0..<length (dragons s)] s"

subsection \<open>Packet handlers\<close>

text \<open>
  \<open>strncpy(dst, src, n)\<close> into a zeroed field, read back as a C string: the characters of
  \<open>src\<close> before its first NUL, at most \<open>n\<close> of them.
\<close>

definition strncpy_str :: "string \<Rightarrow> nat \<Rightarrow> string" where
  "strncpy_str src n = take n (takeWhile (\<lambda>c. c \<noteq> CHR 0x00) src)"

text \<open>The first loop of \<open>handle_join\<close>: the first active spectator on the endpoint is removed.\<close>

definition remove_spectator :: "sockaddr_in \<Rightarrow> server \<Rightarrow> server" where
  "remove_spectator client_addr s =
     (case first_index (\<lambda>sp. sp_active sp \<and> same_endpoint (sp_addr sp) client_addr)
             (spectators s) of
        Some i \<Rightarrow> s\<lparr>spectators := (spectators s)[i := (spectators s ! i)\<lparr>sp_active := False\<rparr>]\<rparr>
      | None \<Rightarrow> s)"

text \<open>
  \<open>handle_join\<close> calls \<open>time(NULL)\<close> for \<open>last_seen\<close> (\<open>now\<close>) and again for the sequence
  number of the join-ack (\<open>now_ack\<close>).
\<close>

definition handle_join :: "buffer \<Rightarrow> sockaddr_in \<Rightarrow> int \<Rightarrow> int \<Rightarrow> server \<Rightarrow> server" where
  "handle_join pkt client_addr now now_ack s0 =
     (let s = remove_spectator client_addr s0
      in case find_player_by_addr s client_addr of
           Some e \<Rightarrow> s\<lparr>players := (players s)[e := (players s ! e)\<lparr>pl_last_seen := now\<rparr>]\<rparr>
         | None \<Rightarrow>
             (case find_free_slot s of
                None \<Rightarrow> s
              | Some slot \<Rightarrow>
                  let ident = next_player_id s;
                      s1 = s\<lparr>next_player_id := next_player_id s + 1\<rparr>;
                      ((x, y, z), s2) = generate_spawn_position s1;
                      data = zero_PlayerData\<lparr>pd_player_id := ident, pd_pos_x := x, pd_pos_y := y,
                               pd_pos_z := z, pd_rot_y := 0, pd_state := STATE_IDLE,
                               pd_combat_mode := 1, pd_character_class := 1, pd_health := 100,
                               pd_anim_name := ''Idle'' @ replicate 28 (CHR 0x00),
                               pd_active := 1\<rparr>;
                      player = zero_Player\<lparr>pl_player_id := ident,
                                 pl_name := strncpy_str (buf_player_name pkt) 31,
                                 pl_addr := client_addr, pl_last_seen := now, pl_active := True,
                                 pl_data := data\<rparr>;
                      s3 = s2\<lparr>players := (players s2)[slot := player]\<rparr>;
                      ack = JoinAckPkt
                              \<lparr>h_type = PKT_JOIN_ACK, h_sequence = word_of_int now_ack,
                               h_player_id = ident\<rparr> ident data;
                      s4 = sendto ack sizeof_JoinAckPacket client_addr s3
                  in broadcast_world_state s4))"

definition handle_update :: "buffer \<Rightarrow> sockaddr_in \<Rightarrow> int \<Rightarrow> server \<Rightarrow> server" where
  "handle_update pkt client_addr now s =
     (case find_player_by_id s (h_player_id (buf_header pkt)) of
        None \<Rightarrow> s
      | Some i \<Rightarrow>
          let player = players s ! i
          in if s_addr (pl_addr player) \<noteq> s_addr client_addr \<or>
                sin_port (pl_addr player) \<noteq> sin_port client_addr
             then s
             else s\<lparr>players := (players s)[i := player
                      \<lparr>pl_data := (buf_data pkt)\<lparr>pd_player_id := pl_player_id player\<rparr>,
                       pl_last_seen := now\<rparr>]\<rparr>)"

definition handle_spectate :: "PacketHeader \<Rightarrow> sockaddr_in \<Rightarrow> int \<Rightarrow> server \<Rightarrow> server" where
  "handle_spectate hdr client_addr now s =
     (case first_index (\<lambda>sp. sp_active sp \<and> same_endpoint (sp_addr sp) client_addr)
             (spectators s) of
        Some i \<Rightarrow> s\<lparr>spectators := (spectators s)[i := (spectators s ! i)\<lparr>sp_last_seen := now\<rparr>]\<rparr>
      | None \<Rightarrow>
          (case first_index (\<lambda>sp. \<not> sp_active sp) (spectators s) of
             None \<Rightarrow> s
           | Some slot \<Rightarrow>
               let sp = (spectators s ! slot)\<lparr>sp_addr := client_addr, sp_last_seen := now,
                           sp_active := True\<rparr>;
                   s1 = s\<lparr>spectators := (spectators s)[slot := sp]\<rparr>;
                   ack = HeaderPkt \<lparr>h_type = PKT_SPECTATE_ACK, h_sequence = h_sequence hdr,
                                    h_player_id = 0\<rparr>
               in sendto ack sizeof_PacketHeader client_addr s1))"

text \<open>\<open>handle_leave\<close> declares its \<open>client_addr\<close> parameter unused.\<close>

definition handle_leave :: "PacketHeader \<Rightarrow> sockaddr_in \<Rightarrow> server \<Rightarrow> server" where
  "handle_leave hdr client_addr s =
     broadcast_world_state
       (case find_player_by_id s (h_player_id hdr) of
          Some i \<Rightarrow> s\<lparr>players := (players s)[i := (players s ! i)\<lparr>pl_active := False\<rparr>]\<rparr>
        | None \<Rightarrow> s)"

definition cleanup_inactive_players :: "int \<Rightarrow> server \<Rightarrow> server" where
  "cleanup_inactive_players now s =
     s\<lparr>players := map (\<lambda>p. if pl_active p \<and> now - pl_last_seen p > PLAYER_TIMEOUT_SEC
                            then p\<lparr>pl_active := False\<rparr> else p) (players s)\<rparr>"

text \<open>
  The relays resend the received buffer, \<open>len\<close> bytes of it. \<open>relay_arrow_spawn\<close>,
  \<open>relay_arrow_hit\<close> and \<open>relay_entity_state\<close> have the same loop.
\<close>

definition relay_except_sender :: "buffer \<Rightarrow> nat \<Rightarrow> sockaddr_in \<Rightarrow> server \<Rightarrow> server" where
  "relay_except_sender pkt n sender_addr s =
     fold (\<lambda>pl. sendto (RelayedPkt pkt) n (pl_addr pl))
       (filter (\<lambda>pl. pl_active pl \<and> \<not> same_endpoint (pl_addr pl) sender_addr) (players s)) s"

definition relay_entity_state :: "buffer \<Rightarrow> nat \<Rightarrow> sockaddr_in \<Rightarrow> server \<Rightarrow> server" where
  "relay_entity_state = relay_except_sender"

definition relay_arrow_spawn :: "buffer \<Rightarrow> nat \<Rightarrow> sockaddr_in \<Rightarrow> server \<Rightarrow> server" where
  "relay_arrow_spawn = relay_except_sender"

definition relay_arrow_hit :: "buffer \<Rightarrow> nat \<Rightarrow> sockaddr_in \<Rightarrow> server \<Rightarrow> server" where
  "relay_arrow_hit = relay_except_sender"

text \<open>
  \<open>relay_entity_damage\<close>: the scan for the host keeps the slot with the lowest identifier
  so far, starting from \<open>UINT32_MAX\<close>. No function of the source calls it.
\<close>

fun host_scan :: "Player list \<Rightarrow> nat \<Rightarrow> nat option \<times> 32 word \<Rightarrow> nat option \<times> 32 word" where
  "host_scan [] i acc = acc"
| "host_scan (p # ps) i (host, lowest_id) =
     (if pl_active p \<and> pl_player_id p < lowest_id
      then host_scan ps (Suc i) (Some i, pl_player_id p)
      else host_scan ps (Suc i) (host, lowest_id))"

definition relay_entity_damage :: "buffer \<Rightarrow> nat \<Rightarrow> sockaddr_in \<Rightarrow> server \<Rightarrow> server" where
  "relay_entity_damage pkt n sender_addr s =
     (case fst (host_scan (players s) 0 (None, - 1)) of
        Some h \<Rightarrow> sendto (RelayedPkt pkt) n (pl_addr (players s ! h)) s
      | None \<Rightarrow> s)"

subsection \<open>The event loop of \<open>main\<close>\<close>

record timespec =
  tv_sec :: int
  tv_nsec :: int

text \<open>The locals of \<open>main\<close> that survive an iteration.\<close>

record timers =
  last_broadcast :: timespec
  last_entity_update :: timespec
  last_cleanup :: timespec

text \<open>
  What one iteration reads from outside: the monotonic clock, the result of \<open>recvfrom\<close>
  (\<open>recv_len\<close> is negative when nothing was received), and the wall clock \<open>time(NULL)\<close> as
  the handlers and the reaper read it.
\<close>

record inputs =
  in_now :: timespec
  recv_len :: int
  in_buffer :: buffer
  in_client_addr :: sockaddr_in
  in_time :: int
  in_time_ack :: int
  in_time_cleanup :: int

text \<open>Division of \<open>long\<close> values truncates towards zero.\<close>

definition c_div :: "int \<Rightarrow> int \<Rightarrow> int" where
  "c_div a b = sgn a * sgn b * (\<bar>a\<bar> div \<bar>b\<bar>)"

definition elapsed_ms :: "timespec \<Rightarrow> timespec \<Rightarrow> int" where
  "elapsed_ms now prev =
     (tv_sec now - tv_sec prev) * 1000 + c_div (tv_nsec now - tv_nsec prev) 1000000"

text \<open>The \<open>if (recv_len > 0) { ... switch (header->type) ... }\<close> block.\<close>

definition dispatch :: "inputs \<Rightarrow> server \<Rightarrow> server" where
  "dispatch i s =
     (if recv_len i > 0 \<and> recv_len i \<ge> int sizeof_PacketHeader then
        let buf = in_buffer i;
            header = buf_header buf;
            client_addr = in_client_addr i;
            ty = h_type header
        in if ty = PKT_JOIN then
             (if recv_len i \<ge> int sizeof_JoinPacket
              then handle_join buf client_addr (in_time i) (in_time_ack i) s else s)
           else if ty = PKT_UPDATE then
             (if recv_len i \<ge> int sizeof_UpdatePacket
              then handle_update buf client_addr (in_time i) s else s)
           else if ty = PKT_LEAVE then handle_leave header client_addr s
           else if ty = PKT_PING then
             sendto (HeaderPkt \<lparr>h_type = PKT_PONG, h_sequence = h_sequence header,
                                h_player_id = h_player_id header\<rparr>)
               sizeof_PacketHeader client_addr s
           else if ty = PKT_ENTITY_DAMAGE then
             (if recv_len i \<ge> int sizeof_EntityDamagePacket
              then handle_entity_damage_server (buf_entity_id buf) (buf_damage buf)
                     (buf_attacker_id buf) s
              else s)
           else if ty = PKT_ARROW_SPAWN then
             (if recv_len i \<ge> int sizeof_ArrowSpawnPacket
              then relay_arrow_spawn buf (nat (recv_len i)) client_addr s else s)
           else if ty = PKT_ARROW_HIT then
             (if recv_len i \<ge> int sizeof_ArrowHitPacket
              then relay_arrow_hit buf (nat (recv_len i)) client_addr s else s)
           else if ty = PKT_HEARTBEAT then s
           else if ty = PKT_SPECTATE then handle_spectate header client_addr (in_time i) s
           else if ty = PKT_GAME_RESTART then
             (if recv_len i \<ge> int sizeof_GameRestartPacket
              then handle_game_restart (buf_reason buf) (h_player_id header) s else s)
           else s
      else s)"

text \<open>
  One iteration of \<open>while (running)\<close>. The tick length \<open>entity_elapsed / 1000.0f\<close> is a
  \<open>float\<close> division: the \<open>long\<close> is converted to binary32 and the quotient rounded.
\<close>

definition main_iteration :: "inputs \<Rightarrow> server \<times> timers \<Rightarrow> server \<times> timers" where
  "main_iteration i st =
     (let (s, t) = st;
          now = in_now i;
          broadcast_elapsed = elapsed_ms now (last_broadcast t);
          entity_elapsed = elapsed_ms now (last_entity_update t);
          cleanup_elapsed = elapsed_ms now (last_cleanup t);
          s1 = dispatch i s;
          (s2, t2) = (if broadcast_elapsed \<ge> BROADCAST_INTERVAL_MS
                      then (broadcast_world_state s1, t\<lparr>last_broadcast := now\<rparr>)
                      else (s1, t));
          (s3, t3) = (if entity_elapsed \<ge> ENTITY_UPDATE_INTERVAL_MS
                      then
                        let delta = f32 (f32 (real_of_int entity_elapsed) / 1000)
                        in (broadcast_entity_state
                              (update_all_dragons delta (update_all_bobbas delta s2)),
                            t2\<lparr>last_entity_update := now\<rparr>)
                      else (s2, t2))
      in if cleanup_elapsed \<ge> 1000
         then (cleanup_inactive_players (in_time_cleanup i) s3, t3\<lparr>last_cleanup := now\<rparr>)
         else (s3, t3))"

text \<open>The \<open>while (running)\<close> loop over the inputs of the successive iterations.\<close>

definition main_loop :: "inputs list \<Rightarrow> server \<times> timers \<Rightarrow> server \<times> timers" where
  "main_loop ins st = fold main_iteration ins st"

text \<open>
  The state \<open>main\<close> builds before the loop: zeroed tables, one chaser at (5, 0, 5), one
  patroller around (0, 10).
\<close>

definition initial_server :: "bool \<Rightarrow> (nat \<Rightarrow> nat) \<Rightarrow> server" where
  "initial_server test_flag tape =
     spawn_dragon 0 10 (spawn_bobba 5 0 5
       \<lparr>players = replicate MAX_PLAYERS zero_Player,
        spectators = replicate MAX_SPECTATORS zero_Spectator,
        bobbas = replicate MAX_BOBBAS zero_ServerBobba,
        dragons = replicate MAX_DRAGONS zero_ServerDragon,
        next_player_id = 1, next_entity_id = 1, state_sequence = 0,
        test_multiplayer = test_flag, rand_tape = tape, rand_calls = 0, outbox = []\<rparr>)"

subsection \<open>Vocabulary of the properties\<close>

text \<open>The endpoints a broadcast goes to: the active players, then the active spectators.\<close>

definition recipients :: "server \<Rightarrow> sockaddr_in list" where
  "recipients s = map pl_addr (filter pl_active (players s)) @
                  map sp_addr (filter sp_active (spectators s))"

text \<open>
  What the AI update of one entity leaves alone in the server: everything but the
  sequence counter, the position on the random tape and the outbox.
\<close>

definition same_tables :: "server \<Rightarrow> server \<Rightarrow> bool" where
  "same_tables s s' \<longleftrightarrow>
     players s' = players s \<and> spectators s' = spectators s \<and> bobbas s' = bobbas s \<and>
     dragons s' = dragons s \<and> next_player_id s' = next_player_id s \<and>
     next_entity_id s' = next_entity_id s \<and> test_multiplayer s' = test_multiplayer s \<and>
     rand_tape s' = rand_tape s"

text \<open>Slot \<open>k\<close> of the spectator table holds an active spectator on endpoint \<open>a\<close>.\<close>

definition spectator_at :: "server \<Rightarrow> nat \<Rightarrow> sockaddr_in \<Rightarrow> bool" where
  "spectator_at s k a \<longleftrightarrow>
     k < length (spectators s) \<and> sp_active (spectators s ! k) \<and> sp_addr (spectators s ! k) = a"

text \<open>The iteration receives a join packet, long enough to be handled, from endpoint \<open>a\<close>.\<close>

definition join_from :: "inputs \<Rightarrow> sockaddr_in \<Rightarrow> bool" where
  "join_from i a \<longleftrightarrow>
     recv_len i \<ge> int sizeof_JoinPacket \<and> h_type (buf_header (in_buffer i)) = PKT_JOIN \<and>
     same_endpoint a (in_client_addr i)"

text \<open>A chaser as \<open>respawn_all_bobbas\<close> leaves it.\<close>

definition respawned :: "ServerBobba \<Rightarrow> bool" where
  "respawned b \<longleftrightarrow>
     b_active b \<and> b_state b = BOBBA_ROAMING \<and> b_health b = 100 \<and> b_target_player_id b = 0 \<and>
     \<not> b_has_hit_this_attack b \<and> b_stun_timer b = 0 \<and> b_attack_timer b = 0 \<and>
     b_pos_x b = 5 \<and> b_pos_y b = 0 \<and> b_pos_z b = 5"

text \<open>A datagram that resends a received buffer.\<close>

fun is_relayed :: "packet \<Rightarrow> bool" where
  "is_relayed (RelayedPkt b) = True"
| "is_relayed p = False"

text \<open>
  The header of a datagram, and the kinds of message that carry the outbound counter:
  world state, entity state, player damage and game restart.
\<close>

fun pkt_header :: "packet \<Rightarrow> PacketHeader" where
  "pkt_header (HeaderPkt h) = h"
| "pkt_header (JoinAckPkt h i d) = h"
| "pkt_header (WorldStatePkt h q c ps) = h"
| "pkt_header (EntityStatePkt h c es) = h"
| "pkt_header (PlayerDamagePkt h t d e kx ky kz) = h"
| "pkt_header (GameRestartPkt h r) = h"
| "pkt_header (RelayedPkt b) = buf_header b"

fun counter_stamped :: "packet \<Rightarrow> bool" where
  "counter_stamped (WorldStatePkt h q c ps) = True"
| "counter_stamped (EntityStatePkt h c es) = True"
| "counter_stamped (PlayerDamagePkt h t d e kx ky kz) = True"
| "counter_stamped (GameRestartPkt h r) = True"
| "counter_stamped p = False"

text \<open>
  From \<open>s\<close> to \<open>s'\<close> one message of those kinds went out: the counter went up by one
  (modulo \<open>2^32\<close>) and every datagram sent carries the new value.
\<close>

definition stamps_next :: "server \<Rightarrow> server \<Rightarrow> bool" where
  "stamps_next s s' \<longleftrightarrow>
     state_sequence s' = state_sequence s + 1 \<and>
     (\<exists>new. outbox s' = outbox s @ new \<and>
        (\<forall>d\<in>set new. counter_stamped (sent_pkt d) \<and>
                      h_sequence (pkt_header (sent_pkt d)) = state_sequence s + 1))"

text \<open>The sequence numbers of the datagrams of an outbox, in the order they were sent.\<close>

definition sent_sequences :: "sent list \<Rightarrow> 32 word list" where
  "sent_sequences ds = map (\<lambda>d. h_sequence (pkt_header (sent_pkt d))) ds"

text \<open>
  From \<open>s\<close> to \<open>s'\<close> one message of type \<open>ty\<close>, of one of those kinds, went out: the
  counter went up by one (modulo \<open>2^32\<close>) and every datagram sent is of that type and
  carries the new value.
\<close>

definition stamps_message :: "8 word \<Rightarrow> server \<Rightarrow> server \<Rightarrow> bool" where
  "stamps_message ty s s' \<longleftrightarrow>
     state_sequence s' = state_sequence s + 1 \<and>
     (\<exists>new. outbox s' = outbox s @ new \<and>
        (\<forall>d\<in>set new. counter_stamped (sent_pkt d) \<and>
                      h_type (pkt_header (sent_pkt d)) = ty \<and>
                      h_sequence (pkt_header (sent_pkt d)) = state_sequence s + 1))"

text \<open>
  The sequence number of a datagram is taken from the iteration's input, not from the
  counter: a join-ack carries the wall-clock second read for it, any other datagram the
  sequence number of the received packet.
\<close>

definition from_request :: "inputs \<Rightarrow> packet \<Rightarrow> bool" where
  "from_request i p \<longleftrightarrow>
     (case p of
        JoinAckPkt h ident dat \<Rightarrow> h_sequence h = word_of_int (in_time_ack i)
      | _ \<Rightarrow> h_sequence (pkt_header p) = h_sequence (buf_header (in_buffer i)))"

text \<open>
  A log of what went out, cut into segments, checked against the counter \<open>c\<close> before it:
  a flagged segment is one message of those kinds, it raises the counter by one (modulo
  \<open>2^32\<close>) and every datagram in it carries the new value; an unflagged segment leaves
  the counter alone, holds no datagram of those kinds, and its datagrams satisfy \<open>Q\<close>.
\<close>

fun run_segments :: "(packet \<Rightarrow> bool) \<Rightarrow> 32 word \<Rightarrow> (bool \<times> sent list) list \<Rightarrow> bool" where
  "run_segments Q c [] = True"
| "run_segments Q c ((flagged, g) # gs) =
     (if flagged
      then (\<forall>d\<in>set g. counter_stamped (sent_pkt d) \<and>
                         h_sequence (pkt_header (sent_pkt d)) = c + 1) \<and>
           run_segments Q (c + 1) gs
      else (\<forall>d\<in>set g. \<not> counter_stamped (sent_pkt d) \<and> Q (sent_pkt d)) \<and>
           run_segments Q c gs)"

text \<open>
  From \<open>s\<close> to \<open>s'\<close> the outbox grew by such a log with at most \<open>n\<close> messages of those
  kinds, and the counter rose by the number of those messages.
\<close>

definition numbered_run :: "(packet \<Rightarrow> bool) \<Rightarrow> nat \<Rightarrow> server \<Rightarrow> server \<Rightarrow> bool" where
  "numbered_run Q n s s' \<longleftrightarrow>
     (\<exists>segs. length (filter fst segs) \<le> n \<and>
        outbox s' = outbox s @ concat (map snd segs) \<and>
        run_segments Q (state_sequence s) segs \<and>
        state_sequence s' = state_sequence s + of_nat (length (filter fst segs)))"

text \<open>The sequence numbers, read as naturals, of the datagrams of those kinds in a list.\<close>

definition stamped_numbers :: "sent list \<Rightarrow> nat list" where
  "stamped_numbers ds =
     map (\<lambda>d. unat (h_sequence (pkt_header (sent_pkt d))))
       (filter (\<lambda>d. counter_stamped (sent_pkt d)) ds)"

text \<open>
  The most messages of those kinds one loop iteration sends: three from the handler (a
  restart), the periodic world state, one hit per chaser slot and the entity state.
\<close>

definition messages_per_iteration :: "server \<Rightarrow> nat" where
  "messages_per_iteration s = 5 + length (bobbas s)"

text \<open>
  The attack progress \<open>update_bobba_ai\<close> computes in a tick of length \<open>delta\<close>, and the
  direction \<open>(dx, dz)\<close> its attack block ends with, from the horizontal offsets of the
  target: the offsets divided by their length when that exceeds \<open>0.01f\<close>, else the
  offsets themselves.
\<close>

definition attack_progress :: "ServerBobba \<Rightarrow> real \<Rightarrow> real" where
  "attack_progress b delta =
     f32 (1 - f32 (f32 (b_attack_timer b - delta) / b_attack_start_time b))"



text \<open>
  A tick of length \<open>d\<close> in server state \<open>s\<close> lands the hit of chaser \<open>b\<close> on the player in
  slot \<open>ti\<close>: the chaser is active, its AI runs, it is not stunned, it is attacking and
  has not hit yet, the progress computed in this tick is in the hit window, and its bound
  target is the active player in slot \<open>ti\<close>, at a computed distance of at most 4.
\<close>

definition hit_lands :: "ServerBobba \<Rightarrow> real \<Rightarrow> server \<Rightarrow> nat \<Rightarrow> bool" where
  "hit_lands b d s ti \<longleftrightarrow>
     b_active b \<and> \<not> test_multiplayer s \<and> b_stun_timer b \<le> 0 \<and>
     b_state b = BOBBA_ATTACKING \<and> \<not> b_has_hit_this_attack b \<and>
     BOBBA_HIT_WINDOW_START \<le> attack_progress b d \<and>
     attack_progress b d \<le> BOBBA_HIT_WINDOW_END \<and>
     b_target_player_id b \<noteq> 0 \<and>
     find_player_by_id s (b_target_player_id b) = Some ti \<and>
     distance_3d (b_pos_x b) (b_pos_y b) (b_pos_z b)
       (pd_pos_x (pl_data (players s ! ti))) (pd_pos_y (pl_data (players s ! ti)))
       (pd_pos_z (pl_data (players s ! ti))) \<le> BOBBA_ATTACK_DISTANCE * 2"

text \<open>
  The ticks of one attack. The chaser is ticked with the tick lengths and in the server
  states of the list, whatever the loop made of the server in between, for as long as it
  is attacking; the result is the chaser after the last tick and the datagrams the ticks
  sent.
\<close>

fun attack_cycle :: "(real \<times> server) list \<Rightarrow> ServerBobba \<Rightarrow> ServerBobba \<times> sent list" where
  "attack_cycle [] b = (b, [])"
| "attack_cycle ((d, s) # ts) b =
     (if b_state b \<noteq> BOBBA_ATTACKING then (b, [])
      else let (b1, s1) = update_bobba_ai b d s;
               (b2, out) = attack_cycle ts b1
           in (b2, drop (length (outbox s)) (outbox s1) @ out))"

subsection \<open>Example states\<close>

text \<open>
  Two endpoints and a player on the first; a server with zeroed tables, and the same
  server with that player, at the origin, in slot 0.
\<close>

definition endpoint_A :: sockaddr_in where
  "endpoint_A = \<lparr>s_addr = 0x7F000001, sin_port = 5001\<rparr>"

definition endpoint_B :: sockaddr_in where
  "endpoint_B = \<lparr>s_addr = 0x7F000001, sin_port = 5002\<rparr>"

definition player_A :: Player where
  "player_A = zero_Player\<lparr>pl_player_id := 1, pl_name := ''A'', pl_addr := endpoint_A,
     pl_active := True,
     pl_data := zero_PlayerData\<lparr>pd_player_id := 1, pd_health := 100, pd_active := 1\<rparr>\<rparr>"

definition empty_server :: server where
  "empty_server =
     \<lparr>players = replicate MAX_PLAYERS zero_Player,
      spectators = replicate MAX_SPECTATORS zero_Spectator,
      bobbas = replicate MAX_BOBBAS zero_ServerBobba,
      dragons = replicate MAX_DRAGONS zero_ServerDragon,
      next_player_id = 1, next_entity_id = 1, state_sequence = 0,
      test_multiplayer = False, rand_tape = (\<lambda>n. 0), rand_calls = 0, outbox = []\<rparr>"

definition one_player_server :: server where
  "one_player_server = empty_server\<lparr>players := player_A # replicate 31 zero_Player,
     next_player_id := 2\<rparr>"

text \<open>
  A server whose only session is a spectator on \<open>endpoint_B\<close>; a zeroed receive buffer;
  an iteration, long after the start, in which nothing is received.
\<close>

definition spectator_server :: server where
  "spectator_server = empty_server\<lparr>spectators :=
     \<lparr>sp_addr = endpoint_B, sp_last_seen = 0, sp_active = True\<rparr> # replicate 31 zero_Spectator\<rparr>"

definition zero_buffer :: buffer where
  "zero_buffer = \<lparr>buf_header = \<lparr>h_type = 0, h_sequence = 0, h_player_id = 0\<rparr>,
     buf_player_name = replicate 32 (CHR 0x00), buf_data = zero_PlayerData, buf_entity_id = 0,
     buf_damage = 0, buf_attacker_id = 0, buf_reason = 0, buf_rest = []\<rparr>"

definition idle_input :: inputs where
  "idle_input = \<lparr>in_now = \<lparr>tv_sec = 100000, tv_nsec = 0\<rparr>, recv_len = - 1,
     in_buffer = zero_buffer, in_client_addr = zero_sockaddr, in_time = 100000,
     in_time_ack = 100000, in_time_cleanup = 100000\<rparr>"

definition zero_timers :: timers where
  "zero_timers = \<lparr>last_broadcast = \<lparr>tv_sec = 0, tv_nsec = 0\<rparr>,
     last_entity_update = \<lparr>tv_sec = 0, tv_nsec = 0\<rparr>,
     last_cleanup = \<lparr>tv_sec = 0, tv_nsec = 0\<rparr>\<rparr>"

text \<open>
  A second player on \<open>endpoint_B\<close>, a server with both players, and packets as they arrive
  in the receive buffer: an update, a leave, a heartbeat and a ping, each claiming
  identifier 1.
\<close>

definition player_B :: Player where
  "player_B = zero_Player\<lparr>pl_player_id := 2, pl_name := ''B'', pl_addr := endpoint_B,
     pl_active := True,
     pl_data := zero_PlayerData\<lparr>pd_player_id := 2, pd_health := 100, pd_active := 1\<rparr>\<rparr>"

definition two_player_server :: server where
  "two_player_server = empty_server\<lparr>players := player_A # player_B # replicate 30 zero_Player,
     next_player_id := 3\<rparr>"

definition packet_from_1 :: "8 word \<Rightarrow> buffer" where
  "packet_from_1 ty = zero_buffer\<lparr>buf_header := \<lparr>h_type = ty, h_sequence = 7, h_player_id = 1\<rparr>,
     buf_data := zero_PlayerData\<lparr>pd_player_id := 1, pd_pos_x := 3, pd_health := 1\<rparr>\<rparr>"

text \<open>An iteration at second \<open>t\<close> of both clocks that receives \<open>n\<close> bytes from \<open>addr\<close>.\<close>

definition input_at :: "int \<Rightarrow> int \<Rightarrow> buffer \<Rightarrow> sockaddr_in \<Rightarrow> inputs" where
  "input_at t n buf addr = \<lparr>in_now = \<lparr>tv_sec = t, tv_nsec = 0\<rparr>, recv_len = n, in_buffer = buf,
     in_client_addr = addr, in_time = t, in_time_ack = t, in_time_cleanup = t\<rparr>"

text \<open>
  A chaser late in an attack on player 1, its hit already dealt; a patroller; and the
  server with player 1, that chaser in slot 0 and that patroller. Then an entity-damage
  packet of player 1 against entity \<open>e\<close>.
\<close>

definition biting_chaser :: ServerBobba where
  "biting_chaser = zero_ServerBobba\<lparr>b_entity_id := 1, b_pos_x := 5, b_pos_z := 5,
     b_state := BOBBA_ATTACKING, b_health := 100, b_active := True, b_target_player_id := 1,
     b_attack_timer := 1 / 2, b_attack_start_time := BOBBA_ATTACK_DURATION,
     b_has_hit_this_attack := True\<rparr>"

definition patroller :: ServerDragon where
  "patroller = zero_ServerDragon\<lparr>d_entity_id := 2, d_pos_x := 100, d_pos_y := 80, d_pos_z := 10,
     d_state := DRAGON_PATROL, d_health := 500, d_active := True, d_patrol_center_z := 10\<rparr>"

definition arena_server :: server where
  "arena_server = one_player_server\<lparr>bobbas := biting_chaser # replicate 3 zero_ServerBobba,
     dragons := [patroller], next_entity_id := 3\<rparr>"

definition damage_packet :: "32 word \<Rightarrow> real \<Rightarrow> buffer" where
  "damage_packet e dmg = zero_buffer\<lparr>
     buf_header := \<lparr>h_type = PKT_ENTITY_DAMAGE, h_sequence = 7, h_player_id = 1\<rparr>,
     buf_entity_id := e, buf_damage := dmg, buf_attacker_id := 1\<rparr>"

text \<open>
  A server with both players, the chaser and the patroller; and an entity-damage packet of
  player 2 against the chaser.
\<close>

definition duel_server :: server where
  "duel_server = two_player_server\<lparr>bobbas := biting_chaser # replicate 3 zero_ServerBobba,
     dragons := [patroller], next_entity_id := 3\<rparr>"

definition damage_packet_of_2 :: buffer where
  "damage_packet_of_2 = zero_buffer\<lparr>
     buf_header := \<lparr>h_type = PKT_ENTITY_DAMAGE, h_sequence = 9, h_player_id = 2\<rparr>,
     buf_entity_id := 1, buf_damage := 10, buf_attacker_id := 2\<rparr>"

text \<open>A second ping of player 1, with a smaller sequence number than the first.\<close>

definition second_ping :: buffer where
  "second_ping = zero_buffer\<lparr>buf_header := \<lparr>h_type = PKT_PING, h_sequence = 3, h_player_id = 1\<rparr>\<rparr>"

text \<open>
  A chaser at (5, 0, 5) at the start of an attack on player 1, and the server whose only
  player is player 1, standing at a given position.
\<close>

definition lunging_chaser :: ServerBobba where
  "lunging_chaser = zero_ServerBobba\<lparr>b_entity_id := 1, b_pos_x := 5, b_pos_z := 5,
     b_state := BOBBA_ATTACKING, b_health := 100, b_active := True, b_target_player_id := 1,
     b_attack_timer := BOBBA_ATTACK_DURATION, b_attack_start_time := BOBBA_ATTACK_DURATION\<rparr>"

definition player_at :: "real \<Rightarrow> real \<Rightarrow> real \<Rightarrow> server" where
  "player_at x y z = empty_server\<lparr>players :=
     player_A\<lparr>pl_data := (pl_data player_A)\<lparr>pd_pos_x := x, pd_pos_y := y, pd_pos_z := z\<rparr>\<rparr>
       # replicate 31 zero_Player, next_player_id := 2\<rparr>"

text \<open>
  A full server: all 32 slots hold active players, on endpoints of their own, and there is
  one spectator, on \<open>endpoint_B\<close>.
\<close>

definition numbered_player :: "nat \<Rightarrow> Player" where
  "numbered_player i = zero_Player\<lparr>pl_player_id := of_nat (Suc i),
     pl_addr := \<lparr>s_addr = 0x0A000000 + of_nat (Suc i), sin_port = 6000\<rparr>, pl_active := True,
     pl_data := zero_PlayerData\<lparr>pd_player_id := of_nat (Suc i), pd_health := 100,
                                 pd_active := 1\<rparr>\<rparr>"

definition full_server :: server where
  "full_server = spectator_server\<lparr>players := map numbered_player [0..<MAX_PLAYERS],
     next_player_id := 33\<rparr>"

text \<open>
  The tick length the loop computes for 50 elapsed milliseconds, \<open>0.05f\<close>; the server
  with player 1 at (6.5, 0, 7) and \<open>lunging_chaser\<close> in slot 0, 2.5 away from the player;
  and that chaser after nine such ticks.
\<close>

definition tick_50ms :: real where
  "tick_50ms = f32 (f32 (real_of_int 50) / 1000)"

definition den_server :: server where
  "den_server = (player_at (13 / 2) 0 7)\<lparr>bobbas := lunging_chaser # replicate 3 zero_ServerBobba\<rparr>"

definition chaser_after_9 :: ServerBobba where
  "chaser_after_9 = lunging_chaser\<lparr>b_attack_timer := 4404021 / 4194304\<rparr>"


section \<open>Properties\<close>

subsection \<open>Sending\<close>

lemma sendto_fields [simp]:
  "players (sendto p n a s) = players s"
  "spectators (sendto p n a s) = spectators s"
  "bobbas (sendto p n a s) = bobbas s"
  "dragons (sendto p n a s) = dragons s"
  "next_player_id (sendto p n a s) = next_player_id s"
  "next_entity_id (sendto p n a s) = next_entity_id s"
  "state_sequence (sendto p n a s) = state_sequence s"
  "test_multiplayer (sendto p n a s) = test_multiplayer s"
  "rand_tape (sendto p n a s) = rand_tape s"
  "rand_calls (sendto p n a s) = rand_calls s"
  "outbox (sendto p n a s) = outbox s @ [\<lparr>sent_to = a, sent_len = n, sent_pkt = p\<rparr>]"
  by (simp_all add: sendto_def)

lemma fold_sendto:
  "fold (\<lambda>x. sendto p n (f x)) xs s =
     s\<lparr>outbox := outbox s @ map (\<lambda>x. \<lparr>sent_to = f x, sent_len = n, sent_pkt = p\<rparr>) xs\<rparr>"
  by (induction xs arbitrary: s) (simp_all add: sendto_def)

lemma send_to_players_eq:
  "send_to_players p n s =
     s\<lparr>outbox := outbox s @ map (\<lambda>x. \<lparr>sent_to = pl_addr x, sent_len = n, sent_pkt = p\<rparr>)
                              (filter pl_active (players s))\<rparr>"
  by (simp add: send_to_players_def fold_sendto)

lemma send_to_spectators_eq:
  "send_to_spectators p n s =
     s\<lparr>outbox := outbox s @ map (\<lambda>x. \<lparr>sent_to = sp_addr x, sent_len = n, sent_pkt = p\<rparr>)
                              (filter sp_active (spectators s))\<rparr>"
  by (simp add: send_to_spectators_def fold_sendto)

lemma broadcast_world_state_eq:
  "broadcast_world_state s =
     s\<lparr>state_sequence := state_sequence s + 1,
       outbox := outbox s @
         map (\<lambda>a. \<lparr>sent_to = a, sent_len = sizeof_WorldStatePacket,
                   sent_pkt = world_state_packet (s\<lparr>state_sequence := state_sequence s + 1\<rparr>)\<rparr>)
           (recipients s)\<rparr>"
  by (simp add: broadcast_world_state_def Let_def send_to_players_eq send_to_spectators_eq
      recipients_def comp_def)

lemma sizeof_values:
  "sizeof_PacketHeader = 9" "sizeof_PlayerData = 60" "sizeof_WorldStatePacket = 1934"
  "sizeof_JoinPacket = 41" "sizeof_UpdatePacket = 69" "sizeof_JoinAckPacket = 73"
  "sizeof_EntityData = 34" "sizeof_ArrowSpawnPacket = 41" "sizeof_ArrowHitPacket = 29"
  "sizeof_EntityDamagePacket = 21" "sizeof_PlayerDamagePacket = 33" "sizeof_GameRestartPacket = 13"
  by (simp_all add: sizeof_PlayerData_def sizeof_PacketHeader_def sizeof_WorldStatePacket_def
      sizeof_JoinPacket_def sizeof_UpdatePacket_def sizeof_JoinAckPacket_def sizeof_EntityData_def
      sizeof_ArrowSpawnPacket_def sizeof_ArrowHitPacket_def sizeof_EntityDamagePacket_def
      sizeof_PlayerDamagePacket_def sizeof_GameRestartPacket_def)

lemma filter_replicate_False: "\<not> P x \<Longrightarrow> filter P (replicate n x) = []"
  by (induction n) simp_all

lemma first_index_replicate_False: "\<not> P x \<Longrightarrow> first_index P (replicate n x) = None"
  by (induction n) simp_all

subsection \<open>C1: the size of a world-state message\<close>

text \<open>
  C1, as stated, fails: with exactly one active session the world-state datagram is
  \<open>sizeof(WorldStatePacket)\<close> = 1934 bytes long, not 74.
\<close>

theorem world_state_size_counterexample:
  "length (filter pl_active (players one_player_server)) = 1 \<and>
   map sent_len (outbox (broadcast_world_state one_player_server)) = [1934] \<and>
   (1934 :: nat) \<noteq> 74"
  by (simp add: broadcast_world_state_eq recipients_def one_player_server_def empty_server_def
      player_A_def zero_Player_def zero_Spectator_def filter_replicate_False sizeof_values)

text \<open>
  C1, amended: while exactly one session is active, every world-state message is
  1934 = 9 + 4 + 1 + 32 * 60 bytes long: the 9-byte header, the 4-byte state sequence, the
  1-byte count equal to 1, the 60-byte record of that session, and 31 zeroed records. It
  goes to that session and to every active spectator. The header and one record
  (identifier 4, position 12, yaw 4, state 1, combat mode 1, class 1, health 4, animation
  32, active 1) make the first 74 bytes.
\<close>

theorem world_state_size:
  assumes "filter pl_active (players s) = [p]"
  shows "outbox (broadcast_world_state s) = outbox s @
           map (\<lambda>a. \<lparr>sent_to = a, sent_len = 9 + 4 + 1 + 32 * 60,
                     sent_pkt = WorldStatePkt
                       \<lparr>h_type = PKT_WORLD_STATE, h_sequence = state_sequence s + 1,
                        h_player_id = 0\<rparr>
                       (state_sequence s + 1) 1 (pl_data p # replicate 31 zero_PlayerData)\<rparr>)
             (pl_addr p # map sp_addr (filter sp_active (spectators s)))
         \<and> sizeof_PacketHeader = 9 \<and> sizeof_PlayerData = 4 + 12 + 4 + 1 + 1 + 1 + 4 + 32 + 1
         \<and> sizeof_PacketHeader + 4 + 1 + sizeof_PlayerData = 74"
  using assms
  by (simp add: broadcast_world_state_eq recipients_def world_state_packet_def sizeof_values)

theorem world_state_size_witness:
  "filter pl_active (players one_player_server) = [player_A] \<and>
   outbox (broadcast_world_state one_player_server) =
     [\<lparr>sent_to = endpoint_A, sent_len = 1934,
       sent_pkt = WorldStatePkt \<lparr>h_type = PKT_WORLD_STATE, h_sequence = 1, h_player_id = 0\<rparr> 1 1
                    (pl_data player_A # replicate 31 zero_PlayerData)\<rparr>]"
proof -
  have h: "filter pl_active (players one_player_server) = [player_A]"
    by (simp add: one_player_server_def empty_server_def player_A_def zero_Player_def
        filter_replicate_False)
  show ?thesis
    using h world_state_size [OF h]
    by (simp add: one_player_server_def empty_server_def zero_Spectator_def
        filter_replicate_False player_A_def)
qed

subsection \<open>Frame lemmas: what the functions leave unchanged\<close>


lemma rand_eq: "rand s = (rand_tape s (rand_calls s), s\<lparr>rand_calls := rand_calls s + 1\<rparr>)"
  by (simp add: rand_def)

lemma generate_spawn_position_snd:
  "snd (generate_spawn_position s) = s\<lparr>rand_calls := rand_calls s + 3\<rparr>"
  by (simp add: generate_spawn_position_def rand_eq Let_def split: prod.splits)

lemma bobba_pick_roam_direction_snd:
  "snd (bobba_pick_roam_direction b s) = s\<lparr>rand_calls := rand_calls s + 1\<rparr>"
  by (simp add: bobba_pick_roam_direction_def rand_eq Let_def)

lemma send_player_damage_eq:
  "send_player_damage tid dmg eid kx ky kz s =
     (case find_player_by_id s tid of
        None \<Rightarrow> s
      | Some ti \<Rightarrow> s\<lparr>state_sequence := state_sequence s + 1,
            outbox := outbox s @ [\<lparr>sent_to = pl_addr (players s ! ti),
              sent_len = sizeof_PlayerDamagePacket,
              sent_pkt = PlayerDamagePkt
                \<lparr>h_type = PKT_PLAYER_DAMAGE, h_sequence = state_sequence s + 1, h_player_id = 0\<rparr>
                tid dmg eid kx ky kz\<rparr>]\<rparr>)"
  by (simp add: send_player_damage_def sendto_def Let_def split: option.splits)

lemma fold_frame:
  assumes "\<And>i s. Q (f i s) = Q s"
  shows "Q (fold f xs s) = Q s"
  using assms by (induction xs arbitrary: s) simp_all


lemma same_tables_refl [simp]: "same_tables s s"
  by (simp add: same_tables_def)

lemma same_tables_trans: "same_tables s s1 \<Longrightarrow> same_tables s1 s2 \<Longrightarrow> same_tables s s2"
  by (simp add: same_tables_def)

lemma same_tables_rand_calls [simp]: "same_tables s (s\<lparr>rand_calls := n\<rparr>)"
  by (simp add: same_tables_def)

lemma same_tables_send_player_damage [simp]:
  "same_tables s (send_player_damage tid dmg eid kx ky kz s)"
  by (simp add: send_player_damage_eq same_tables_def split: option.splits)

lemma same_tables_pick_roam [simp]: "same_tables s (snd (bobba_pick_roam_direction b s))"
  by (simp add: bobba_pick_roam_direction_snd)

lemma same_tables_attack_tick [simp]: "same_tables s (snd (bobba_attack_tick b d s))"
  by (simp add: bobba_attack_tick_def Let_def split: option.splits)

lemma same_tables_find_target [simp]:
  "same_tables s (snd (snd (snd (bobba_find_target b s))))"
  by (simp add: bobba_find_target_def Let_def split: option.splits prod.splits)
    (metis same_tables_pick_roam snd_conv)

lemma same_tables_state_machine [simp]:
  "same_tables s (snd (bobba_state_machine b tg dt d s))"
  by (simp add: bobba_state_machine_def Let_def split: option.splits)

lemma same_tables_update_bobba_ai [simp]: "same_tables s (snd (update_bobba_ai b d s))"
proof -
  obtain b1 tg dt s1 where ft: "bobba_find_target b s = (b1, tg, dt, s1)"
    by (metis prod_cases4)
  have s1: "same_tables s s1"
    using same_tables_find_target [of s b] by (simp add: ft)
  obtain b2 tg2 dt2 where lt: "bobba_look_for_target b1 tg dt s1 = (b2, tg2, dt2)"
    by (metis prod_cases3)
  have "same_tables s (snd (bobba_state_machine b2 tg2 dt2 d s1))"
    using s1 same_tables_state_machine same_tables_trans by blast
  then show ?thesis
    by (simp add: update_bobba_ai_def Let_def ft lt)
qed


lemma spectators_update_bobba_slot [simp]:
  "spectators (update_bobba_slot d i s) = spectators s"
proof (cases "update_bobba_ai (bobbas s ! i) d s")
  case (Pair b s1)
  with same_tables_update_bobba_ai [of s "bobbas s ! i" d] show ?thesis
    by (simp add: update_bobba_slot_def same_tables_def)
qed

lemma spectators_update_all_bobbas [simp]: "spectators (update_all_bobbas d s) = spectators s"
  unfolding update_all_bobbas_def by (rule fold_frame) simp

lemma spectators_update_all_dragons [simp]: "spectators (update_all_dragons d s) = spectators s"
  unfolding update_all_dragons_def by (rule fold_frame) (simp add: update_dragon_slot_def)

lemma spectators_respawn_all_bobbas [simp]: "spectators (respawn_all_bobbas s) = spectators s"
  unfolding respawn_all_bobbas_def
  by (rule fold_frame) (simp add: respawn_bobba_slot_def rand_eq Let_def)

lemma spectators_respawn_all_players [simp]: "spectators (respawn_all_players s) = spectators s"
  unfolding respawn_all_players_def
proof (rule fold_frame)
  fix i s
  show "spectators (respawn_player_slot i s) = spectators s"
    using generate_spawn_position_snd [of s]
    by (auto simp: respawn_player_slot_def Let_def split: prod.splits)
qed

lemma spectators_broadcast_world_state [simp]:
  "spectators (broadcast_world_state s) = spectators s"
  by (simp add: broadcast_world_state_eq)

lemma broadcast_entity_state_eq:
  "broadcast_entity_state s =
     (if filter b_active (bobbas s) = [] \<and> filter d_active (dragons s) = [] then s
      else s\<lparr>state_sequence := state_sequence s + 1,
             outbox := outbox s @
               (let entities = take MAX_ENTITIES
                      (map bobba_entity (filter b_active (bobbas s)) @
                       map dragon_entity (filter d_active (dragons s)))
                in map (\<lambda>a. \<lparr>sent_to = a,
                     sent_len = sizeof_PacketHeader + 1 + length entities * sizeof_EntityData,
                     sent_pkt = EntityStatePkt
                       \<lparr>h_type = PKT_ENTITY_STATE, h_sequence = state_sequence s + 1,
                        h_player_id = 0\<rparr>
                       (of_nat (length entities)) entities\<rparr>) (recipients s))\<rparr>)"
  by (simp add: broadcast_entity_state_def Let_def send_to_players_eq send_to_spectators_eq
      recipients_def comp_def)

lemma spectators_broadcast_entity_state [simp]:
  "spectators (broadcast_entity_state s) = spectators s"
  by (simp add: broadcast_entity_state_eq)

lemma spectators_handle_game_restart [simp]:
  "spectators (handle_game_restart r q s) = spectators s"
  by (simp add: handle_game_restart_def Let_def send_to_players_eq)

lemma spectators_handle_entity_damage_server [simp]:
  "spectators (handle_entity_damage_server e d a s) = spectators s"
  by (simp add: handle_entity_damage_server_def Let_def split: option.splits)

lemma spectators_handle_update [simp]: "spectators (handle_update p a n s) = spectators s"
  by (simp add: handle_update_def Let_def split: option.splits)

lemma spectators_handle_leave [simp]: "spectators (handle_leave h a s) = spectators s"
  by (simp add: handle_leave_def split: option.splits)

lemma spectators_relay_except_sender [simp]:
  "spectators (relay_except_sender p n a s) = spectators s"
  by (simp add: relay_except_sender_def fold_sendto)

lemma spectators_cleanup [simp]: "spectators (cleanup_inactive_players n s) = spectators s"
  by (simp add: cleanup_inactive_players_def)

lemma first_index_Some:
  "first_index P xs = Some i \<Longrightarrow> i < length xs \<and> P (xs ! i) \<and> (\<forall>j<i. \<not> P (xs ! j))"
proof (induction xs arbitrary: i)
  case Nil
  then show ?case by simp
next
  case (Cons x xs)
  show ?case
  proof (cases "P x")
    case True
    with Cons.prems show ?thesis by simp
  next
    case False
    with Cons.prems obtain j where j: "first_index P xs = Some j" "i = Suc j"
      by auto
    from Cons.IH [OF j(1)] False j(2) show ?thesis
      by (auto simp: nth_Cons split: nat.splits)
  qed
qed

lemma first_index_None: "first_index P xs = None \<Longrightarrow> \<forall>x\<in>set xs. \<not> P x"
  by (induction xs) (auto split: if_splits)

lemma spectator_at_handle_spectate:
  assumes "spectator_at s k a"
  shows "spectator_at (handle_spectate h c n s) k a"
proof (cases "first_index (\<lambda>sp. sp_active sp \<and> same_endpoint (sp_addr sp) c) (spectators s)")
  case (Some i)
  with assms show ?thesis
    by (cases "i = k") (simp_all add: handle_spectate_def spectator_at_def)
next
  case None
  show ?thesis
  proof (cases "first_index (\<lambda>sp. \<not> sp_active sp) (spectators s)")
    case None': None
    with None assms show ?thesis by (simp add: handle_spectate_def)
  next
    case (Some slot)
    from first_index_Some [OF Some] assms have "slot \<noteq> k"
      by (auto simp: spectator_at_def)
    with None Some assms show ?thesis
      by (simp add: handle_spectate_def spectator_at_def Let_def)
  qed
qed

lemma spectator_at_remove_spectator:
  assumes "spectator_at s k a" "\<not> same_endpoint a c"
  shows "spectator_at (remove_spectator c s) k a"
proof (cases "first_index (\<lambda>sp. sp_active sp \<and> same_endpoint (sp_addr sp) c) (spectators s)")
  case None
  with assms show ?thesis by (simp add: remove_spectator_def)
next
  case (Some i)
  from first_index_Some [OF Some] assms have "i \<noteq> k"
    by (auto simp: spectator_at_def)
  with Some assms show ?thesis
    by (simp add: remove_spectator_def spectator_at_def)
qed

lemma spectators_handle_join:
  "spectators (handle_join p c n m s) = spectators (remove_spectator c s)"
proof -
  define s0 where "s0 = remove_spectator c s"
  define s1 where "s1 = s0\<lparr>next_player_id := next_player_id s0 + 1\<rparr>"
  obtain pos s2 where g: "generate_spawn_position s1 = (pos, s2)"
    by (cases "generate_spawn_position s1")
  obtain x y z where pos: "pos = (x, y, z)" by (cases pos)
  from generate_spawn_position_snd [of s1] g have "spectators s2 = spectators s0"
    by (simp add: s1_def)
  then show ?thesis
    unfolding handle_join_def Let_def s0_def [symmetric] s1_def [symmetric] g pos
    by (simp split: option.splits)
qed

lemma spectator_at_cong: "spectators s' = spectators s \<Longrightarrow> spectator_at s' k a = spectator_at s k a"
  by (simp add: spectator_at_def)

lemma spectator_at_dispatch:
  assumes "spectator_at s k a" "\<not> join_from i a"
  shows "spectator_at (dispatch i s) k a"
proof (cases "h_type (buf_header (in_buffer i)) = PKT_JOIN \<and> recv_len i \<ge> int sizeof_JoinPacket")
  case True
  with assms(2) have ne: "\<not> same_endpoint a (in_client_addr i)"
    by (simp add: join_from_def)
  have "spectator_at (handle_join (in_buffer i) (in_client_addr i) (in_time i) (in_time_ack i) s) k a"
    using spectator_at_remove_spectator [OF assms(1) ne]
    by (simp add: spectator_at_cong [OF spectators_handle_join])
  with True assms(1) show ?thesis
    by (simp add: dispatch_def Let_def)
next
  case False
  have "spectator_at (handle_spectate h c n s) k a" for h c n
    by (rule spectator_at_handle_spectate [OF assms(1)])
  moreover have "spectators s' = spectators s \<Longrightarrow> spectator_at s' k a" for s'
    using assms(1) by (simp add: spectator_at_def)
  ultimately show ?thesis
    using False assms(1)
    by (simp add: dispatch_def Let_def relay_arrow_spawn_def relay_arrow_hit_def)

qed

lemma spectator_at_main_iteration:
  assumes "spectator_at s k a" "\<not> join_from i a"
  shows "spectator_at (fst (main_iteration i (s, t))) k a"
proof -
  have "spectators (fst (main_iteration i (s, t))) = spectators (dispatch i s)"
    by (simp add: main_iteration_def Let_def split: prod.splits)
  with spectator_at_dispatch [OF assms] show ?thesis
    by (simp add: spectator_at_def)
qed

subsection \<open>C8: updates from a foreign endpoint\<close>

text \<open>
  C8: an update whose sender endpoint is not the endpoint of the session found for the
  claimed identifier changes nothing: the server state after \<open>handle_update\<close>, and after
  the dispatch of such a packet, is the state before, outbox included.
\<close>

theorem update_address_mismatch:
  assumes "find_player_by_id s (h_player_id (buf_header pkt)) = Some i"
    and "\<not> same_endpoint (pl_addr (players s ! i)) client_addr"
  shows "handle_update pkt client_addr now s = s \<and>
         (\<forall>inp. in_buffer inp = pkt \<and> in_client_addr inp = client_addr \<and>
                h_type (buf_header pkt) = PKT_UPDATE \<longrightarrow> dispatch inp s = s)"
proof -
  have h: "handle_update pkt client_addr t s = s" for t
    using assms by (auto simp: handle_update_def same_endpoint_def Let_def)
  then show ?thesis
    by (auto simp: dispatch_def Let_def)
qed

theorem update_address_mismatch_witness:
  "find_player_by_id one_player_server (h_player_id (buf_header (packet_from_1 PKT_UPDATE))) = Some 0 \<and>
   \<not> same_endpoint (pl_addr (players one_player_server ! 0)) endpoint_B \<and>
   handle_update (packet_from_1 PKT_UPDATE) endpoint_B 5 one_player_server = one_player_server \<and>
   dispatch (input_at 5 69 (packet_from_1 PKT_UPDATE) endpoint_B) one_player_server = one_player_server"
proof -
  have h1: "find_player_by_id one_player_server (h_player_id (buf_header (packet_from_1 PKT_UPDATE))) = Some 0"
    by (simp add: find_player_by_id_def one_player_server_def empty_server_def player_A_def
        packet_from_1_def zero_Player_def)
  have h2: "\<not> same_endpoint (pl_addr (players one_player_server ! 0)) endpoint_B"
    by (simp add: same_endpoint_def one_player_server_def empty_server_def player_A_def
        endpoint_A_def endpoint_B_def)
  from update_address_mismatch [OF h1 h2, of 5] h1 h2 show ?thesis
    by (simp add: input_at_def packet_from_1_def)
qed


subsection \<open>C9: leave\<close>

lemma players_broadcast_world_state [simp]: "players (broadcast_world_state s) = players s"
  by (simp add: broadcast_world_state_eq)

text \<open>
  C9: a leave whose header names the identifier of an active session deactivates that
  session (the first active slot with the identifier) and then broadcasts the world state
  to the remaining recipients; the sender endpoint is not consulted, so a leave from any
  endpoint has this effect. The dispatcher calls \<open>handle_leave\<close> for every leave packet
  that holds a header.
\<close>

theorem leave_from_any_endpoint:
  assumes "find_player_by_id s (h_player_id hdr) = Some i"
  shows "pl_active (players s ! i) \<and> pl_player_id (players s ! i) = h_player_id hdr \<and>
         handle_leave hdr client_addr s =
           broadcast_world_state
             (s\<lparr>players := (players s)[i := (players s ! i)\<lparr>pl_active := False\<rparr>]\<rparr>) \<and>
         \<not> pl_active (players (handle_leave hdr client_addr s) ! i) \<and>
         (\<forall>other_addr. handle_leave hdr other_addr s = handle_leave hdr client_addr s) \<and>
         (\<forall>inp. recv_len inp \<ge> 9 \<and> buf_header (in_buffer inp) = hdr \<and> h_type hdr = PKT_LEAVE \<longrightarrow>
                dispatch inp s = handle_leave hdr (in_client_addr inp) s)"
proof -
  from first_index_Some [OF assms [unfolded find_player_by_id_def]]
  have i: "i < length (players s)" "pl_active (players s ! i)"
    "pl_player_id (players s ! i) = h_player_id hdr"
    by simp_all
  have "dispatch inp s = handle_leave hdr (in_client_addr inp) s"
    if "recv_len inp \<ge> 9" "buf_header (in_buffer inp) = hdr" "h_type hdr = PKT_LEAVE" for inp
    using that by (simp add: dispatch_def Let_def sizeof_values)
  with i assms show ?thesis
    by (simp add: handle_leave_def)
qed

theorem leave_from_any_endpoint_witness:
  "find_player_by_id two_player_server (h_player_id (buf_header (packet_from_1 PKT_LEAVE))) = Some 0 \<and>
   pl_addr (players two_player_server ! 0) = endpoint_A \<and> endpoint_A \<noteq> endpoint_B \<and>
   \<not> pl_active (players (dispatch (input_at 5 9 (packet_from_1 PKT_LEAVE) endpoint_B)
                            two_player_server) ! 0) \<and>
   outbox (dispatch (input_at 5 9 (packet_from_1 PKT_LEAVE) endpoint_B) two_player_server) =
     [\<lparr>sent_to = endpoint_B, sent_len = 1934,
       sent_pkt = WorldStatePkt \<lparr>h_type = PKT_WORLD_STATE, h_sequence = 1, h_player_id = 0\<rparr> 1 1
                    (pl_data player_B # replicate 31 zero_PlayerData)\<rparr>]"
proof -
  have h: "find_player_by_id two_player_server
             (h_player_id (buf_header (packet_from_1 PKT_LEAVE))) = Some 0"
    by (simp add: find_player_by_id_def two_player_server_def empty_server_def player_A_def
        packet_from_1_def zero_Player_def)
  note t = leave_from_any_endpoint [OF h, of endpoint_B]
  have d: "dispatch (input_at 5 9 (packet_from_1 PKT_LEAVE) endpoint_B) two_player_server =
           handle_leave (buf_header (packet_from_1 PKT_LEAVE)) endpoint_B two_player_server"
    using t by (simp add: input_at_def packet_from_1_def)
  have a: "\<not> pl_active (players (handle_leave (buf_header (packet_from_1 PKT_LEAVE)) endpoint_B
             two_player_server) ! 0)"
    using t by blast
  have b: "handle_leave (buf_header (packet_from_1 PKT_LEAVE)) endpoint_B two_player_server =
           broadcast_world_state (two_player_server\<lparr>players :=
             (players two_player_server)[0 := (players two_player_server ! 0)\<lparr>pl_active := False\<rparr>]\<rparr>)"
    using t by blast
  have c: "outbox (handle_leave (buf_header (packet_from_1 PKT_LEAVE)) endpoint_B two_player_server) =
     [\<lparr>sent_to = endpoint_B, sent_len = 1934,
       sent_pkt = WorldStatePkt \<lparr>h_type = PKT_WORLD_STATE, h_sequence = 1, h_player_id = 0\<rparr> 1 1
                    (pl_data player_B # replicate 31 zero_PlayerData)\<rparr>]"
    unfolding b
    by (simp add: broadcast_world_state_eq recipients_def world_state_packet_def
        two_player_server_def empty_server_def player_A_def player_B_def zero_Player_def
        zero_Spectator_def filter_replicate_False sizeof_values)
  have e: "pl_addr (players two_player_server ! 0) = endpoint_A \<and> endpoint_A \<noteq> endpoint_B"
    by (simp add: two_player_server_def empty_server_def player_A_def endpoint_A_def
        endpoint_B_def)
  from h a c e show ?thesis
    unfolding d by blast
qed

subsection \<open>C3: liveness and the packets that do not refresh it\<close>

lemma dispatch_heartbeat:
  "h_type (buf_header (in_buffer inp)) = PKT_HEARTBEAT \<Longrightarrow> dispatch inp s = s"
  by (simp add: dispatch_def Let_def)

lemma dispatch_ping:
  "h_type (buf_header (in_buffer inp)) = PKT_PING \<Longrightarrow> players (dispatch inp s) = players s"
  by (simp add: dispatch_def Let_def)

text \<open>
  C3 fails on the code. The session of player 1 was last seen at second 0. Its own endpoint
  sends a heartbeat (or a ping) at second 11: the dispatch leaves \<open>last_seen\<close> at 0, and the
  reaper running in that second deactivates the session.
\<close>

theorem heartbeat_does_not_refresh_last_seen:
  "pl_active (players one_player_server ! 0) \<and>
   pl_addr (players one_player_server ! 0) = endpoint_A \<and>
   pl_last_seen (players (dispatch (input_at 11 9 (packet_from_1 PKT_HEARTBEAT) endpoint_A)
                            one_player_server) ! 0) = 0 \<and>
   \<not> pl_active (players (cleanup_inactive_players 11
        (dispatch (input_at 11 9 (packet_from_1 PKT_HEARTBEAT) endpoint_A) one_player_server)) ! 0) \<and>
   pl_last_seen (players (dispatch (input_at 11 9 (packet_from_1 PKT_PING) endpoint_A)
                            one_player_server) ! 0) = 0 \<and>
   \<not> pl_active (players (cleanup_inactive_players 11
        (dispatch (input_at 11 9 (packet_from_1 PKT_PING) endpoint_A) one_player_server)) ! 0)"
  by (simp add: dispatch_heartbeat dispatch_ping input_at_def packet_from_1_def
      cleanup_inactive_players_def one_player_server_def empty_server_def player_A_def
      zero_Player_def)

subsection \<open>The restart path\<close>

lemma respawn_bobba_slot_other:
  "j \<noteq> i \<Longrightarrow> bobbas (respawn_bobba_slot i s) ! j = bobbas s ! j"
  by (simp add: respawn_bobba_slot_def rand_eq Let_def)

lemma respawn_bobba_slot_length [simp]:
  "length (bobbas (respawn_bobba_slot i s)) = length (bobbas s)"
  by (simp add: respawn_bobba_slot_def rand_eq Let_def)

lemma respawn_bobba_slot_same:
  "i < length (bobbas s) \<Longrightarrow> b_entity_id (bobbas s ! i) \<noteq> 0 \<Longrightarrow>
   respawned (bobbas (respawn_bobba_slot i s) ! i) \<and>
   b_entity_id (bobbas (respawn_bobba_slot i s) ! i) = b_entity_id (bobbas s ! i)"
  by (simp add: respawn_bobba_slot_def rand_eq Let_def respawned_def)

lemma respawn_fold:
  "n \<le> length (bobbas s) \<Longrightarrow>
   length (bobbas (fold respawn_bobba_slot [0..<n] s)) = length (bobbas s) \<and>
   (\<forall>j<n. b_entity_id (bobbas s ! j) \<noteq> 0 \<longrightarrow>
      respawned (bobbas (fold respawn_bobba_slot [0..<n] s) ! j) \<and>
      b_entity_id (bobbas (fold respawn_bobba_slot [0..<n] s) ! j) = b_entity_id (bobbas s ! j)) \<and>
   (\<forall>j\<ge>n. bobbas (fold respawn_bobba_slot [0..<n] s) ! j = bobbas s ! j)"
proof (induction n)
  case 0
  then show ?case by simp
next
  case (Suc n)
  define s1 where "s1 = fold respawn_bobba_slot [0..<n] s"
  from Suc have ih: "length (bobbas s1) = length (bobbas s)"
    "\<forall>j<n. b_entity_id (bobbas s ! j) \<noteq> 0 \<longrightarrow>
        respawned (bobbas s1 ! j) \<and> b_entity_id (bobbas s1 ! j) = b_entity_id (bobbas s ! j)"
    "\<forall>j\<ge>n. bobbas s1 ! j = bobbas s ! j"
    by (simp_all add: s1_def)
  have f: "fold respawn_bobba_slot [0..<Suc n] s = respawn_bobba_slot n s1"
    by (simp add: s1_def)
  have n: "n < length (bobbas s1)" using Suc.prems ih(1) by simp
  have "respawned (bobbas (respawn_bobba_slot n s1) ! j) \<and>
        b_entity_id (bobbas (respawn_bobba_slot n s1) ! j) = b_entity_id (bobbas s ! j)"
    if "j < Suc n" "b_entity_id (bobbas s ! j) \<noteq> 0" for j
  proof (cases "j = n")
    case True
    with that ih(3) respawn_bobba_slot_same [OF n] show ?thesis by simp
  next
    case False
    with that ih(2) show ?thesis by (simp add: respawn_bobba_slot_other)
  qed
  moreover have "bobbas (respawn_bobba_slot n s1) ! j = bobbas s ! j" if "j \<ge> Suc n" for j
    using that ih(3) by (simp add: respawn_bobba_slot_other)
  ultimately show ?case
    unfolding f using ih(1) by simp
qed

lemma bobbas_respawn_all_players [simp]: "bobbas (respawn_all_players s) = bobbas s"
  unfolding respawn_all_players_def
proof (rule fold_frame)
  fix i s
  show "bobbas (respawn_player_slot i s) = bobbas s"
    using generate_spawn_position_snd [of s]
    by (auto simp: respawn_player_slot_def Let_def split: prod.splits)
qed

lemma bobbas_handle_game_restart:
  "bobbas (handle_game_restart r q s) = bobbas (respawn_all_bobbas s)"
  by (simp add: handle_game_restart_def Let_def send_to_players_eq broadcast_world_state_eq
      broadcast_entity_state_eq)


subsection \<open>C4: a chaser takes damage\<close>

lemma dispatch_entity_damage:
  "h_type (buf_header (in_buffer inp)) = PKT_ENTITY_DAMAGE \<Longrightarrow> recv_len inp \<ge> 21 \<Longrightarrow>
   dispatch inp s = handle_entity_damage_server (buf_entity_id (in_buffer inp))
     (buf_damage (in_buffer inp)) (buf_attacker_id (in_buffer inp)) s"
  by (simp add: dispatch_def Let_def sizeof_values)

text \<open>
  C4, as stated, fails: the chaser of \<open>arena_server\<close> has its hit flag set; 10 points of
  damage stun it and bind the attacker, and the flag is still set.
\<close>

theorem chaser_damage_counterexample:
  "b_has_hit_this_attack (bobbas arena_server ! 0) \<and>
   b_state (bobbas (dispatch (input_at 5 21 (damage_packet 1 10) endpoint_A) arena_server) ! 0)
     = BOBBA_STUNNED \<and>
   b_has_hit_this_attack
     (bobbas (dispatch (input_at 5 21 (damage_packet 1 10) endpoint_A) arena_server) ! 0)"
  by (simp add: dispatch_entity_damage input_at_def damage_packet_def zero_buffer_def
      handle_entity_damage_server_def arena_server_def one_player_server_def empty_server_def
      biting_chaser_def zero_ServerBobba_def)

text \<open>
  C4, amended: when an entity-damage message hits an active chaser and leaves its health
  above zero, the chaser is stunned with a stun timer of 0.5 seconds and the attacker is
  bound as its target; its health drops by the damage and nothing else changes, in
  particular the hit flag keeps its value. When the damage brings the health to zero or
  below, the chaser is deactivated and \<open>handle_game_restart\<close> runs with reason 1, after
  which the chaser (its identifier being non-zero) is active again, roaming at full health,
  with no target and a cleared hit flag.
\<close>

theorem chaser_damage_stuns:
  assumes "first_index (\<lambda>b. b_active b \<and> b_entity_id b = entity_id) (bobbas s) = Some i"
  shows "(b_health (bobbas s ! i) - damage > 0 \<longrightarrow>
           handle_entity_damage_server entity_id damage attacker_id s =
             s\<lparr>bobbas := (bobbas s)[i := (bobbas s ! i)\<lparr>b_health := b_health (bobbas s ! i) - damage,
                  b_stun_timer := 1 / 2, b_state := BOBBA_STUNNED,
                  b_target_player_id := attacker_id\<rparr>]\<rparr> \<and>
           b_state (bobbas (handle_entity_damage_server entity_id damage attacker_id s) ! i)
             = BOBBA_STUNNED \<and>
           b_stun_timer (bobbas (handle_entity_damage_server entity_id damage attacker_id s) ! i)
             = 1 / 2 \<and>
           b_target_player_id (bobbas (handle_entity_damage_server entity_id damage attacker_id s) ! i)
             = attacker_id \<and>
           b_has_hit_this_attack (bobbas (handle_entity_damage_server entity_id damage attacker_id s) ! i)
             = b_has_hit_this_attack (bobbas s ! i)) \<and>
         (b_health (bobbas s ! i) - damage \<le> 0 \<longrightarrow>
           handle_entity_damage_server entity_id damage attacker_id s =
             handle_game_restart 1 0
               (s\<lparr>bobbas := (bobbas s)[i := (bobbas s ! i)\<lparr>b_health := b_health (bobbas s ! i) - damage,
                    b_stun_timer := 1 / 2, b_state := BOBBA_STUNNED,
                    b_target_player_id := attacker_id, b_active := False\<rparr>]\<rparr>) \<and>
           (entity_id \<noteq> 0 \<longrightarrow>
              respawned (bobbas (handle_entity_damage_server entity_id damage attacker_id s) ! i)))"
proof -
  from first_index_Some [OF assms] have i: "i < length (bobbas s)"
    "b_entity_id (bobbas s ! i) = entity_id" by simp_all
  define s1 where "s1 = s\<lparr>bobbas := (bobbas s)[i := (bobbas s ! i)
      \<lparr>b_health := b_health (bobbas s ! i) - damage, b_stun_timer := 1 / 2,
       b_state := BOBBA_STUNNED, b_target_player_id := attacker_id, b_active := False\<rparr>]\<rparr>"
  have "respawned (bobbas (handle_game_restart 1 0 s1) ! i)" if "entity_id \<noteq> 0"
    using respawn_fold [of "length (bobbas s1)" s1] i that
    by (simp add: bobbas_handle_game_restart respawn_all_bobbas_def s1_def)
  with assms i show ?thesis
    by (simp add: handle_entity_damage_server_def Let_def s1_def)
qed

theorem chaser_damage_stuns_witness:
  "first_index (\<lambda>b. b_active b \<and> b_entity_id b = 1) (bobbas arena_server) = Some 0 \<and>
   b_health (bobbas arena_server ! 0) - 10 > 0 \<and>
   b_state (bobbas (handle_entity_damage_server 1 10 1 arena_server) ! 0) = BOBBA_STUNNED \<and>
   b_stun_timer (bobbas (handle_entity_damage_server 1 10 1 arena_server) ! 0) = 1 / 2 \<and>
   b_target_player_id (bobbas (handle_entity_damage_server 1 10 1 arena_server) ! 0) = 1 \<and>
   b_health (bobbas arena_server ! 0) - 150 \<le> 0 \<and> (1 :: 32 word) \<noteq> 0 \<and>
   respawned (bobbas (handle_entity_damage_server 1 150 1 arena_server) ! 0)"
proof -
  have h1: "first_index (\<lambda>b. b_active b \<and> b_entity_id b = 1) (bobbas arena_server) = Some 0"
    by (simp add: arena_server_def biting_chaser_def)
  have h2: "b_health (bobbas arena_server ! 0) - 10 > 0"
    "b_health (bobbas arena_server ! 0) - 150 \<le> 0"
    by (simp_all add: arena_server_def biting_chaser_def)
  have h3: "(1 :: 32 word) \<noteq> 0" by simp
  from chaser_damage_stuns [OF h1, of 10 1] h2(1)
  have a: "b_state (bobbas (handle_entity_damage_server 1 10 1 arena_server) ! 0) = BOBBA_STUNNED \<and>
     b_stun_timer (bobbas (handle_entity_damage_server 1 10 1 arena_server) ! 0) = 1 / 2 \<and>
     b_target_player_id (bobbas (handle_entity_damage_server 1 10 1 arena_server) ! 0) = 1"
    by blast
  from chaser_damage_stuns [OF h1, of 150 1] h2(2) h3
  have b: "respawned (bobbas (handle_entity_damage_server 1 150 1 arena_server) ! 0)"
    by blast
  from h1 h2 h3 a b show ?thesis by blast
qed

subsection \<open>C5: a patroller dies\<close>

text \<open>
  C5, as stated, fails: 600 points of damage kill the patroller of \<open>arena_server\<close>; it is
  deactivated, but nothing is sent (no game-restart message) and neither the chaser nor
  the player is respawned.
\<close>

theorem patroller_death_counterexample:
  "d_active (dragons arena_server ! 0) \<and>
   \<not> d_active (dragons (dispatch (input_at 5 21 (damage_packet 2 600) endpoint_A) arena_server) ! 0) \<and>
   outbox (dispatch (input_at 5 21 (damage_packet 2 600) endpoint_A) arena_server) = [] \<and>
   bobbas (dispatch (input_at 5 21 (damage_packet 2 600) endpoint_A) arena_server) =
     bobbas arena_server \<and>
   players (dispatch (input_at 5 21 (damage_packet 2 600) endpoint_A) arena_server) =
     players arena_server"
  by (simp add: dispatch_entity_damage input_at_def damage_packet_def zero_buffer_def
      handle_entity_damage_server_def arena_server_def one_player_server_def empty_server_def
      biting_chaser_def zero_ServerBobba_def patroller_def zero_ServerDragon_def
      first_index_replicate_False)

text \<open>
  C5, amended: when an entity-damage message names no active chaser but an active
  patroller and reduces its health to zero or below, the patroller is deactivated and that
  is all: no restart is triggered, nothing is sent, and the chasers, the players and the
  sequence counter are unchanged.
\<close>

theorem patroller_death_only_deactivates:
  assumes "first_index (\<lambda>b. b_active b \<and> b_entity_id b = entity_id) (bobbas s) = None"
    and "first_index (\<lambda>d. d_active d \<and> d_entity_id d = entity_id) (dragons s) = Some i"
    and "d_health (dragons s ! i) - damage \<le> 0"
  shows "handle_entity_damage_server entity_id damage attacker_id s =
           s\<lparr>dragons := (dragons s)[i := (dragons s ! i)\<lparr>d_health := d_health (dragons s ! i) - damage,
                d_active := False\<rparr>]\<rparr> \<and>
         \<not> d_active (dragons (handle_entity_damage_server entity_id damage attacker_id s) ! i) \<and>
         outbox (handle_entity_damage_server entity_id damage attacker_id s) = outbox s \<and>
         players (handle_entity_damage_server entity_id damage attacker_id s) = players s \<and>
         bobbas (handle_entity_damage_server entity_id damage attacker_id s) = bobbas s \<and>
         state_sequence (handle_entity_damage_server entity_id damage attacker_id s)
           = state_sequence s"
proof -
  from first_index_Some [OF assms(2)] have "i < length (dragons s)" by simp
  with assms show ?thesis
    by (simp add: handle_entity_damage_server_def Let_def)
qed

theorem patroller_death_only_deactivates_witness:
  "first_index (\<lambda>b. b_active b \<and> b_entity_id b = 2) (bobbas arena_server) = None \<and>
   first_index (\<lambda>d. d_active d \<and> d_entity_id d = 2) (dragons arena_server) = Some 0 \<and>
   d_health (dragons arena_server ! 0) - 600 \<le> 0 \<and>
   \<not> d_active (dragons (handle_entity_damage_server 2 600 1 arena_server) ! 0) \<and>
   outbox (handle_entity_damage_server 2 600 1 arena_server) = outbox arena_server"
proof -
  have h1: "first_index (\<lambda>b. b_active b \<and> b_entity_id b = 2) (bobbas arena_server) = None"
    by (simp add: arena_server_def biting_chaser_def zero_ServerBobba_def
        first_index_replicate_False)
  have h2: "first_index (\<lambda>d. d_active d \<and> d_entity_id d = 2) (dragons arena_server) = Some 0"
    by (simp add: arena_server_def patroller_def)
  have h3: "d_health (dragons arena_server ! 0) - 600 \<le> 0"
    by (simp add: arena_server_def patroller_def)
  from patroller_death_only_deactivates [OF h1 h2 h3, of 1] h1 h2 h3 show ?thesis by blast
qed

subsection \<open>C2: entity damage and the host\<close>

lemma one_less_UINT32_MAX: "(1 :: 32 word) < - 1"
  by (simp add: word_less_nat_alt unsigned_minus_1_eq_mask mask_eq_exp_minus_1)

lemma host_scan_replicate_inactive:
  "\<not> pl_active p \<Longrightarrow> host_scan (replicate n p) i acc = acc"
  by (induction n arbitrary: i) (cases acc, simp)+


lemma outbox_respawn_all_bobbas [simp]: "outbox (respawn_all_bobbas s) = outbox s"
  unfolding respawn_all_bobbas_def
  by (rule fold_frame) (simp add: respawn_bobba_slot_def rand_eq Let_def)

lemma state_sequence_respawn_all_bobbas [simp]:
  "state_sequence (respawn_all_bobbas s) = state_sequence s"
  unfolding respawn_all_bobbas_def
  by (rule fold_frame) (simp add: respawn_bobba_slot_def rand_eq Let_def)

lemma respawn_player_slot_frame:
  "outbox (respawn_player_slot i s) = outbox s \<and>
   state_sequence (respawn_player_slot i s) = state_sequence s"
  using generate_spawn_position_snd [of s]
  by (auto simp: respawn_player_slot_def Let_def split: prod.splits)

lemma outbox_respawn_all_players [simp]: "outbox (respawn_all_players s) = outbox s"
  unfolding respawn_all_players_def
  by (rule fold_frame) (simp add: respawn_player_slot_frame)

lemma state_sequence_respawn_all_players [simp]:
  "state_sequence (respawn_all_players s) = state_sequence s"
  unfolding respawn_all_players_def
  by (rule fold_frame) (simp add: respawn_player_slot_frame)

lemma broadcast_world_state_outbox:
  "\<exists>new. outbox (broadcast_world_state s) = outbox s @ new \<and>
         (\<forall>d\<in>set new. \<not> is_relayed (sent_pkt d))"
  by (simp add: broadcast_world_state_eq world_state_packet_def Let_def)

lemma broadcast_entity_state_outbox:
  "\<exists>new. outbox (broadcast_entity_state s) = outbox s @ new \<and>
         (\<forall>d\<in>set new. \<not> is_relayed (sent_pkt d))"
  by (simp add: broadcast_entity_state_eq Let_def)

lemma handle_game_restart_outbox:
  "\<exists>new. outbox (handle_game_restart r q s) = outbox s @ new \<and>
         (\<forall>d\<in>set new. \<not> is_relayed (sent_pkt d))"
proof -
  define s2 where "s2 = respawn_all_players (respawn_all_bobbas s)"
  define s3 where "s3 = s2\<lparr>state_sequence := state_sequence s2 + 1\<rparr>"
  define packet where "packet = GameRestartPkt
     \<lparr>h_type = PKT_GAME_RESTART, h_sequence = state_sequence s3, h_player_id = 0\<rparr> r"
  define s4 where "s4 = send_to_players packet sizeof_GameRestartPacket s3"
  define s5 where "s5 = broadcast_entity_state s4"
  have r: "handle_game_restart r q s = broadcast_world_state s5"
    by (simp add: handle_game_restart_def Let_def s2_def s3_def packet_def s4_def s5_def)
  obtain n4 where n4: "outbox s4 = outbox s @ n4" "\<forall>d\<in>set n4. \<not> is_relayed (sent_pkt d)"
    by (simp add: s4_def send_to_players_eq s3_def s2_def packet_def)
  obtain n5 where n5: "outbox s5 = outbox s4 @ n5" "\<forall>d\<in>set n5. \<not> is_relayed (sent_pkt d)"
    using broadcast_entity_state_outbox [of s4] unfolding s5_def by blast
  obtain n6 where n6: "outbox (broadcast_world_state s5) = outbox s5 @ n6"
    "\<forall>d\<in>set n6. \<not> is_relayed (sent_pkt d)"
    using broadcast_world_state_outbox [of s5] by blast
  have "outbox (handle_game_restart r q s) = outbox s @ (n4 @ n5 @ n6)"
    by (simp add: r n4 n5 n6)
  moreover have "\<forall>d\<in>set (n4 @ n5 @ n6). \<not> is_relayed (sent_pkt d)"
    using n4 n5 n6 by auto
  ultimately show ?thesis by blast
qed

lemma handle_entity_damage_server_outbox:
  "\<exists>new. outbox (handle_entity_damage_server e dmg a s) = outbox s @ new \<and>
         (\<forall>d\<in>set new. \<not> is_relayed (sent_pkt d))"
proof (cases "first_index (\<lambda>b. b_active b \<and> b_entity_id b = e) (bobbas s)")
  case None
  then show ?thesis
    by (simp add: handle_entity_damage_server_def Let_def split: option.splits)
next
  case (Some i)
  show ?thesis
  proof (cases "b_health (bobbas s ! i) - dmg \<le> 0")
    case True
    define s1 where "s1 = s\<lparr>bobbas := (bobbas s)[i := (bobbas s ! i)
      \<lparr>b_health := b_health (bobbas s ! i) - dmg, b_stun_timer := 1 / 2,
       b_state := BOBBA_STUNNED, b_target_player_id := a, b_active := False\<rparr>]\<rparr>"
    have "handle_entity_damage_server e dmg a s = handle_game_restart 1 0 s1"
      using Some True by (simp add: handle_entity_damage_server_def Let_def s1_def)
    moreover have "outbox s1 = outbox s" by (simp add: s1_def)
    ultimately show ?thesis
      using handle_game_restart_outbox [of 1 0 s1] by simp
  next
    case False
    with Some show ?thesis
      by (simp add: handle_entity_damage_server_def Let_def)
  qed
qed

text \<open>The scan for the host: the slot it returns holds the least identifier below the bound.\<close>

lemma host_scan_result:
  "host_scan ps i (host, low) = (host', low') \<Longrightarrow>
   (\<forall>p\<in>set ps. pl_active p \<longrightarrow> low' \<le> pl_player_id p) \<and> low' \<le> low \<and>
   ((host' = host \<and> low' = low) \<or>
    (\<exists>j<length ps. host' = Some (i + j) \<and> pl_active (ps ! j) \<and> pl_player_id (ps ! j) = low'))"
proof (induction ps arbitrary: i host low)
  case Nil
  then show ?case by simp
next
  case (Cons p ps)
  show ?case
  proof (cases "pl_active p \<and> pl_player_id p < low")
    case True
    with Cons.prems have r: "host_scan ps (Suc i) (Some i, pl_player_id p) = (host', low')"
      by simp
    from Cons.IH [OF r] True show ?thesis
      by (fastforce simp: nth_Cons')
  next
    case False
    with Cons.prems have r: "host_scan ps (Suc i) (host, low) = (host', low')"
      by auto
    from Cons.IH [OF r] False show ?thesis
      by (fastforce simp: nth_Cons')
  qed
qed


text \<open>
  C2, as stated, fails: player 2 sends an entity-damage message while player 1, the
  session with the smallest identifier, is active; the server stuns the chaser and sends
  nothing, to the host or to anyone.
\<close>

theorem entity_damage_relay_counterexample:
  "pl_active (players duel_server ! 0) \<and> pl_player_id (players duel_server ! 0) = 1 \<and>
   pl_active (players duel_server ! 1) \<and> pl_player_id (players duel_server ! 1) = 2 \<and>
   outbox (dispatch (input_at 5 21 damage_packet_of_2 endpoint_B) duel_server) = [] \<and>
   b_state (bobbas (dispatch (input_at 5 21 damage_packet_of_2 endpoint_B) duel_server) ! 0)
     = BOBBA_STUNNED"
  by (simp add: dispatch_entity_damage input_at_def damage_packet_of_2_def zero_buffer_def
      handle_entity_damage_server_def duel_server_def two_player_server_def empty_server_def
      biting_chaser_def zero_ServerBobba_def player_A_def player_B_def)

text \<open>
  C2, amended: an inbound entity-damage message is not re-emitted. The dispatcher hands it
  to \<open>handle_entity_damage_server\<close>, which applies it to the server's own chaser or
  patroller, and no datagram sent as a consequence is a copy of the received message (the
  only ones are the restart and snapshot messages after the death of a chaser). The
  routine \<open>relay_entity_damage\<close>, which the dispatcher does not call, would send the
  message verbatim to exactly one session, the host: an active session whose identifier
  is the smallest among the active sessions (and below \<open>UINT32_MAX\<close>).
\<close>

theorem entity_damage_not_relayed:
  "(h_type (buf_header (in_buffer inp)) = PKT_ENTITY_DAMAGE \<and> recv_len inp \<ge> 21 \<longrightarrow>
      dispatch inp s = handle_entity_damage_server (buf_entity_id (in_buffer inp))
                         (buf_damage (in_buffer inp)) (buf_attacker_id (in_buffer inp)) s \<and>
      (\<exists>new. outbox (dispatch inp s) = outbox s @ new \<and>
             (\<forall>d\<in>set new. \<not> is_relayed (sent_pkt d)))) \<and>
   (\<forall>h. fst (host_scan (players s) 0 (None, - 1)) = Some h \<longrightarrow>
      h < length (players s) \<and> pl_active (players s ! h) \<and>
      (\<forall>p\<in>set (players s). pl_active p \<longrightarrow> pl_player_id (players s ! h) \<le> pl_player_id p) \<and>
      relay_entity_damage pkt n sender_addr s =
        s\<lparr>outbox := outbox s @ [\<lparr>sent_to = pl_addr (players s ! h), sent_len = n,
                                  sent_pkt = RelayedPkt pkt\<rparr>]\<rparr>) \<and>
   (fst (host_scan (players s) 0 (None, - 1)) = None \<longrightarrow>
      relay_entity_damage pkt n sender_addr s = s \<and>
      (\<forall>p\<in>set (players s). pl_active p \<longrightarrow> pl_player_id p = - 1))"
proof (intro conjI impI allI)
  assume a: "h_type (buf_header (in_buffer inp)) = PKT_ENTITY_DAMAGE \<and> recv_len inp \<ge> 21"
  then show d: "dispatch inp s = handle_entity_damage_server (buf_entity_id (in_buffer inp))
                         (buf_damage (in_buffer inp)) (buf_attacker_id (in_buffer inp)) s"
    by (simp add: dispatch_entity_damage)
  show "\<exists>new. outbox (dispatch inp s) = outbox s @ new \<and>
             (\<forall>d\<in>set new. \<not> is_relayed (sent_pkt d))"
    unfolding d by (rule handle_entity_damage_server_outbox)
next
  fix h
  assume h: "fst (host_scan (players s) 0 (None, - 1)) = Some h"
  then obtain low where r: "host_scan (players s) 0 (None, - 1) = (Some h, low)"
    by (cases "host_scan (players s) 0 (None, - 1)") simp
  from host_scan_result [OF r]
  have m: "\<forall>p\<in>set (players s). pl_active p \<longrightarrow> low \<le> pl_player_id p"
    and j: "h < length (players s) \<and> pl_active (players s ! h) \<and> pl_player_id (players s ! h) = low"
    by auto
  from j show "h < length (players s)" "pl_active (players s ! h)" by simp_all
  from m j show "\<forall>p\<in>set (players s). pl_active p \<longrightarrow> pl_player_id (players s ! h) \<le> pl_player_id p"
    by simp
  from h show "relay_entity_damage pkt n sender_addr s =
        s\<lparr>outbox := outbox s @ [\<lparr>sent_to = pl_addr (players s ! h), sent_len = n,
                                  sent_pkt = RelayedPkt pkt\<rparr>]\<rparr>"
    by (simp add: relay_entity_damage_def sendto_def)
next
  assume h: "fst (host_scan (players s) 0 (None, - 1)) = None"
  then obtain low where r: "host_scan (players s) 0 (None, - 1) = (None, low)"
    by (cases "host_scan (players s) 0 (None, - 1)") simp
  from h show "relay_entity_damage pkt n sender_addr s = s"
    by (simp add: relay_entity_damage_def)
  from host_scan_result [OF r] have "low = - 1"
    "\<forall>p\<in>set (players s). pl_active p \<longrightarrow> low \<le> pl_player_id p"
    by auto
  then show "\<forall>p\<in>set (players s). pl_active p \<longrightarrow> pl_player_id p = - 1"
    by (auto simp: word_order.extremum_unique)
qed

theorem entity_damage_not_relayed_witness:
  "h_type (buf_header (in_buffer (input_at 5 21 damage_packet_of_2 endpoint_B))) = PKT_ENTITY_DAMAGE \<and>
   recv_len (input_at 5 21 damage_packet_of_2 endpoint_B) \<ge> 21 \<and>
   dispatch (input_at 5 21 damage_packet_of_2 endpoint_B) duel_server =
     handle_entity_damage_server 1 10 2 duel_server \<and>
   fst (host_scan (players duel_server) 0 (None, - 1)) = Some 0 \<and>
   relay_entity_damage damage_packet_of_2 21 endpoint_B duel_server =
     duel_server\<lparr>outbox := [\<lparr>sent_to = endpoint_A, sent_len = 21,
                              sent_pkt = RelayedPkt damage_packet_of_2\<rparr>]\<rparr>"
proof -
  have h1: "h_type (buf_header (in_buffer (input_at 5 21 damage_packet_of_2 endpoint_B)))
              = PKT_ENTITY_DAMAGE \<and> recv_len (input_at 5 21 damage_packet_of_2 endpoint_B) \<ge> 21"
    by (simp add: input_at_def damage_packet_of_2_def)
  have h2: "fst (host_scan (players duel_server) 0 (None, - 1)) = Some 0"
    by (simp add: duel_server_def two_player_server_def empty_server_def player_A_def
        player_B_def zero_Player_def host_scan_replicate_inactive one_less_UINT32_MAX)
  note t = entity_damage_not_relayed [where inp = "input_at 5 21 damage_packet_of_2 endpoint_B"
      and s = duel_server and pkt = damage_packet_of_2 and n = 21 and sender_addr = endpoint_B]
  from t h1 have a: "dispatch (input_at 5 21 damage_packet_of_2 endpoint_B) duel_server =
      handle_entity_damage_server
        (buf_entity_id (in_buffer (input_at 5 21 damage_packet_of_2 endpoint_B)))
        (buf_damage (in_buffer (input_at 5 21 damage_packet_of_2 endpoint_B)))
        (buf_attacker_id (in_buffer (input_at 5 21 damage_packet_of_2 endpoint_B))) duel_server"
    by blast
  from t h2 have b: "relay_entity_damage damage_packet_of_2 21 endpoint_B duel_server =
      duel_server\<lparr>outbox := outbox duel_server @
        [\<lparr>sent_to = pl_addr (players duel_server ! 0), sent_len = 21,
          sent_pkt = RelayedPkt damage_packet_of_2\<rparr>]\<rparr>"
    by blast
  have c: "outbox duel_server = [] \<and> pl_addr (players duel_server ! 0) = endpoint_A"
    by (simp add: duel_server_def two_player_server_def empty_server_def player_A_def)
  have e: "buf_entity_id (in_buffer (input_at 5 21 damage_packet_of_2 endpoint_B)) = 1 \<and>
           buf_damage (in_buffer (input_at 5 21 damage_packet_of_2 endpoint_B)) = 10 \<and>
           buf_attacker_id (in_buffer (input_at 5 21 damage_packet_of_2 endpoint_B)) = 2"
    by (simp add: input_at_def damage_packet_of_2_def)
  from h1 h2 a b c e show ?thesis by simp
qed

subsection \<open>C10: the reaper and the spectators\<close>

lemma first_index_never: "(\<And>x. x \<in> set xs \<Longrightarrow> \<not> P x) \<Longrightarrow> first_index P xs = None"
  by (induction xs) simp_all

lemma remove_spectator_first:
  assumes "first_index (\<lambda>sp. sp_active sp \<and> same_endpoint (sp_addr sp) c) (spectators s) = Some k"
  shows "\<not> sp_active (spectators (remove_spectator c s) ! k)"
  using first_index_Some [OF assms] assms by (simp add: remove_spectator_def)

lemma full_server_full:
  assumes "players s' = players full_server"
  shows "find_player_by_addr s' endpoint_B = None" and "find_free_slot s' = None"
proof -
  show "find_player_by_addr s' endpoint_B = None"
    unfolding find_player_by_addr_def assms
    by (rule first_index_never)
      (auto simp: full_server_def numbered_player_def same_endpoint_def endpoint_B_def)
  show "find_free_slot s' = None"
    unfolding find_free_slot_def assms
    by (rule first_index_never) (auto simp: full_server_def numbered_player_def)
qed

lemma handle_join_full:
  assumes "find_player_by_addr s c = None" "find_free_slot s = None"
  shows "handle_join p c n m s = remove_spectator c s"
proof -
  have "players (remove_spectator c s) = players s"
    by (simp add: remove_spectator_def split: option.splits)
  then have "find_player_by_addr (remove_spectator c s) c = None"
    "find_free_slot (remove_spectator c s) = None"
    using assms by (simp_all add: find_player_by_addr_def find_free_slot_def)
  then show ?thesis
    by (simp add: handle_join_def Let_def)
qed

text \<open>
  C10, as stated, fails in its last clause: on a full server a join from the spectator's
  endpoint removes the spectator from the table and then finds no free slot, so the
  spectator leaves the table without being promoted: no session is created for its
  endpoint and no join-ack is sent.
\<close>

theorem spectator_removed_counterexample:
  "spectator_at full_server 0 endpoint_B \<and>
   \<not> sp_active (spectators (dispatch (input_at 5 41 (packet_from_1 PKT_JOIN) endpoint_B)
                               full_server) ! 0) \<and>
   players (dispatch (input_at 5 41 (packet_from_1 PKT_JOIN) endpoint_B) full_server) =
     players full_server \<and>
   find_player_by_addr full_server endpoint_B = None \<and>
   outbox (dispatch (input_at 5 41 (packet_from_1 PKT_JOIN) endpoint_B) full_server) = []"
proof -
  have sp: "spectator_at full_server 0 endpoint_B"
    by (simp add: spectator_at_def full_server_def spectator_server_def)
  have rs: "remove_spectator endpoint_B full_server =
            full_server\<lparr>spectators := (spectators full_server)
              [0 := (spectators full_server ! 0)\<lparr>sp_active := False\<rparr>]\<rparr>"
    by (simp add: remove_spectator_def full_server_def spectator_server_def same_endpoint_def)
  have na: "find_player_by_addr s' endpoint_B = None" if "players s' = players full_server" for s'
    using that by (rule full_server_full)
  have nf: "find_free_slot s' = None" if "players s' = players full_server" for s'
    using that by (rule full_server_full)
  have hj: "handle_join p endpoint_B n m full_server =
            full_server\<lparr>spectators := (spectators full_server)
              [0 := (spectators full_server ! 0)\<lparr>sp_active := False\<rparr>]\<rparr>" for p n m
    by (simp add: handle_join_def Let_def rs na nf)
  have d: "dispatch (input_at 5 41 (packet_from_1 PKT_JOIN) endpoint_B) full_server =
           full_server\<lparr>spectators := (spectators full_server)
              [0 := (spectators full_server ! 0)\<lparr>sp_active := False\<rparr>]\<rparr>"
    by (simp add: dispatch_def Let_def input_at_def packet_from_1_def sizeof_values hj)
  have o: "outbox full_server = []"
    by (simp add: full_server_def spectator_server_def empty_server_def)
  have l: "0 < length (spectators full_server)"
    by (simp add: full_server_def spectator_server_def)
  show ?thesis
    using sp na [of full_server] o l by (simp add: d)
qed

text \<open>
  C10, amended: \<open>cleanup_inactive_players\<close> leaves the spectator table unchanged, and an
  active spectator stays active, on its endpoint and in its slot, through any number of
  iterations of the loop, whatever they receive and however much time passes, as long as
  none of them handles a join from that endpoint. An iteration that handles a join from
  an endpoint removes the first active spectator on that endpoint, whether or not the
  join then creates a session. When the endpoint has no session and no player slot is
  free, removing that spectator is all the handler does: no session is created and
  nothing is sent.
\<close>

theorem reaper_spares_spectators:
  "spectators (cleanup_inactive_players now s) = spectators s \<and>
   (spectator_at s k a \<and> (\<forall>i\<in>set ins. \<not> join_from i a) \<longrightarrow>
      spectator_at (fst (main_loop ins (s, t))) k a) \<and>
   (recv_len inp \<ge> int sizeof_JoinPacket \<and> h_type (buf_header (in_buffer inp)) = PKT_JOIN \<and>
    first_index (\<lambda>sp. sp_active sp \<and> same_endpoint (sp_addr sp) (in_client_addr inp))
      (spectators s) = Some k \<longrightarrow>
      \<not> sp_active (spectators (fst (main_iteration inp (s, t))) ! k)) \<and>
   (recv_len inp \<ge> int sizeof_JoinPacket \<and> h_type (buf_header (in_buffer inp)) = PKT_JOIN \<and>
    find_player_by_addr s (in_client_addr inp) = None \<and> find_free_slot s = None \<longrightarrow>
      dispatch inp s = remove_spectator (in_client_addr inp) s)"
proof (intro conjI)
  show "recv_len inp \<ge> int sizeof_JoinPacket \<and> h_type (buf_header (in_buffer inp)) = PKT_JOIN \<and>
    find_player_by_addr s (in_client_addr inp) = None \<and> find_free_slot s = None \<longrightarrow>
      dispatch inp s = remove_spectator (in_client_addr inp) s"
    by (simp add: dispatch_def Let_def sizeof_values handle_join_full)
  show "spectators (cleanup_inactive_players now s) = spectators s" by simp
  show "spectator_at s k a \<and> (\<forall>i\<in>set ins. \<not> join_from i a) \<longrightarrow>
      spectator_at (fst (main_loop ins (s, t))) k a"
  proof (induction ins arbitrary: s t)
    case Nil
    then show ?case by (simp add: main_loop_def)
  next
    case (Cons i ins)
    show ?case
    proof
      assume h: "spectator_at s k a \<and> (\<forall>i\<in>set (i # ins). \<not> join_from i a)"
      obtain s1 t1 where st: "main_iteration i (s, t) = (s1, t1)" by (cases "main_iteration i (s, t)")
      from h spectator_at_main_iteration [of s k a i t] st have "spectator_at s1 k a" by simp
      with Cons.IH [of s1 t1] h have "spectator_at (fst (main_loop ins (s1, t1))) k a" by simp
      then show "spectator_at (fst (main_loop (i # ins) (s, t))) k a"
        by (simp add: main_loop_def st)
    qed
  qed
  show "recv_len inp \<ge> int sizeof_JoinPacket \<and> h_type (buf_header (in_buffer inp)) = PKT_JOIN \<and>
    first_index (\<lambda>sp. sp_active sp \<and> same_endpoint (sp_addr sp) (in_client_addr inp))
      (spectators s) = Some k \<longrightarrow>
      \<not> sp_active (spectators (fst (main_iteration inp (s, t))) ! k)"
  proof
    assume h: "recv_len inp \<ge> int sizeof_JoinPacket \<and> h_type (buf_header (in_buffer inp)) = PKT_JOIN \<and>
      first_index (\<lambda>sp. sp_active sp \<and> same_endpoint (sp_addr sp) (in_client_addr inp))
        (spectators s) = Some k"
    have m: "spectators (fst (main_iteration inp (s, t))) = spectators (dispatch inp s)"
      by (simp add: main_iteration_def Let_def split: prod.splits)
    from h have "dispatch inp s =
        handle_join (in_buffer inp) (in_client_addr inp) (in_time inp) (in_time_ack inp) s"
      by (simp add: dispatch_def Let_def sizeof_values)
    then have "spectators (dispatch inp s) = spectators (remove_spectator (in_client_addr inp) s)"
      by (simp add: spectators_handle_join)
    with h remove_spectator_first show "\<not> sp_active (spectators (fst (main_iteration inp (s, t))) ! k)"
      by (simp add: m)
  qed
qed

theorem reaper_spares_spectators_witness:
  "spectator_at full_server 0 endpoint_B \<and> \<not> join_from idle_input endpoint_B \<and>
   spectator_at (fst (main_loop [idle_input, idle_input] (full_server, zero_timers))) 0
     endpoint_B \<and>
   recv_len (input_at 5 41 (packet_from_1 PKT_JOIN) endpoint_B) \<ge> int sizeof_JoinPacket \<and>
   h_type (buf_header (in_buffer (input_at 5 41 (packet_from_1 PKT_JOIN) endpoint_B))) = PKT_JOIN \<and>
   first_index (\<lambda>sp. sp_active sp \<and> same_endpoint (sp_addr sp)
        (in_client_addr (input_at 5 41 (packet_from_1 PKT_JOIN) endpoint_B)))
      (spectators full_server) = Some 0 \<and>
   \<not> sp_active (spectators (fst (main_iteration (input_at 5 41 (packet_from_1 PKT_JOIN) endpoint_B)
                                   (full_server, zero_timers))) ! 0) \<and>
   find_player_by_addr full_server
     (in_client_addr (input_at 5 41 (packet_from_1 PKT_JOIN) endpoint_B)) = None \<and>
   find_free_slot full_server = None \<and>
   dispatch (input_at 5 41 (packet_from_1 PKT_JOIN) endpoint_B) full_server =
     remove_spectator (in_client_addr (input_at 5 41 (packet_from_1 PKT_JOIN) endpoint_B))
       full_server"
proof -
  have h: "spectator_at full_server 0 endpoint_B \<and>
      (\<forall>i\<in>set [idle_input, idle_input]. \<not> join_from i endpoint_B)"
    by (simp add: spectator_at_def full_server_def spectator_server_def empty_server_def
        join_from_def idle_input_def)
  have j: "recv_len (input_at 5 41 (packet_from_1 PKT_JOIN) endpoint_B) \<ge> int sizeof_JoinPacket \<and>
     h_type (buf_header (in_buffer (input_at 5 41 (packet_from_1 PKT_JOIN) endpoint_B))) = PKT_JOIN \<and>
     first_index (\<lambda>sp. sp_active sp \<and> same_endpoint (sp_addr sp)
          (in_client_addr (input_at 5 41 (packet_from_1 PKT_JOIN) endpoint_B)))
        (spectators full_server) = Some 0"
    by (simp add: input_at_def packet_from_1_def sizeof_values full_server_def
        spectator_server_def same_endpoint_def)
  have f: "find_player_by_addr full_server
       (in_client_addr (input_at 5 41 (packet_from_1 PKT_JOIN) endpoint_B)) = None \<and>
     find_free_slot full_server = None"
    using full_server_full [of full_server] by (simp add: input_at_def)
  note t = reaper_spares_spectators
    [where s = full_server and k = 0 and a = endpoint_B
       and ins = "[idle_input, idle_input]" and t = zero_timers
       and inp = "input_at 5 41 (packet_from_1 PKT_JOIN) endpoint_B"]
  from t h have a: "spectator_at (fst (main_loop [idle_input, idle_input]
      (full_server, zero_timers))) 0 endpoint_B"
    by blast
  from t j have b: "\<not> sp_active (spectators (fst (main_iteration
      (input_at 5 41 (packet_from_1 PKT_JOIN) endpoint_B) (full_server, zero_timers))) ! 0)"
    by blast
  from t j f have d: "dispatch (input_at 5 41 (packet_from_1 PKT_JOIN) endpoint_B) full_server =
     remove_spectator (in_client_addr (input_at 5 41 (packet_from_1 PKT_JOIN) endpoint_B))
       full_server"
    by blast
  have c: "\<not> join_from idle_input endpoint_B" using h by simp
  from h a b c j f d show ?thesis by blast
qed

subsection \<open>C6: the outbound sequence number\<close>

lemma run_segments_append:
  "run_segments Q c (xs @ ys) \<longleftrightarrow>
     run_segments Q c xs \<and> run_segments Q (c + of_nat (length (filter fst xs))) ys"
proof (induction xs arbitrary: c)
  case Nil
  show ?case by simp
next
  case (Cons x xs)
  obtain f g where x: "x = (f, g)" by (cases x)
  show ?case
    by (cases f) (simp_all add: x Cons.IH ac_simps)
qed

lemma run_segments_weaken:
  "run_segments Q c xs \<Longrightarrow> (\<And>p. Q p \<Longrightarrow> Q' p) \<Longrightarrow> run_segments Q' c xs"
proof (induction xs arbitrary: c)
  case Nil
  show ?case by simp
next
  case (Cons x xs)
  obtain f g where x: "x = (f, g)" by (cases x)
  from Cons.prems show ?case
    by (cases f) (simp_all add: x Cons.IH)
qed

lemma numbered_run_same:
  "state_sequence s' = state_sequence s \<Longrightarrow> outbox s' = outbox s \<Longrightarrow> numbered_run Q 0 s s'"
  unfolding numbered_run_def by (rule exI [of _ "[]"]) simp

lemma numbered_run_refl [simp]: "numbered_run Q 0 s s"
  by (simp add: numbered_run_same)

lemma numbered_run_quiet:
  assumes "state_sequence s' = state_sequence s" "outbox s' = outbox s @ new"
    "\<And>d. d \<in> set new \<Longrightarrow> \<not> counter_stamped (sent_pkt d) \<and> Q (sent_pkt d)"
  shows "numbered_run Q 0 s s'"
  unfolding numbered_run_def
  by (intro exI [of _ "[(False, new)]"]) (use assms in simp)

lemma numbered_run_stamp: "stamps_next s s' \<Longrightarrow> numbered_run Q 1 s s'"
proof -
  assume "stamps_next s s'"
  then obtain new where "state_sequence s' = state_sequence s + 1" "outbox s' = outbox s @ new"
    "\<forall>d\<in>set new. counter_stamped (sent_pkt d) \<and>
        h_sequence (pkt_header (sent_pkt d)) = state_sequence s + 1"
    by (auto simp: stamps_next_def)
  then show ?thesis
    unfolding numbered_run_def by (intro exI [of _ "[(True, new)]"]) simp
qed

lemma numbered_run_step:
  assumes "numbered_run Q m s s1" "numbered_run Q n s1 s2"
  shows "numbered_run Q (m + n) s s2"
proof -
  from assms(1) obtain xs where xs: "length (filter fst xs) \<le> m"
    "outbox s1 = outbox s @ concat (map snd xs)" "run_segments Q (state_sequence s) xs"
    "state_sequence s1 = state_sequence s + of_nat (length (filter fst xs))"
    by (auto simp: numbered_run_def)
  from assms(2) obtain ys where ys: "length (filter fst ys) \<le> n"
    "outbox s2 = outbox s1 @ concat (map snd ys)" "run_segments Q (state_sequence s1) ys"
    "state_sequence s2 = state_sequence s1 + of_nat (length (filter fst ys))"
    by (auto simp: numbered_run_def)
  show ?thesis
    unfolding numbered_run_def
    by (intro exI [of _ "xs @ ys"]) (use xs ys in \<open>simp add: run_segments_append\<close>)
qed

lemma numbered_run_mono: "numbered_run Q m s s' \<Longrightarrow> m \<le> n \<Longrightarrow> numbered_run Q n s s'"
  unfolding numbered_run_def by (meson order_trans)

lemma numbered_run_weaken:
  "numbered_run Q n s s' \<Longrightarrow> (\<And>p. Q p \<Longrightarrow> Q' p) \<Longrightarrow> numbered_run Q' n s s'"
  unfolding numbered_run_def using run_segments_weaken [of Q _ _ Q'] by blast

lemma numbered_run_then_same:
  "numbered_run Q n s s1 \<Longrightarrow> state_sequence s2 = state_sequence s1 \<Longrightarrow>
   outbox s2 = outbox s1 \<Longrightarrow> numbered_run Q n s s2"
  using numbered_run_step [of Q n s s1 0 s2] by (simp add: numbered_run_same)

lemma numbered_run_fold:
  assumes "\<And>i s. numbered_run Q 1 s (f i s)"
  shows "numbered_run Q (length xs) s (fold f xs s)"
proof (induction xs arbitrary: s)
  case Nil
  show ?case by simp
next
  case (Cons x xs)
  from numbered_run_step [OF assms [of s x] Cons [of "f x s"]] show ?case by simp
qed

lemma stamps_message_next: "stamps_message ty s s' \<Longrightarrow> stamps_next s s'"
  unfolding stamps_message_def stamps_next_def by blast

lemma stamps_message_broadcast_world_state:
  "stamps_message PKT_WORLD_STATE s (broadcast_world_state s)"
  by (simp add: stamps_message_def broadcast_world_state_eq world_state_packet_def Let_def)

lemma stamps_message_send_to_players:
  "counter_stamped p \<Longrightarrow> h_type (pkt_header p) = ty \<Longrightarrow>
   h_sequence (pkt_header p) = state_sequence s + 1 \<Longrightarrow>
   stamps_message ty s (send_to_players p n (s\<lparr>state_sequence := state_sequence s + 1\<rparr>))"
  by (simp add: stamps_message_def send_to_players_eq)

lemma broadcast_entity_state_cases:
  "broadcast_entity_state s = s \<or> stamps_message PKT_ENTITY_STATE s (broadcast_entity_state s)"
  by (simp add: stamps_message_def broadcast_entity_state_eq Let_def)

lemma send_player_damage_cases:
  "send_player_damage tid dmg eid kx ky kz s = s \<or>
   stamps_message PKT_PLAYER_DAMAGE s (send_player_damage tid dmg eid kx ky kz s)"
  by (simp add: stamps_message_def send_player_damage_eq split: option.splits)

lemma handle_game_restart_steps:
  "\<exists>s4 s5. stamps_message PKT_GAME_RESTART s s4 \<and>
           (s5 = s4 \<or> stamps_message PKT_ENTITY_STATE s4 s5) \<and>
           stamps_message PKT_WORLD_STATE s5 (handle_game_restart r q s)"
proof -
  define s2 where "s2 = respawn_all_players (respawn_all_bobbas s)"
  define packet where "packet = GameRestartPkt
     \<lparr>h_type = PKT_GAME_RESTART, h_sequence = state_sequence s2 + 1, h_player_id = 0\<rparr> r"
  define s4 where "s4 = send_to_players packet sizeof_GameRestartPacket
                          (s2\<lparr>state_sequence := state_sequence s2 + 1\<rparr>)"
  define s5 where "s5 = broadcast_entity_state s4"
  have r: "handle_game_restart r q s = broadcast_world_state s5"
    by (simp add: handle_game_restart_def Let_def s2_def packet_def s4_def s5_def)
  have "stamps_message PKT_GAME_RESTART s2 s4"
    unfolding s4_def by (rule stamps_message_send_to_players) (simp_all add: packet_def)
  then have "stamps_message PKT_GAME_RESTART s s4"
    by (simp add: stamps_message_def s2_def)
  moreover have "s5 = s4 \<or> stamps_message PKT_ENTITY_STATE s4 s5"
    unfolding s5_def by (rule broadcast_entity_state_cases)
  moreover have "stamps_message PKT_WORLD_STATE s5 (handle_game_restart r q s)"
    unfolding r by (rule stamps_message_broadcast_world_state)
  ultimately show ?thesis by blast
qed

lemma dispatch_ping_eq:
  "h_type (buf_header (in_buffer inp)) = PKT_PING \<Longrightarrow> recv_len inp \<ge> 9 \<Longrightarrow>
   dispatch inp s =
     sendto (HeaderPkt \<lparr>h_type = PKT_PONG, h_sequence = h_sequence (buf_header (in_buffer inp)),
                         h_player_id = h_player_id (buf_header (in_buffer inp))\<rparr>)
       9 (in_client_addr inp) s"
  by (simp add: dispatch_def Let_def sizeof_values)

lemma numbered_run_sendto:
  "\<not> counter_stamped p \<Longrightarrow> Q p \<Longrightarrow> numbered_run Q 0 s (sendto p n a s)"
  by (rule numbered_run_quiet [where new = "[\<lparr>sent_to = a, sent_len = n, sent_pkt = p\<rparr>]"])
     (simp_all add: sendto_def)

lemma numbered_run_stamp_or_same:
  assumes "s' = s \<or> stamps_message ty s s'"
  shows "numbered_run Q 1 s s'"
  using assms
proof
  assume "s' = s"
  then show ?thesis using numbered_run_mono [of Q 0 s s 1] by simp
next
  assume "stamps_message ty s s'"
  then show ?thesis by (rule numbered_run_stamp [OF stamps_message_next])
qed

lemma numbered_run_broadcast_world_state: "numbered_run Q 1 s (broadcast_world_state s)"
  by (rule numbered_run_stamp [OF stamps_message_next [OF stamps_message_broadcast_world_state]])

lemma numbered_run_broadcast_entity_state: "numbered_run Q 1 s (broadcast_entity_state s)"
  by (rule numbered_run_stamp_or_same) (rule broadcast_entity_state_cases)

lemma numbered_run_send_player_damage:
  "numbered_run Q 1 s (send_player_damage tid dmg eid kx ky kz s)"
  by (rule numbered_run_stamp_or_same) (rule send_player_damage_cases)

lemma numbered_run_handle_game_restart: "numbered_run Q 3 s (handle_game_restart r q s)"
proof -
  from handle_game_restart_steps [of s r q] obtain s4 s5 where
    a: "stamps_message PKT_GAME_RESTART s s4"
    and b: "s5 = s4 \<or> stamps_message PKT_ENTITY_STATE s4 s5"
    and c: "stamps_message PKT_WORLD_STATE s5 (handle_game_restart r q s)"
    by blast
  from b have "numbered_run Q 1 s4 s5" by (rule numbered_run_stamp_or_same)
  from numbered_run_step [OF numbered_run_step [OF
        numbered_run_stamp [OF stamps_message_next [OF a]] this]
      numbered_run_stamp [OF stamps_message_next [OF c]]]
  show ?thesis by (simp add: numeral_3_eq_3)
qed

lemma numbered_run_handle_entity_damage_server:
  "numbered_run Q 3 s (handle_entity_damage_server e dmg a s)"
proof (cases "first_index (\<lambda>b. b_active b \<and> b_entity_id b = e) (bobbas s)")
  case None
  have "numbered_run Q 0 s (handle_entity_damage_server e dmg a s)"
    using None
    by (auto simp: handle_entity_damage_server_def Let_def intro: numbered_run_same
        split: option.splits)
  then show ?thesis by (rule numbered_run_mono) simp
next
  case (Some i)
  define s1 where "s1 = s\<lparr>bobbas := (bobbas s)[i := (bobbas s ! i)
      \<lparr>b_health := b_health (bobbas s ! i) - dmg, b_stun_timer := 1 / 2,
       b_state := BOBBA_STUNNED, b_target_player_id := a, b_active := False\<rparr>]\<rparr>"
  have "numbered_run Q 0 s s1" by (rule numbered_run_same) (simp_all add: s1_def)
  from numbered_run_step [OF this numbered_run_handle_game_restart [of Q s1 1 0]]
  have r: "numbered_run Q 3 s (handle_game_restart 1 0 s1)" by simp
  have q: "numbered_run Q 3 s (s\<lparr>bobbas := bs\<rparr>)" for bs
    by (rule numbered_run_mono [of Q 0]) (simp_all add: numbered_run_same)
  from Some r q show ?thesis
    by (simp add: handle_entity_damage_server_def Let_def s1_def)
qed

lemma attack_tick_server:
  "snd (bobba_attack_tick b d s) = s \<or>
   (\<exists>kx ky kz. snd (bobba_attack_tick b d s) =
      send_player_damage (b_target_player_id b) BOBBA_ATTACK_DAMAGE (b_entity_id b) kx ky kz s)"
  by (auto simp: bobba_attack_tick_def Let_def split: option.splits)

lemma numbered_run_attack_tick: "numbered_run Q 1 s (snd (bobba_attack_tick b d s))"
proof -
  have "numbered_run Q 1 s s" by (rule numbered_run_mono [of Q 0]) simp_all
  with attack_tick_server [of b d s] numbered_run_send_player_damage [of Q] show ?thesis
    by (elim disjE exE) (simp_all only:)
qed

lemma find_target_server:
  "state_sequence (snd (snd (snd (bobba_find_target b s)))) = state_sequence s \<and>
   outbox (snd (snd (snd (bobba_find_target b s)))) = outbox s"
  by (simp add: bobba_find_target_def Let_def bobba_pick_roam_direction_def rand_eq
      split: option.splits prod.splits)

lemma state_machine_server:
  "state_sequence (snd (bobba_state_machine b tg dt d s)) = state_sequence s \<and>
   outbox (snd (bobba_state_machine b tg dt d s)) = outbox s"
  by (simp add: bobba_state_machine_def Let_def bobba_pick_roam_direction_def rand_eq
      split: option.splits)

lemma numbered_run_update_bobba_ai: "numbered_run Q 1 s (snd (update_bobba_ai b d s))"
proof -
  obtain b1 tg dt s1 where ft: "bobba_find_target b s = (b1, tg, dt, s1)"
    by (metis prod_cases4)
  have s1: "state_sequence s1 = state_sequence s" "outbox s1 = outbox s"
    using find_target_server [of b s] by (simp_all add: ft)
  obtain b2 tg2 dt2 where lt: "bobba_look_for_target b1 tg dt s1 = (b2, tg2, dt2)"
    by (metis prod_cases3)
  have "numbered_run Q 0 s (snd (bobba_state_machine b2 tg2 dt2 d s1))"
    using state_machine_server [of b2 tg2 dt2 d s1] s1 by (simp add: numbered_run_same)
  then have "numbered_run Q 1 s (snd (bobba_state_machine b2 tg2 dt2 d s1))"
    by (rule numbered_run_mono) simp
  moreover have "numbered_run Q 1 s s"
    by (rule numbered_run_mono [of Q 0]) simp_all
  ultimately show ?thesis
    using numbered_run_attack_tick [of Q s b d]
    by (simp add: update_bobba_ai_def Let_def ft lt del: One_nat_def)
qed

lemma numbered_run_update_bobba_slot: "numbered_run Q 1 s (update_bobba_slot d i s)"
proof -
  obtain b s1 where u: "update_bobba_ai (bobbas s ! i) d s = (b, s1)"
    by (cases "update_bobba_ai (bobbas s ! i) d s")
  with numbered_run_update_bobba_ai [of Q s "bobbas s ! i" d] have "numbered_run Q 1 s s1"
    by simp
  then have "numbered_run Q 1 s (s1\<lparr>bobbas := (bobbas s1)[i := b]\<rparr>)"
    by (rule numbered_run_then_same) simp_all
  moreover have "numbered_run Q 1 s s"
    by (rule numbered_run_mono [of Q 0]) simp_all
  ultimately show ?thesis
    by (simp add: update_bobba_slot_def u)
qed

lemma length_bobbas_update_bobba_slot [simp]:
  "length (bobbas (update_bobba_slot d i s)) = length (bobbas s)"
proof (cases "update_bobba_ai (bobbas s ! i) d s")
  case (Pair b s1)
  with same_tables_update_bobba_ai [of s "bobbas s ! i" d] show ?thesis
    by (simp add: update_bobba_slot_def same_tables_def)
qed

lemma numbered_run_update_all_bobbas:
  "numbered_run Q (length (bobbas s)) s (update_all_bobbas d s)"
  unfolding update_all_bobbas_def
  using numbered_run_fold [of Q "update_bobba_slot d" "[0..<length (bobbas s)]" s,
      OF numbered_run_update_bobba_slot]
  by simp

lemma length_bobbas_update_all_bobbas [simp]:
  "length (bobbas (update_all_bobbas d s)) = length (bobbas s)"
  unfolding update_all_bobbas_def
  by (rule fold_frame [where Q = "\<lambda>s. length (bobbas s)"]) simp

lemma update_all_dragons_frame [simp]:
  "bobbas (update_all_dragons d s) = bobbas s"
  "state_sequence (update_all_dragons d s) = state_sequence s"
  "outbox (update_all_dragons d s) = outbox s"
  unfolding update_all_dragons_def
  by (rule fold_frame, simp add: update_dragon_slot_def)+

lemma length_bobbas_respawn_all_bobbas [simp]:
  "length (bobbas (respawn_all_bobbas s)) = length (bobbas s)"
  unfolding respawn_all_bobbas_def
  by (rule fold_frame [where Q = "\<lambda>s. length (bobbas s)"]) simp

lemma length_bobbas_handle_entity_damage_server [simp]:
  "length (bobbas (handle_entity_damage_server e dmg a s)) = length (bobbas s)"
  by (simp add: handle_entity_damage_server_def Let_def bobbas_handle_game_restart
      split: option.splits)

lemma bobbas_handle_join [simp]: "bobbas (handle_join p c n m s) = bobbas s"
proof -
  define s0 where "s0 = remove_spectator c s"
  define s1 where "s1 = s0\<lparr>next_player_id := next_player_id s0 + 1\<rparr>"
  obtain pos s2 where g: "generate_spawn_position s1 = (pos, s2)"
    by (cases "generate_spawn_position s1")
  obtain x y z where pos: "pos = (x, y, z)" by (cases pos)
  have s0: "bobbas s0 = bobbas s"
    by (simp add: s0_def remove_spectator_def split: option.splits)
  from generate_spawn_position_snd [of s1] g have "bobbas s2 = bobbas s"
    by (simp add: s1_def s0)
  then show ?thesis
    unfolding handle_join_def Let_def s0_def [symmetric] s1_def [symmetric] g pos
    by (simp add: s0 broadcast_world_state_eq split: option.splits)
qed

lemma length_bobbas_dispatch [simp]: "length (bobbas (dispatch i s)) = length (bobbas s)"
  by (simp add: dispatch_def Let_def relay_arrow_spawn_def relay_arrow_hit_def
      handle_update_def handle_leave_def handle_spectate_def relay_except_sender_def
      fold_sendto broadcast_world_state_eq bobbas_handle_game_restart split: option.splits)

lemma length_bobbas_main_iteration [simp]:
  "length (bobbas (fst (main_iteration i (s, t)))) = length (bobbas s)"
  by (simp add: main_iteration_def Let_def cleanup_inactive_players_def
      broadcast_world_state_eq broadcast_entity_state_eq split: prod.splits)

lemma numbered_run_handle_join:
  assumes "\<And>h ident dat. h_sequence h = word_of_int m \<Longrightarrow> Q (JoinAckPkt h ident dat)"
  shows "numbered_run Q 1 s (handle_join p c n m s)"
proof -
  define s0 where "s0 = remove_spectator c s"
  define s1 where "s1 = s0\<lparr>next_player_id := next_player_id s0 + 1\<rparr>"
  obtain pos s2 where g: "generate_spawn_position s1 = (pos, s2)"
    by (cases "generate_spawn_position s1")
  obtain x y z where pos: "pos = (x, y, z)" by (cases pos)
  have s0: "state_sequence s0 = state_sequence s" "outbox s0 = outbox s"
    by (simp_all add: s0_def remove_spectator_def split: option.splits)
  from generate_spawn_position_snd [of s1] g
  have s2: "state_sequence s2 = state_sequence s" "outbox s2 = outbox s"
    by (simp_all add: s1_def s0)
  have "numbered_run Q 1 s (broadcast_world_state
          (sendto (JoinAckPkt h i dat) k c (s2\<lparr>players := ps\<rparr>)))"
    if "h_sequence h = word_of_int m" for h i dat k ps
  proof -
    have "numbered_run Q 0 (s2\<lparr>players := ps\<rparr>)
            (sendto (JoinAckPkt h i dat) k c (s2\<lparr>players := ps\<rparr>))"
      by (rule numbered_run_sendto) (simp_all add: assms that)
    moreover have "numbered_run Q 0 s (s2\<lparr>players := ps\<rparr>)"
      by (rule numbered_run_same) (simp_all add: s2)
    ultimately have "numbered_run Q 0 s (sendto (JoinAckPkt h i dat) k c (s2\<lparr>players := ps\<rparr>))"
      using numbered_run_step [of Q 0 s _ 0] by simp
    from numbered_run_step [OF this numbered_run_broadcast_world_state] show ?thesis by simp
  qed
  moreover have "numbered_run Q 1 s (s0\<lparr>players := ps\<rparr>)" for ps
    by (rule numbered_run_mono [of Q 0]) (simp_all add: numbered_run_same s0)
  moreover have "numbered_run Q 1 s s0"
    by (rule numbered_run_mono [of Q 0]) (simp_all add: numbered_run_same s0)
  ultimately show ?thesis
    unfolding handle_join_def Let_def s0_def [symmetric] s1_def [symmetric] g pos
    by (simp split: option.splits del: One_nat_def)
qed

lemma numbered_run_handle_update: "numbered_run Q 0 s (handle_update p c n s)"
  by (simp add: handle_update_def Let_def numbered_run_same split: option.splits)

lemma numbered_run_handle_spectate:
  assumes "\<And>h. h_sequence h = h_sequence hdr \<Longrightarrow> Q (HeaderPkt h)"
  shows "numbered_run Q 0 s (handle_spectate hdr c n s)"
proof -
  have "numbered_run Q 0 s (sendto (HeaderPkt h) k c (s\<lparr>spectators := sps\<rparr>))"
    if "h_sequence h = h_sequence hdr" for h k sps
  proof -
    have "numbered_run Q 0 (s\<lparr>spectators := sps\<rparr>)
            (sendto (HeaderPkt h) k c (s\<lparr>spectators := sps\<rparr>))"
      by (rule numbered_run_sendto) (simp_all add: assms that)
    moreover have "numbered_run Q 0 s (s\<lparr>spectators := sps\<rparr>)"
      by (rule numbered_run_same) simp_all
    ultimately show ?thesis
      using numbered_run_step [of Q 0 s _ 0] by simp
  qed
  moreover have "numbered_run Q 0 s (s\<lparr>spectators := sps\<rparr>)" for sps
    by (rule numbered_run_same) simp_all
  ultimately show ?thesis
    by (simp add: handle_spectate_def Let_def split: option.splits)
qed

lemma numbered_run_handle_leave: "numbered_run Q 1 s (handle_leave h c s)"
proof -
  have "numbered_run Q 1 s (broadcast_world_state (s\<lparr>players := ps\<rparr>))" for ps
  proof -
    have "numbered_run Q 0 s (s\<lparr>players := ps\<rparr>)" by (rule numbered_run_same) simp_all
    from numbered_run_step [OF this numbered_run_broadcast_world_state] show ?thesis by simp
  qed
  then show ?thesis
    using numbered_run_broadcast_world_state [of Q s]
    by (simp add: handle_leave_def del: One_nat_def split: option.splits)
qed

lemma numbered_run_relay_except_sender:
  "Q (RelayedPkt p) \<Longrightarrow> numbered_run Q 0 s (relay_except_sender p n a s)"
  unfolding relay_except_sender_def fold_sendto
  by (rule numbered_run_quiet) auto

lemma numbered_run_cleanup: "numbered_run Q 0 s (cleanup_inactive_players n s)"
  by (simp add: cleanup_inactive_players_def numbered_run_same)

lemma numbered_run_dispatch: "numbered_run (from_request i) 3 s (dispatch i s)"
proof -
  let ?Q = "from_request i"
  have up: "numbered_run ?Q 3 s s'" if "numbered_run ?Q k s s'" "k \<le> 3" for k s'
    using that by (rule numbered_run_mono)
  have j: "numbered_run ?Q 3 s (handle_join (in_buffer i) (in_client_addr i) (in_time i)
             (in_time_ack i) s)"
    by (rule up [OF numbered_run_handle_join]) (simp_all add: from_request_def)
  have u: "numbered_run ?Q 3 s (handle_update (in_buffer i) (in_client_addr i) (in_time i) s)"
    by (rule up [OF numbered_run_handle_update]) simp
  have l: "numbered_run ?Q 3 s (handle_leave (buf_header (in_buffer i)) (in_client_addr i) s)"
    by (rule up [OF numbered_run_handle_leave]) simp
  have p: "numbered_run ?Q 3 s (sendto (HeaderPkt \<lparr>h_type = PKT_PONG,
             h_sequence = h_sequence (buf_header (in_buffer i)),
             h_player_id = h_player_id (buf_header (in_buffer i))\<rparr>)
             sizeof_PacketHeader (in_client_addr i) s)"
    by (rule up [OF numbered_run_sendto]) (simp_all add: from_request_def)
  have r: "numbered_run ?Q 3 s (relay_except_sender (in_buffer i) n (in_client_addr i) s)" for n
    by (rule up [OF numbered_run_relay_except_sender]) (simp_all add: from_request_def)
  have sp: "numbered_run ?Q 3 s (handle_spectate (buf_header (in_buffer i)) (in_client_addr i)
              (in_time i) s)"
    by (rule up [OF numbered_run_handle_spectate]) (simp_all add: from_request_def)
  have z: "numbered_run ?Q 3 s s"
    by (rule up [OF numbered_run_refl]) simp
  show ?thesis
    by (simp add: dispatch_def Let_def relay_arrow_spawn_def relay_arrow_hit_def
        j u l p r sp z numbered_run_handle_entity_damage_server
        numbered_run_handle_game_restart)
qed

lemma numbered_run_main_iteration:
  "numbered_run (from_request i) (messages_per_iteration s) s (fst (main_iteration i (s, t)))"
proof -
  let ?Q = "from_request i"
  define n where "n = length (bobbas s)"
  define s1 where "s1 = dispatch i s"
  have n1: "length (bobbas s1) = n" by (simp add: s1_def n_def)
  have a: "numbered_run ?Q 3 s s1" unfolding s1_def by (rule numbered_run_dispatch)
  have b: "numbered_run ?Q 4 s s2" if "s2 = s1 \<or> s2 = broadcast_world_state s1" for s2
    using that numbered_run_mono [OF a, of 4]
      numbered_run_step [OF a numbered_run_broadcast_world_state [of ?Q s1]]
    by auto
  have c: "numbered_run ?Q (5 + n) s s3"
    if s2: "s2 = s1 \<or> s2 = broadcast_world_state s1"
      and s3: "s3 = s2 \<or> s3 = broadcast_entity_state (update_all_dragons d (update_all_bobbas d s2))"
    for s2 s3 d
  proof -
    have l2: "length (bobbas s2) = n"
      using s2 n1 by (auto simp: broadcast_world_state_eq)
    have "numbered_run ?Q n s2 (update_all_bobbas d s2)"
      using numbered_run_update_all_bobbas [of ?Q s2 d] by (simp add: l2)
    then have "numbered_run ?Q n s2 (update_all_dragons d (update_all_bobbas d s2))"
      by (rule numbered_run_then_same) simp_all
    from numbered_run_step [OF this numbered_run_broadcast_entity_state]
    have "numbered_run ?Q (n + 1) s2
            (broadcast_entity_state (update_all_dragons d (update_all_bobbas d s2)))" .
    from numbered_run_step [OF b [OF s2] this]
    have "numbered_run ?Q (5 + n) s
            (broadcast_entity_state (update_all_dragons d (update_all_bobbas d s2)))"
      by (simp add: ac_simps)
    moreover have "numbered_run ?Q (5 + n) s s2"
      by (rule numbered_run_mono [OF b [OF s2]]) simp
    ultimately show ?thesis using s3 by auto
  qed
  have d: "numbered_run ?Q (5 + n) s s4"
    if "s2 = s1 \<or> s2 = broadcast_world_state s1"
      "s3 = s2 \<or> s3 = broadcast_entity_state (update_all_dragons d (update_all_bobbas d s2))"
      "s4 = s3 \<or> s4 = cleanup_inactive_players k s3"
    for s2 s3 s4 d k
    using that(3) c [OF that(1,2)]
      numbered_run_then_same [OF c [OF that(1,2)], of "cleanup_inactive_players k s3"]
    by (auto simp: cleanup_inactive_players_def)
  define s2 where "s2 = (if elapsed_ms (in_now i) (last_broadcast t) \<ge> BROADCAST_INTERVAL_MS
                         then broadcast_world_state s1 else s1)"
  define dl where "dl = f32 (f32 (real_of_int (elapsed_ms (in_now i) (last_entity_update t))) / 1000)"
  define s3 where "s3 = (if elapsed_ms (in_now i) (last_entity_update t) \<ge> ENTITY_UPDATE_INTERVAL_MS
                         then broadcast_entity_state (update_all_dragons dl (update_all_bobbas dl s2))
                         else s2)"
  define s4 where "s4 = (if elapsed_ms (in_now i) (last_cleanup t) \<ge> 1000
                         then cleanup_inactive_players (in_time_cleanup i) s3 else s3)"
  have e: "fst (main_iteration i (s, t)) = s4"
    by (simp add: main_iteration_def Let_def s1_def s2_def s3_def s4_def dl_def split: prod.splits)
  have "numbered_run ?Q (5 + n) s s4"
    by (rule d [of s2 s3 dl s4 "in_time_cleanup i"]) (simp_all add: s2_def s3_def s4_def)
  then show ?thesis
    by (simp add: messages_per_iteration_def n_def e)
qed

lemma messages_per_iteration_main_iteration [simp]:
  "messages_per_iteration (fst (main_iteration i (s, t))) = messages_per_iteration s"
  by (simp add: messages_per_iteration_def)

lemma numbered_run_main_loop:
  "numbered_run (\<lambda>p. \<exists>i\<in>set ins. from_request i p) (length ins * messages_per_iteration s) s
     (fst (main_loop ins (s, t)))"
proof (induction ins arbitrary: s t)
  case Nil
  show ?case by (simp add: main_loop_def)
next
  case (Cons i ins)
  obtain s1 t1 where m: "main_iteration i (s, t) = (s1, t1)"
    by (cases "main_iteration i (s, t)")
  have k: "messages_per_iteration s1 = messages_per_iteration s"
    using messages_per_iteration_main_iteration [of i s t] by (simp add: m)
  let ?Q = "\<lambda>p. \<exists>j\<in>set (i # ins). from_request j p"
  have "numbered_run (from_request i) (messages_per_iteration s) s s1"
    using numbered_run_main_iteration [of i s t] by (simp add: m)
  then have "numbered_run ?Q (messages_per_iteration s) s s1"
    by (rule numbered_run_weaken) simp
  moreover have "numbered_run ?Q (length ins * messages_per_iteration s) s1
                   (fst (main_loop ins (s1, t1)))"
    using Cons [of s1 t1] unfolding k
    by (rule numbered_run_weaken) simp
  ultimately show ?case
    using numbered_run_step [of ?Q "messages_per_iteration s" s s1]
    by (simp add: main_loop_def m)
qed


lemma unat_plus_count:
  assumes "unat c + k < 2 ^ 32"
  shows "unat (c + of_nat k :: 32 word) = unat c + k"
proof -
  from assms have "k < 2 ^ 32" by simp
  then have k: "unat (of_nat k :: 32 word) = k" by (simp add: unat_of_nat)
  with assms have "unat c + unat (of_nat k :: 32 word) < 2 ^ LENGTH(32)" by simp
  then have "unat (c + of_nat k) = unat c + unat (of_nat k :: 32 word)"
    by (simp only: unat_add_lem)
  with k show ?thesis by simp
qed

lemma stamped_numbers_append [simp]:
  "stamped_numbers (xs @ ys) = stamped_numbers xs @ stamped_numbers ys"
  by (simp add: stamped_numbers_def)

lemma stamped_numbers_none:
  "(\<And>d. d \<in> set g \<Longrightarrow> \<not> counter_stamped (sent_pkt d)) \<Longrightarrow> stamped_numbers g = []"
  by (induction g) (simp_all add: stamped_numbers_def)

lemma stamped_numbers_all:
  "(\<And>d. d \<in> set g \<Longrightarrow> h_sequence (pkt_header (sent_pkt d)) = v) \<Longrightarrow>
   k \<in> set (stamped_numbers g) \<Longrightarrow> k = unat v"
  by (auto simp: stamped_numbers_def)

lemma sorted_constant: "(\<And>k. k \<in> set xs \<Longrightarrow> k = (v :: nat)) \<Longrightarrow> sorted xs"
  by (induction xs) auto

lemma run_segments_numbers:
  assumes "run_segments Q c segs" "unat c + length (filter fst segs) < 2 ^ 32"
  shows "sorted (stamped_numbers (concat (map snd segs))) \<and>
         (\<forall>k\<in>set (stamped_numbers (concat (map snd segs))).
            unat c < k \<and> k \<le> unat c + length (filter fst segs)) \<and>
         (\<forall>d\<in>set (concat (map snd segs)). \<not> counter_stamped (sent_pkt d) \<longrightarrow> Q (sent_pkt d))"
  using assms
proof (induction segs arbitrary: c)
  case Nil
  show ?case by (simp add: stamped_numbers_def)
next
  case (Cons x segs)
  obtain f g where x: "x = (f, g)" by (cases x)
  show ?case
  proof (cases f)
    case False
    from Cons.prems have g: "\<And>d. d \<in> set g \<Longrightarrow> \<not> counter_stamped (sent_pkt d) \<and> Q (sent_pkt d)"
      and r: "run_segments Q c segs" and b: "unat c + length (filter fst segs) < 2 ^ 32"
      by (simp_all add: x False)
    from g have "stamped_numbers g = []" by (intro stamped_numbers_none) simp
    with Cons.IH [OF r b] g show ?thesis
      by (auto simp: x False)
  next
    case True
    from Cons.prems have g: "\<And>d. d \<in> set g \<Longrightarrow> counter_stamped (sent_pkt d) \<and>
          h_sequence (pkt_header (sent_pkt d)) = c + 1"
      and r: "run_segments Q (c + 1) segs"
      and b: "unat c + Suc (length (filter fst segs)) < 2 ^ 32"
      by (simp_all add: x True)
    from b have "unat c + 1 < 2 ^ 32" by simp
    from unat_plus_count [OF this] have u: "unat (c + 1) = unat c + 1" by simp
    from b u have "unat (c + 1) + length (filter fst segs) < 2 ^ 32" by simp
    from Cons.IH [OF r this] have ih:
      "sorted (stamped_numbers (concat (map snd segs)))"
      "\<And>k. k \<in> set (stamped_numbers (concat (map snd segs))) \<Longrightarrow>
         unat c + 1 < k \<and> k \<le> unat c + 1 + length (filter fst segs)"
      "\<And>d. d \<in> set (concat (map snd segs)) \<Longrightarrow> \<not> counter_stamped (sent_pkt d) \<Longrightarrow> Q (sent_pkt d)"
      unfolding u by blast+
    have gk: "k = unat c + 1" if "k \<in> set (stamped_numbers g)" for k
      using stamped_numbers_all [of g "c + 1" k] g that u by simp
    then have "sorted (stamped_numbers g)" by (rule sorted_constant)
    with ih(1) have "sorted (stamped_numbers g @ stamped_numbers (concat (map snd segs)))"
      using gk ih(2) by (fastforce simp: sorted_append)
    moreover have "unat c < k \<and> k \<le> unat c + Suc (length (filter fst segs))"
      if "k \<in> set (stamped_numbers g) \<union> set (stamped_numbers (concat (map snd segs)))" for k
      using that gk [of k] ih(2) [of k] by auto
    moreover have "Q (sent_pkt d)"
      if "d \<in> set g \<union> set (concat (map snd segs))" "\<not> counter_stamped (sent_pkt d)" for d
      using that g [of d] ih(3) [of d] by auto
    ultimately show ?thesis
      by (simp add: x True)
  qed
qed

lemma numbered_run_numbers:
  assumes "numbered_run Q n s s'" "unat (state_sequence s) + n < 2 ^ 32"
  shows "\<exists>new. outbox s' = outbox s @ new \<and> sorted (stamped_numbers new) \<and>
           (\<forall>k\<in>set (stamped_numbers new).
              unat (state_sequence s) < k \<and> k \<le> unat (state_sequence s')) \<and>
           (\<forall>d\<in>set new. \<not> counter_stamped (sent_pkt d) \<longrightarrow> Q (sent_pkt d))"
proof -
  from assms(1) obtain segs where segs: "length (filter fst segs) \<le> n"
    "outbox s' = outbox s @ concat (map snd segs)"
    "run_segments Q (state_sequence s) segs"
    "state_sequence s' = state_sequence s + of_nat (length (filter fst segs))"
    unfolding numbered_run_def by blast
  from segs(1) assms(2) have b: "unat (state_sequence s) + length (filter fst segs) < 2 ^ 32"
    by simp
  from unat_plus_count [OF b] segs(4)
  have "unat (state_sequence s') = unat (state_sequence s) + length (filter fst segs)" by simp
  with run_segments_numbers [OF segs(3) b] segs(2) show ?thesis
    by (intro exI [of _ "concat (map snd segs)"]) simp
qed

text \<open>
  C6, as stated, fails: player 1 pings with sequence number 7 and then with 3; the two
  pongs carry 7 and then 3.
\<close>

theorem pong_sequence_counterexample:
  "sent_sequences (outbox (dispatch (input_at 6 9 second_ping endpoint_A)
      (dispatch (input_at 5 9 (packet_from_1 PKT_PING) endpoint_A) one_player_server))) = [7, 3] \<and>
   map (\<lambda>d. h_type (pkt_header (sent_pkt d))) (outbox (dispatch (input_at 6 9 second_ping endpoint_A)
      (dispatch (input_at 5 9 (packet_from_1 PKT_PING) endpoint_A) one_player_server)))
     = [PKT_PONG, PKT_PONG] \<and>
   \<not> (7 :: 32 word) < 3"
  by (simp add: dispatch_ping_eq input_at_def second_ping_def packet_from_1_def zero_buffer_def
      sent_sequences_def one_player_server_def empty_server_def)

text \<open>
  C6, amended. The counter \<open>state_sequence\<close> is stamped into the world-state,
  entity-state, player-damage and game-restart messages and into no other.

  Each emitter of such a message raises the counter by one (modulo \<open>2^32\<close>) and puts the
  new value into every datagram of the message: \<open>broadcast_world_state\<close> always,
  \<open>broadcast_entity_state\<close> and \<open>send_player_damage\<close> unless they return at once, and
  \<open>handle_game_restart\<close> three times in a row, for its game-restart, entity-state and
  world-state messages. The new value is strictly greater than the counter was, unless
  the counter was \<open>UINT32_MAX\<close>.

  Over one iteration of the loop, and over any number of them, what goes out is a log of
  messages: each message of the four kinds raises the counter by one and carries the new
  value, there are at most five plus the number of chaser slots of them per iteration
  (three from the handler, the periodic world state, one hit per chaser, the entity
  state), the counter moves only with them, and every other datagram carries a number
  taken from the iteration's input, the sequence number of the received packet (pong,
  spectate-ack, relayed arrow packet) or the wall-clock second (join-ack). As long as the counter cannot wrap, the
  numbers of the datagrams of the four kinds are non-decreasing in the order sent and lie
  above the counter at the start and at most at the counter at the end.

  A pong echoes the sequence number (and the sender) of the ping, so two pongs need not
  carry increasing numbers.
\<close>

theorem outbound_sequence_stamping:
  "stamps_message PKT_WORLD_STATE s (broadcast_world_state s) \<and>
   (broadcast_entity_state s = s \<or>
    stamps_message PKT_ENTITY_STATE s (broadcast_entity_state s)) \<and>
   (send_player_damage tid dmg eid kx ky kz s = s \<or>
    stamps_message PKT_PLAYER_DAMAGE s (send_player_damage tid dmg eid kx ky kz s)) \<and>
   (\<exists>s4 s5. stamps_message PKT_GAME_RESTART s s4 \<and>
      (s5 = s4 \<or> stamps_message PKT_ENTITY_STATE s4 s5) \<and>
      stamps_message PKT_WORLD_STATE s5 (handle_game_restart r q s)) \<and>
   (stamps_message ty s s' \<and> state_sequence s \<noteq> - 1 \<longrightarrow>
      state_sequence s < state_sequence s') \<and>
   numbered_run (from_request inp) (messages_per_iteration s) s
     (fst (main_iteration inp (s, t))) \<and>
   numbered_run (\<lambda>p. \<exists>i\<in>set ins. from_request i p) (length ins * messages_per_iteration s) s
     (fst (main_loop ins (s, t))) \<and>
   (unat (state_sequence s) + length ins * messages_per_iteration s < 2 ^ 32 \<longrightarrow>
      (\<exists>new. outbox (fst (main_loop ins (s, t))) = outbox s @ new \<and>
         sorted (stamped_numbers new) \<and>
         (\<forall>k\<in>set (stamped_numbers new).
            unat (state_sequence s) < k \<and>
            k \<le> unat (state_sequence (fst (main_loop ins (s, t))))) \<and>
         (\<forall>d\<in>set new. \<not> counter_stamped (sent_pkt d) \<longrightarrow>
            (\<exists>i\<in>set ins. from_request i (sent_pkt d))))) \<and>
   (h_type (buf_header (in_buffer inp)) = PKT_PING \<and> recv_len inp \<ge> 9 \<longrightarrow>
      dispatch inp s =
        sendto (HeaderPkt \<lparr>h_type = PKT_PONG, h_sequence = h_sequence (buf_header (in_buffer inp)),
                            h_player_id = h_player_id (buf_header (in_buffer inp))\<rparr>)
          9 (in_client_addr inp) s)"
proof (intro conjI impI)
  show "stamps_message PKT_WORLD_STATE s (broadcast_world_state s)"
    by (rule stamps_message_broadcast_world_state)
  show "broadcast_entity_state s = s \<or>
        stamps_message PKT_ENTITY_STATE s (broadcast_entity_state s)"
    by (rule broadcast_entity_state_cases)
  show "send_player_damage tid dmg eid kx ky kz s = s \<or>
        stamps_message PKT_PLAYER_DAMAGE s (send_player_damage tid dmg eid kx ky kz s)"
    by (rule send_player_damage_cases)
  show "\<exists>s4 s5. stamps_message PKT_GAME_RESTART s s4 \<and>
      (s5 = s4 \<or> stamps_message PKT_ENTITY_STATE s4 s5) \<and>
      stamps_message PKT_WORLD_STATE s5 (handle_game_restart r q s)"
    by (rule handle_game_restart_steps)
  show "numbered_run (from_request inp) (messages_per_iteration s) s
          (fst (main_iteration inp (s, t)))"
    by (rule numbered_run_main_iteration)
  show "numbered_run (\<lambda>p. \<exists>i\<in>set ins. from_request i p)
          (length ins * messages_per_iteration s) s (fst (main_loop ins (s, t)))"
    by (rule numbered_run_main_loop)
next
  assume a: "stamps_message ty s s' \<and> state_sequence s \<noteq> - 1"
  then have "state_sequence s < state_sequence s + 1"
    using inc_less_eq_self_iff_eq [of "state_sequence s"] by (simp add: not_le)
  with a show "state_sequence s < state_sequence s'"
    by (simp add: stamps_message_def)
next
  assume "unat (state_sequence s) + length ins * messages_per_iteration s < 2 ^ 32"
  from numbered_run_numbers [OF numbered_run_main_loop this]
  show "\<exists>new. outbox (fst (main_loop ins (s, t))) = outbox s @ new \<and>
         sorted (stamped_numbers new) \<and>
         (\<forall>k\<in>set (stamped_numbers new).
            unat (state_sequence s) < k \<and>
            k \<le> unat (state_sequence (fst (main_loop ins (s, t))))) \<and>
         (\<forall>d\<in>set new. \<not> counter_stamped (sent_pkt d) \<longrightarrow>
            (\<exists>i\<in>set ins. from_request i (sent_pkt d)))" .
next
  assume "h_type (buf_header (in_buffer inp)) = PKT_PING \<and> recv_len inp \<ge> 9"
  then show "dispatch inp s =
        sendto (HeaderPkt \<lparr>h_type = PKT_PONG, h_sequence = h_sequence (buf_header (in_buffer inp)),
                            h_player_id = h_player_id (buf_header (in_buffer inp))\<rparr>)
          9 (in_client_addr inp) s"
    by (simp add: dispatch_ping_eq)
qed


theorem outbound_sequence_stamping_witness:
  "stamps_message PKT_WORLD_STATE one_player_server (broadcast_world_state one_player_server) \<and>
   state_sequence one_player_server \<noteq> - 1 \<and>
   state_sequence one_player_server < state_sequence (broadcast_world_state one_player_server) \<and>
   unat (state_sequence one_player_server) +
     length [input_at 5 9 (packet_from_1 PKT_PING) endpoint_A,
             input_at 6 9 second_ping endpoint_A] * messages_per_iteration one_player_server
     < 2 ^ 32 \<and>
   (\<exists>new. outbox (fst (main_loop [input_at 5 9 (packet_from_1 PKT_PING) endpoint_A,
                                   input_at 6 9 second_ping endpoint_A]
                          (one_player_server, zero_timers))) = outbox one_player_server @ new \<and>
      sorted (stamped_numbers new) \<and>
      (\<forall>k\<in>set (stamped_numbers new).
         unat (state_sequence one_player_server) < k \<and>
         k \<le> unat (state_sequence
                (fst (main_loop [input_at 5 9 (packet_from_1 PKT_PING) endpoint_A,
                                 input_at 6 9 second_ping endpoint_A]
                        (one_player_server, zero_timers))))) \<and>
      (\<forall>d\<in>set new. \<not> counter_stamped (sent_pkt d) \<longrightarrow>
         (\<exists>i\<in>set [input_at 5 9 (packet_from_1 PKT_PING) endpoint_A,
                   input_at 6 9 second_ping endpoint_A]. from_request i (sent_pkt d)))) \<and>
   h_type (buf_header (in_buffer (input_at 5 9 (packet_from_1 PKT_PING) endpoint_A))) = PKT_PING \<and>
   recv_len (input_at 5 9 (packet_from_1 PKT_PING) endpoint_A) \<ge> 9 \<and>
   outbox (dispatch (input_at 5 9 (packet_from_1 PKT_PING) endpoint_A) one_player_server) =
     [\<lparr>sent_to = endpoint_A, sent_len = 9,
       sent_pkt = HeaderPkt \<lparr>h_type = PKT_PONG, h_sequence = 7, h_player_id = 1\<rparr>\<rparr>]"
proof -
  note t = outbound_sequence_stamping [where s = one_player_server
      and s' = "broadcast_world_state one_player_server" and ty = PKT_WORLD_STATE
      and inp = "input_at 5 9 (packet_from_1 PKT_PING) endpoint_A" and t = zero_timers
      and ins = "[input_at 5 9 (packet_from_1 PKT_PING) endpoint_A,
                  input_at 6 9 second_ping endpoint_A]"]
  have h1: "state_sequence one_player_server \<noteq> - 1"
    by (simp add: one_player_server_def empty_server_def)
  have h2: "h_type (buf_header (in_buffer (input_at 5 9 (packet_from_1 PKT_PING) endpoint_A)))
              = PKT_PING \<and> recv_len (input_at 5 9 (packet_from_1 PKT_PING) endpoint_A) \<ge> 9"
    by (simp add: input_at_def packet_from_1_def)
  have h3: "unat (state_sequence one_player_server) +
     length [input_at 5 9 (packet_from_1 PKT_PING) endpoint_A,
             input_at 6 9 second_ping endpoint_A] * messages_per_iteration one_player_server
     < 2 ^ 32"
    by (simp add: messages_per_iteration_def one_player_server_def empty_server_def)
  from t have a: "stamps_message PKT_WORLD_STATE one_player_server
                    (broadcast_world_state one_player_server)"
    by blast
  from t a h1 have b: "state_sequence one_player_server
                         < state_sequence (broadcast_world_state one_player_server)"
    by blast
  from t h3 have c: "\<exists>new. outbox (fst (main_loop [input_at 5 9 (packet_from_1 PKT_PING) endpoint_A,
                                   input_at 6 9 second_ping endpoint_A]
                          (one_player_server, zero_timers))) = outbox one_player_server @ new \<and>
      sorted (stamped_numbers new) \<and>
      (\<forall>k\<in>set (stamped_numbers new).
         unat (state_sequence one_player_server) < k \<and>
         k \<le> unat (state_sequence
                (fst (main_loop [input_at 5 9 (packet_from_1 PKT_PING) endpoint_A,
                                 input_at 6 9 second_ping endpoint_A]
                        (one_player_server, zero_timers))))) \<and>
      (\<forall>d\<in>set new. \<not> counter_stamped (sent_pkt d) \<longrightarrow>
         (\<exists>i\<in>set [input_at 5 9 (packet_from_1 PKT_PING) endpoint_A,
                   input_at 6 9 second_ping endpoint_A]. from_request i (sent_pkt d)))"
    by blast
  from t h2 have "dispatch (input_at 5 9 (packet_from_1 PKT_PING) endpoint_A) one_player_server =
      sendto (HeaderPkt \<lparr>h_type = PKT_PONG,
                h_sequence = h_sequence (buf_header (in_buffer
                   (input_at 5 9 (packet_from_1 PKT_PING) endpoint_A))),
                h_player_id = h_player_id (buf_header (in_buffer
                   (input_at 5 9 (packet_from_1 PKT_PING) endpoint_A)))\<rparr>)
        9 (in_client_addr (input_at 5 9 (packet_from_1 PKT_PING) endpoint_A)) one_player_server"
    by blast
  then have d: "outbox (dispatch (input_at 5 9 (packet_from_1 PKT_PING) endpoint_A)
        one_player_server) =
     [\<lparr>sent_to = endpoint_A, sent_len = 9,
       sent_pkt = HeaderPkt \<lparr>h_type = PKT_PONG, h_sequence = 7, h_player_id = 1\<rparr>\<rparr>]"
    by (simp add: input_at_def packet_from_1_def one_player_server_def empty_server_def)
  from a b c d h1 h2 h3 show ?thesis by blast
qed

subsection \<open>C7: the hit of a chaser's attack\<close>





lemma attack_cycle_done [simp]:
  "b_state b \<noteq> BOBBA_ATTACKING \<Longrightarrow> attack_cycle ts b = (b, [])"
  by (cases ts) auto

lemma attack_cycle_step:
  "b_state b = BOBBA_ATTACKING \<Longrightarrow>
   attack_cycle ((d, s) # ts) b =
     (fst (attack_cycle ts (fst (update_bobba_ai b d s))),
      drop (length (outbox s)) (outbox (snd (update_bobba_ai b d s))) @
      snd (attack_cycle ts (fst (update_bobba_ai b d s))))"
  by (simp split: prod.splits)

declare attack_cycle.simps(2) [simp del]



lemma attack_cycle_append:
  "attack_cycle (ts @ ts') b =
     (fst (attack_cycle ts' (fst (attack_cycle ts b))),
      snd (attack_cycle ts b) @ snd (attack_cycle ts' (fst (attack_cycle ts b))))"
proof (induction ts arbitrary: b)
  case Nil
  show ?case by simp
next
  case (Cons t ts)
  obtain d s where t: "t = (d, s)" by (cases t)
  show ?case
  proof (cases "b_state b = BOBBA_ATTACKING")
    case False
    then show ?thesis by simp
  next
    case True
    show ?thesis
      by (simp add: t Cons.IH attack_cycle_step [OF True])
  qed
qed












lemma replay_step:
  assumes "b_active b" "b_stun_timer b \<le> 0" "b_state b = BOBBA_ATTACKING"
    "b_attack_start_time b = 3 / 2" "\<not> test_multiplayer s"
    "f32 (T - d) = T'" "f32 (1 - f32 (T' / (3 / 2))) < f32 (3 / 10)" "0 < T'"
  shows "attack_cycle ((d, s) # ts) (b\<lparr>b_attack_timer := T\<rparr>) =
         attack_cycle ts (b\<lparr>b_attack_timer := T'\<rparr>)"
proof -
  have "f32 (1 - f32 (T' / b_attack_start_time b)) < f32 (3 / 10)"
    unfolding assms(4) by (rule assms(7))
  with assms(1,2,3,5,6,8)
  have "update_bobba_ai (b\<lparr>b_attack_timer := T\<rparr>) d s = (b\<lparr>b_attack_timer := T'\<rparr>, s)"
    by (simp add: update_bobba_ai_def bobba_attack_tick_def Let_def)
  with assms(3) show ?thesis
    by (simp add: attack_cycle_step)
qed

text \<open>
  Nine ticks of 50 ms into a fresh attack the progress is 629145/2097152, just below
  \<open>0.3f\<close>: no hit has been dealt, and the timer stands at 4404021/4194304.
\<close>

lemma replay_nine_ticks:
  "attack_cycle (replicate 9 (tick_50ms, den_server)) lunging_chaser = (chaser_after_9, [])"
proof -
  let ?t = "(tick_50ms, den_server)"
  have b: "b_active lunging_chaser" "b_stun_timer lunging_chaser \<le> 0"
    "b_state lunging_chaser = BOBBA_ATTACKING" "b_attack_start_time lunging_chaser = 3 / 2"
    by (simp_all add: lunging_chaser_def zero_ServerBobba_def)
  have m: "\<not> test_multiplayer den_server"
    by (simp add: den_server_def player_at_def empty_server_def)
  have r9: "replicate 9 ?t = [?t, ?t, ?t, ?t, ?t, ?t, ?t, ?t, ?t]"
    by (simp add: eval_nat_numeral)
  have c0: "lunging_chaser\<lparr>b_attack_timer := 3 / 2\<rparr> = lunging_chaser"
    by (simp add: lunging_chaser_def)
  note step = replay_step [of lunging_chaser den_server _ tick_50ms, OF b m]
  have t1: "f32 (3 / 2 - tick_50ms) = 6081741 / 4194304" by code_simp
  have p1: "f32 (1 - f32 (6081741 / 4194304 / (3 / 2))) < f32 (3 / 10)" by code_simp
  have t2: "f32 (6081741 / 4194304 - tick_50ms) = 2936013 / 2097152" by code_simp
  have p2: "f32 (1 - f32 (2936013 / 2097152 / (3 / 2))) < f32 (3 / 10)" by code_simp
  have t3: "f32 (2936013 / 2097152 - tick_50ms) = 5662311 / 4194304" by code_simp
  have p3: "f32 (1 - f32 (5662311 / 4194304 / (3 / 2))) < f32 (3 / 10)" by code_simp
  have t4: "f32 (5662311 / 4194304 - tick_50ms) = 1363149 / 1048576" by code_simp
  have p4: "f32 (1 - f32 (1363149 / 1048576 / (3 / 2))) < f32 (3 / 10)" by code_simp
  have t5: "f32 (1363149 / 1048576 - tick_50ms) = 5242881 / 4194304" by code_simp
  have p5: "f32 (1 - f32 (5242881 / 4194304 / (3 / 2))) < f32 (3 / 10)" by code_simp
  have t6: "f32 (5242881 / 4194304 - tick_50ms) = 2516583 / 2097152" by code_simp
  have p6: "f32 (1 - f32 (2516583 / 2097152 / (3 / 2))) < f32 (3 / 10)" by code_simp
  have t7: "f32 (2516583 / 2097152 - tick_50ms) = 4823451 / 4194304" by code_simp
  have p7: "f32 (1 - f32 (4823451 / 4194304 / (3 / 2))) < f32 (3 / 10)" by code_simp
  have t8: "f32 (4823451 / 4194304 - tick_50ms) = 576717 / 524288" by code_simp
  have p8: "f32 (1 - f32 (576717 / 524288 / (3 / 2))) < f32 (3 / 10)" by code_simp
  have t9: "f32 (576717 / 524288 - tick_50ms) = 4404021 / 4194304" by code_simp
  have p9: "f32 (1 - f32 (4404021 / 4194304 / (3 / 2))) < f32 (3 / 10)" by code_simp
  have "attack_cycle (replicate 9 ?t) lunging_chaser =
        attack_cycle [?t, ?t, ?t, ?t, ?t, ?t, ?t, ?t, ?t] (lunging_chaser\<lparr>b_attack_timer := 3 / 2\<rparr>)"
    by (simp only: r9 c0)
  also have "\<dots> = attack_cycle [?t, ?t, ?t, ?t, ?t, ?t, ?t, ?t] (lunging_chaser\<lparr>b_attack_timer := 6081741 / 4194304\<rparr>)"
    by (rule step [OF t1 p1]) simp
  also have "\<dots> = attack_cycle [?t, ?t, ?t, ?t, ?t, ?t, ?t] (lunging_chaser\<lparr>b_attack_timer := 2936013 / 2097152\<rparr>)"
    by (rule step [OF t2 p2]) simp
  also have "\<dots> = attack_cycle [?t, ?t, ?t, ?t, ?t, ?t] (lunging_chaser\<lparr>b_attack_timer := 5662311 / 4194304\<rparr>)"
    by (rule step [OF t3 p3]) simp
  also have "\<dots> = attack_cycle [?t, ?t, ?t, ?t, ?t] (lunging_chaser\<lparr>b_attack_timer := 1363149 / 1048576\<rparr>)"
    by (rule step [OF t4 p4]) simp
  also have "\<dots> = attack_cycle [?t, ?t, ?t, ?t] (lunging_chaser\<lparr>b_attack_timer := 5242881 / 4194304\<rparr>)"
    by (rule step [OF t5 p5]) simp
  also have "\<dots> = attack_cycle [?t, ?t, ?t] (lunging_chaser\<lparr>b_attack_timer := 2516583 / 2097152\<rparr>)"
    by (rule step [OF t6 p6]) simp
  also have "\<dots> = attack_cycle [?t, ?t] (lunging_chaser\<lparr>b_attack_timer := 4823451 / 4194304\<rparr>)"
    by (rule step [OF t7 p7]) simp
  also have "\<dots> = attack_cycle [?t] (lunging_chaser\<lparr>b_attack_timer := 576717 / 524288\<rparr>)"
    by (rule step [OF t8 p8]) simp
  also have "\<dots> = attack_cycle [] (lunging_chaser\<lparr>b_attack_timer := 4404021 / 4194304\<rparr>)"
    by (rule step [OF t9 p9]) simp
  also have "\<dots> = (chaser_after_9, [])"
    by (simp add: chaser_after_9_def)
  finally show ?thesis .
qed


text \<open>The tenth tick lands: the progress is 349525/1048576, inside the window.\<close>

lemma player_of_den:
  "find_player_by_id den_server 1 = Some 0"
  "pl_addr (players den_server ! 0) = endpoint_A"
  "pd_pos_x (pl_data (players den_server ! 0)) = 13 / 2"
  "pd_pos_y (pl_data (players den_server ! 0)) = 0"
  "pd_pos_z (pl_data (players den_server ! 0)) = 7"
  "\<not> test_multiplayer den_server" "state_sequence den_server = 0" "outbox den_server = []"
  by (simp_all add: find_player_by_id_def den_server_def player_at_def empty_server_def
      player_A_def zero_Player_def)

lemma distance_in_den: "distance_3d 5 0 5 (13 / 2) 0 7 = 5 / 2"
proof -
  have a: "f32 (f32 (f32 (f32 (13 / 2 - 5) * f32 (13 / 2 - 5)) + f32 (f32 (0 - 0) * f32 (0 - 0))) +
             f32 (f32 (7 - 5) * f32 (7 - 5))) = 25 / 4"
    by code_simp
  have b: "sqrt (25 / 4) = 5 / 2"
    by (rule real_sqrt_unique) (simp_all add: power2_eq_square)
  have c: "f32 (f64 (5 / 2)) = 5 / 2"
    by code_simp
  show ?thesis
    unfolding distance_3d_def Let_def a b c ..
qed


lemma tenth_tick_lands: "hit_lands chaser_after_9 tick_50ms den_server 0"
proof -
  have p: "attack_progress chaser_after_9 tick_50ms = 349525 / 1048576"
    by code_simp
  have w: "f32 (3 / 10) \<le> 349525 / 1048576" "349525 / 1048576 \<le> f32 (7 / 10)"
    by code_simp+
  have c: "b_active chaser_after_9" "b_stun_timer chaser_after_9 \<le> 0"
    "b_state chaser_after_9 = BOBBA_ATTACKING" "\<not> b_has_hit_this_attack chaser_after_9"
    "b_target_player_id chaser_after_9 = 1" "b_pos_x chaser_after_9 = 5"
    "b_pos_y chaser_after_9 = 0" "b_pos_z chaser_after_9 = 5"
    by (simp_all add: chaser_after_9_def lunging_chaser_def zero_ServerBobba_def)
  show ?thesis
    using w by (simp add: hit_lands_def c p player_of_den distance_in_den)
qed



















text \<open>
  The rest of that attack. The tenth tick leaves the timer at 2097153/2097152 and the hit
  flag set; twenty ticks later the timer is still positive, at 41/134217728, and the
  thirty-first tick takes it to -13421691/268435456 and ends the attack.
\<close>

lemma tick_lands_chaser:
  assumes "hit_lands b d s ti" "f32 (b_attack_timer b - d) = T'" "0 < T'"
  shows "fst (update_bobba_ai b d s) = b\<lparr>b_attack_timer := T', b_has_hit_this_attack := True\<rparr>"
  using assms
  by (simp add: hit_lands_def update_bobba_ai_def bobba_attack_tick_def Let_def
      attack_progress_def)

lemma replay_step_after_hit:
  assumes "b_active b" "b_stun_timer b \<le> 0" "b_state b = BOBBA_ATTACKING"
    "b_has_hit_this_attack b" "\<not> test_multiplayer s" "f32 (T - d) = T'"
  shows "0 < T' \<Longrightarrow> attack_cycle ((d, s) # ts) (b\<lparr>b_attack_timer := T\<rparr>) =
           attack_cycle ts (b\<lparr>b_attack_timer := T'\<rparr>)"
    and "T' \<le> 0 \<Longrightarrow> attack_cycle ((d, s) # ts) (b\<lparr>b_attack_timer := T\<rparr>) =
           (b\<lparr>b_attack_timer := T', b_state := BOBBA_CHASING\<rparr>, [])"
proof -
  from assms have u: "update_bobba_ai (b\<lparr>b_attack_timer := T\<rparr>) d s =
      (if T' \<le> 0 then b\<lparr>b_attack_timer := T', b_state := BOBBA_CHASING\<rparr>
       else b\<lparr>b_attack_timer := T'\<rparr>, s)"
    by (simp add: update_bobba_ai_def bobba_attack_tick_def Let_def)
  show "attack_cycle ((d, s) # ts) (b\<lparr>b_attack_timer := T\<rparr>) =
           attack_cycle ts (b\<lparr>b_attack_timer := T'\<rparr>)" if "0 < T'"
    using that assms(3) by (simp add: attack_cycle_step u)
  show "attack_cycle ((d, s) # ts) (b\<lparr>b_attack_timer := T\<rparr>) =
           (b\<lparr>b_attack_timer := T', b_state := BOBBA_CHASING\<rparr>, [])" if "T' \<le> 0"
    using that assms(3) by (simp add: attack_cycle_step u)
qed

lemma replay_rest_of_attack:
  "attack_cycle (replicate 20 (tick_50ms, den_server))
     (lunging_chaser\<lparr>b_has_hit_this_attack := True, b_attack_timer := 2097153 / 2097152\<rparr>) =
     (lunging_chaser\<lparr>b_has_hit_this_attack := True, b_attack_timer := 41 / 134217728\<rparr>, [])"
  "attack_cycle (replicate 21 (tick_50ms, den_server))
     (lunging_chaser\<lparr>b_has_hit_this_attack := True, b_attack_timer := 2097153 / 2097152\<rparr>) =
     (lunging_chaser\<lparr>b_has_hit_this_attack := True, b_attack_timer := - 13421691 / 268435456,
        b_state := BOBBA_CHASING\<rparr>, [])"
proof -
  let ?t = "(tick_50ms, den_server)"
  let ?h = "lunging_chaser\<lparr>b_has_hit_this_attack := True\<rparr>"
  have b: "b_active ?h" "b_stun_timer ?h \<le> 0" "b_state ?h = BOBBA_ATTACKING"
    "b_has_hit_this_attack ?h"
    by (simp_all add: lunging_chaser_def zero_ServerBobba_def)
  have m: "\<not> test_multiplayer den_server"
    by (simp add: den_server_def player_at_def empty_server_def)
  note step = replay_step_after_hit(1) [of ?h den_server _ tick_50ms, OF b m]
  note last = replay_step_after_hit(2) [of ?h den_server _ tick_50ms, OF b m]
  have r: "replicate 21 ?t = ?t # replicate 20 ?t" "replicate 20 ?t = [?t, ?t, ?t, ?t, ?t, ?t, ?t, ?t, ?t, ?t, ?t, ?t, ?t, ?t, ?t, ?t, ?t, ?t, ?t, ?t]"
    by (simp_all add: eval_nat_numeral)
  have t11: "f32 (2097153 / 2097152 - tick_50ms) = 15938363 / 16777216" by code_simp
  have t12: "f32 (15938363 / 16777216 - tick_50ms) = 7549751 / 8388608" by code_simp
  have t13: "f32 (7549751 / 8388608 - tick_50ms) = 14260641 / 16777216" by code_simp
  have t14: "f32 (14260641 / 16777216 - tick_50ms) = 3355445 / 4194304" by code_simp
  have t15: "f32 (3355445 / 4194304 - tick_50ms) = 12582919 / 16777216" by code_simp
  have t16: "f32 (12582919 / 16777216 - tick_50ms) = 5872029 / 8388608" by code_simp
  have t17: "f32 (5872029 / 8388608 - tick_50ms) = 10905197 / 16777216" by code_simp
  have t18: "f32 (10905197 / 16777216 - tick_50ms) = 314573 / 524288" by code_simp
  have t19: "f32 (314573 / 524288 - tick_50ms) = 9227475 / 16777216" by code_simp
  have t20: "f32 (9227475 / 16777216 - tick_50ms) = 4194307 / 8388608" by code_simp
  have t21: "f32 (4194307 / 8388608 - tick_50ms) = 7549753 / 16777216" by code_simp
  have t22: "f32 (7549753 / 16777216 - tick_50ms) = 1677723 / 4194304" by code_simp
  have t23: "f32 (1677723 / 4194304 - tick_50ms) = 5872031 / 16777216" by code_simp
  have t24: "f32 (5872031 / 16777216 - tick_50ms) = 2516585 / 8388608" by code_simp
  have t25: "f32 (2516585 / 8388608 - tick_50ms) = 4194309 / 16777216" by code_simp
  have t26: "f32 (4194309 / 16777216 - tick_50ms) = 13421793 / 67108864" by code_simp
  have t27: "f32 (13421793 / 67108864 - tick_50ms) = 5033175 / 33554432" by code_simp
  have t28: "f32 (5033175 / 33554432 - tick_50ms) = 6710907 / 67108864" by code_simp
  have t29: "f32 (6710907 / 67108864 - tick_50ms) = 13421855 / 268435456" by code_simp
  have t30: "f32 (13421855 / 268435456 - tick_50ms) = 41 / 134217728" by code_simp
  have t31: "f32 (41 / 134217728 - tick_50ms) = - 13421691 / 268435456" by code_simp
  have c: "attack_cycle ([?t, ?t, ?t, ?t, ?t, ?t, ?t, ?t, ?t, ?t, ?t, ?t, ?t, ?t, ?t, ?t, ?t, ?t, ?t, ?t] @ ts) (?h\<lparr>b_attack_timer := 2097153 / 2097152\<rparr>) =
           attack_cycle ts (?h\<lparr>b_attack_timer := 41 / 134217728\<rparr>)" for ts
  proof -
    have "attack_cycle ([?t, ?t, ?t, ?t, ?t, ?t, ?t, ?t, ?t, ?t, ?t, ?t, ?t, ?t, ?t, ?t, ?t, ?t, ?t, ?t] @ ts) (?h\<lparr>b_attack_timer := 2097153 / 2097152\<rparr>) =
          attack_cycle ([?t, ?t, ?t, ?t, ?t, ?t, ?t, ?t, ?t, ?t, ?t, ?t, ?t, ?t, ?t, ?t, ?t, ?t, ?t] @ ts) (?h\<lparr>b_attack_timer := 15938363 / 16777216\<rparr>)"
      by (simp only: append_Cons) (rule step [OF t11], simp)
    also have "\<dots> = attack_cycle ([?t, ?t, ?t, ?t, ?t, ?t, ?t, ?t, ?t, ?t, ?t, ?t, ?t, ?t, ?t, ?t, ?t, ?t] @ ts) (?h\<lparr>b_attack_timer := 7549751 / 8388608\<rparr>)"
      by (simp only: append_Cons) (rule step [OF t12], simp)
    also have "\<dots> = attack_cycle ([?t, ?t, ?t, ?t, ?t, ?t, ?t, ?t, ?t, ?t, ?t, ?t, ?t, ?t, ?t, ?t, ?t] @ ts) (?h\<lparr>b_attack_timer := 14260641 / 16777216\<rparr>)"
      by (simp only: append_Cons) (rule step [OF t13], simp)
    also have "\<dots> = attack_cycle ([?t, ?t, ?t, ?t, ?t, ?t, ?t, ?t, ?t, ?t, ?t, ?t, ?t, ?t, ?t, ?t] @ ts) (?h\<lparr>b_attack_timer := 3355445 / 4194304\<rparr>)"
      by (simp only: append_Cons) (rule step [OF t14], simp)
    also have "\<dots> = attack_cycle ([?t, ?t, ?t, ?t, ?t, ?t, ?t, ?t, ?t, ?t, ?t, ?t, ?t, ?t, ?t] @ ts) (?h\<lparr>b_attack_timer := 12582919 / 16777216\<rparr>)"
      by (simp only: append_Cons) (rule step [OF t15], simp)
    also have "\<dots> = attack_cycle ([?t, ?t, ?t, ?t, ?t, ?t, ?t, ?t, ?t, ?t, ?t, ?t, ?t, ?t] @ ts) (?h\<lparr>b_attack_timer := 5872029 / 8388608\<rparr>)"
      by (simp only: append_Cons) (rule step [OF t16], simp)
    also have "\<dots> = attack_cycle ([?t, ?t, ?t, ?t, ?t, ?t, ?t, ?t, ?t, ?t, ?t, ?t, ?t] @ ts) (?h\<lparr>b_attack_timer := 10905197 / 16777216\<rparr>)"
      by (simp only: append_Cons) (rule step [OF t17], simp)
    also have "\<dots> = attack_cycle ([?t, ?t, ?t, ?t, ?t, ?t, ?t, ?t, ?t, ?t, ?t, ?t] @ ts) (?h\<lparr>b_attack_timer := 314573 / 524288\<rparr>)"
      by (simp only: append_Cons) (rule step [OF t18], simp)
    also have "\<dots> = attack_cycle ([?t, ?t, ?t, ?t, ?t, ?t, ?t, ?t, ?t, ?t, ?t] @ ts) (?h\<lparr>b_attack_timer := 9227475 / 16777216\<rparr>)"
      by (simp only: append_Cons) (rule step [OF t19], simp)
    also have "\<dots> = attack_cycle ([?t, ?t, ?t, ?t, ?t, ?t, ?t, ?t, ?t, ?t] @ ts) (?h\<lparr>b_attack_timer := 4194307 / 8388608\<rparr>)"
      by (simp only: append_Cons) (rule step [OF t20], simp)
    also have "\<dots> = attack_cycle ([?t, ?t, ?t, ?t, ?t, ?t, ?t, ?t, ?t] @ ts) (?h\<lparr>b_attack_timer := 7549753 / 16777216\<rparr>)"
      by (simp only: append_Cons) (rule step [OF t21], simp)
    also have "\<dots> = attack_cycle ([?t, ?t, ?t, ?t, ?t, ?t, ?t, ?t] @ ts) (?h\<lparr>b_attack_timer := 1677723 / 4194304\<rparr>)"
      by (simp only: append_Cons) (rule step [OF t22], simp)
    also have "\<dots> = attack_cycle ([?t, ?t, ?t, ?t, ?t, ?t, ?t] @ ts) (?h\<lparr>b_attack_timer := 5872031 / 16777216\<rparr>)"
      by (simp only: append_Cons) (rule step [OF t23], simp)
    also have "\<dots> = attack_cycle ([?t, ?t, ?t, ?t, ?t, ?t] @ ts) (?h\<lparr>b_attack_timer := 2516585 / 8388608\<rparr>)"
      by (simp only: append_Cons) (rule step [OF t24], simp)
    also have "\<dots> = attack_cycle ([?t, ?t, ?t, ?t, ?t] @ ts) (?h\<lparr>b_attack_timer := 4194309 / 16777216\<rparr>)"
      by (simp only: append_Cons) (rule step [OF t25], simp)
    also have "\<dots> = attack_cycle ([?t, ?t, ?t, ?t] @ ts) (?h\<lparr>b_attack_timer := 13421793 / 67108864\<rparr>)"
      by (simp only: append_Cons) (rule step [OF t26], simp)
    also have "\<dots> = attack_cycle ([?t, ?t, ?t] @ ts) (?h\<lparr>b_attack_timer := 5033175 / 33554432\<rparr>)"
      by (simp only: append_Cons) (rule step [OF t27], simp)
    also have "\<dots> = attack_cycle ([?t, ?t] @ ts) (?h\<lparr>b_attack_timer := 6710907 / 67108864\<rparr>)"
      by (simp only: append_Cons) (rule step [OF t28], simp)
    also have "\<dots> = attack_cycle ([?t] @ ts) (?h\<lparr>b_attack_timer := 13421855 / 268435456\<rparr>)"
      by (simp only: append_Cons) (rule step [OF t29], simp)
    also have "\<dots> = attack_cycle ([] @ ts) (?h\<lparr>b_attack_timer := 41 / 134217728\<rparr>)"
      by (simp only: append_Cons) (rule step [OF t30], simp)
    finally show ?thesis by simp
  qed
  from c [of "[]"] show "attack_cycle (replicate 20 (tick_50ms, den_server))
     (lunging_chaser\<lparr>b_has_hit_this_attack := True, b_attack_timer := 2097153 / 2097152\<rparr>) =
     (lunging_chaser\<lparr>b_has_hit_this_attack := True, b_attack_timer := 41 / 134217728\<rparr>, [])"
    by (simp add: r(2))
  have "attack_cycle (replicate 21 ?t) (?h\<lparr>b_attack_timer := 2097153 / 2097152\<rparr>) =
        attack_cycle [?t] (?h\<lparr>b_attack_timer := 41 / 134217728\<rparr>)"
    using c [of "[?t]"] by (simp add: eval_nat_numeral)
  also have "\<dots> = (?h\<lparr>b_attack_timer := - 13421691 / 268435456, b_state := BOBBA_CHASING\<rparr>, [])"
    by (rule last [OF t31]) simp
  finally show "attack_cycle (replicate 21 (tick_50ms, den_server))
     (lunging_chaser\<lparr>b_has_hit_this_attack := True, b_attack_timer := 2097153 / 2097152\<rparr>) =
     (lunging_chaser\<lparr>b_has_hit_this_attack := True, b_attack_timer := - 13421691 / 268435456,
        b_state := BOBBA_CHASING\<rparr>, [])"
    by simp
qed

lemma replay_whole_attack:
  "fst (attack_cycle (replicate 30 (tick_50ms, den_server)) lunging_chaser) =
     lunging_chaser\<lparr>b_has_hit_this_attack := True, b_attack_timer := 41 / 134217728\<rparr>"
  "fst (attack_cycle (replicate 31 (tick_50ms, den_server)) lunging_chaser) =
     lunging_chaser\<lparr>b_has_hit_this_attack := True, b_attack_timer := - 13421691 / 268435456,
       b_state := BOBBA_CHASING\<rparr>"
proof -
  let ?t = "(tick_50ms, den_server)"
  have t9: "b_attack_timer chaser_after_9 = 4404021 / 4194304"
    by (simp add: chaser_after_9_def)
  have "f32 (4404021 / 4194304 - tick_50ms) = 2097153 / 2097152"
    by code_simp
  then have t10: "f32 (b_attack_timer chaser_after_9 - tick_50ms) = 2097153 / 2097152"
    by (simp only: t9)
  have n: "fst (update_bobba_ai chaser_after_9 tick_50ms den_server) =
      lunging_chaser\<lparr>b_has_hit_this_attack := True, b_attack_timer := 2097153 / 2097152\<rparr>"
    using tick_lands_chaser [OF tenth_tick_lands t10] by (simp add: chaser_after_9_def)
  have a: "b_state chaser_after_9 = BOBBA_ATTACKING"
    by (simp add: chaser_after_9_def lunging_chaser_def)
  have s: "fst (attack_cycle (replicate 9 ?t @ ?t # ts) lunging_chaser) =
           fst (attack_cycle ts (lunging_chaser\<lparr>b_has_hit_this_attack := True,
                  b_attack_timer := 2097153 / 2097152\<rparr>))" for ts
    by (simp add: attack_cycle_append [of "replicate 9 ?t"] replay_nine_ticks
        attack_cycle_step [OF a] n)
  have k: "(30 :: nat) = 9 + Suc 20" "(31 :: nat) = 9 + Suc 21" by simp_all
  have r: "replicate 30 ?t = replicate 9 ?t @ ?t # replicate 20 ?t"
    "replicate 31 ?t = replicate 9 ?t @ ?t # replicate 21 ?t"
    by (simp_all only: k replicate_add replicate_Suc)
  show "fst (attack_cycle (replicate 30 (tick_50ms, den_server)) lunging_chaser) =
     lunging_chaser\<lparr>b_has_hit_this_attack := True, b_attack_timer := 41 / 134217728\<rparr>"
    by (simp only: r s replay_rest_of_attack fst_conv)
  show "fst (attack_cycle (replicate 31 (tick_50ms, den_server)) lunging_chaser) =
     lunging_chaser\<lparr>b_has_hit_this_attack := True, b_attack_timer := - 13421691 / 268435456,
       b_state := BOBBA_CHASING\<rparr>"
    by (simp only: r s replay_rest_of_attack fst_conv)
qed





end
